theory Spec2Isabelle
  imports Complex_Main
begin

section \<open>Values and device records\<close>

text \<open>
  A device record is the dictionary that \<^verbatim>\<open>request.json()\<close> returns: string keys, and
  values that are JSON scalars. Python distinguishes \<^verbatim>\<open>int\<close> from \<^verbatim>\<open>float\<close>
  (\<^verbatim>\<open>isinstance\<close>, \<^verbatim>\<open>str\<close>), so the two are different constructors; a float is
  modelled by the rational number it stands for. \<^verbatim>\<open>None\<close> is \<open>JNull\<close>.
\<close>

datatype jval = JNull | JBool bool | JInt int | JFloat rat | JStr string

type_synonym device = "string \<rightharpoonup> jval"

text \<open>\<^verbatim>\<open>d.get(k)\<close>: the value, or \<^verbatim>\<open>None\<close> when the key is missing.\<close>

definition dget :: "device \<Rightarrow> string \<Rightarrow> jval" where
  "dget d k = (case d k of None \<Rightarrow> JNull | Some v \<Rightarrow> v)"

text \<open>\<^verbatim>\<open>d.get(k, default)\<close>.\<close>

definition dget_default :: "device \<Rightarrow> string \<Rightarrow> jval \<Rightarrow> jval" where
  "dget_default d k dflt = (case d k of None \<Rightarrow> dflt | Some v \<Rightarrow> v)"

text \<open>\<^verbatim>\<open>k in d\<close>.\<close>

definition has_key :: "device \<Rightarrow> string \<Rightarrow> bool" where
  "has_key d k \<longleftrightarrow> d k \<noteq> None"

text \<open>\<^verbatim>\<open>d.setdefault(k, v)\<close>, as a statement: the dictionary afterwards.\<close>

definition setdefault :: "string \<Rightarrow> jval \<Rightarrow> device \<Rightarrow> device" where
  "setdefault k v d = (if has_key d k then d else d(k \<mapsto> v))"

text \<open>
  The number a Python value stands for in arithmetic and in \<^verbatim>\<open>==\<close> against a number:
  \<^verbatim>\<open>True == 1\<close>, \<^verbatim>\<open>2.0 == 2\<close>; \<^verbatim>\<open>None\<close> and strings are no numbers.
\<close>

fun num_val :: "jval \<Rightarrow> rat option" where
  "num_val (JBool b) = Some (if b then 1 else 0)"
| "num_val (JInt i) = Some (of_int i)"
| "num_val (JFloat r) = Some r"
| "num_val JNull = None"
| "num_val (JStr s) = None"

text \<open>\<^verbatim>\<open>v == k\<close> for an integer constant \<open>k\<close>.\<close>

definition eq_int :: "jval \<Rightarrow> int \<Rightarrow> bool" where
  "eq_int v k \<longleftrightarrow> num_val v = Some (of_int k)"

text \<open>\<^verbatim>\<open>v in ks\<close> for a tuple of integer constants.\<close>

fun in_ints :: "jval \<Rightarrow> int list \<Rightarrow> bool" where
  "in_ints v [] = False"
| "in_ints v (k # ks) = (eq_int v k \<or> in_ints v ks)"

text \<open>
  \<^verbatim>\<open>{k1: v1, ..., kn: vn}.get(v, default)\<close> for a dictionary literal with integer keys:
  a later entry with an equal key replaces an earlier one.
\<close>

fun lookup_int :: "(int \<times> 'a) list \<Rightarrow> jval \<Rightarrow> 'a option" where
  "lookup_int [] v = None"
| "lookup_int ((k, x) # kxs) v =
     (case lookup_int kxs v of
        Some y \<Rightarrow> Some y
      | None \<Rightarrow> if eq_int v k then Some x else None)"

text \<open>Python truthiness of a value (\<^verbatim>\<open>if v:\<close>).\<close>

fun truthy :: "jval \<Rightarrow> bool" where
  "truthy JNull = False"
| "truthy (JBool b) = b"
| "truthy (JInt i) = (i \<noteq> 0)"
| "truthy (JFloat r) = (r \<noteq> 0)"
| "truthy (JStr s) = (s \<noteq> [])"

section \<open>Constants of \<^verbatim>\<open>const.py\<close>\<close>

text \<open>
  \<^verbatim>\<open>const.py\<close> is imported by both source files. Its constants are parameters of the
  model: the vendor's mode codes, the operating-mode codes of a wall unit that mean
  fan-only, and the default among them.
\<close>

record constants =
  DAIKIN_HVAC_MODE_OFF :: int
  DAIKIN_HVAC_MODE_HEAT :: int
  DAIKIN_HVAC_MODE_COOL :: int
  DAIKIN_HVAC_MODE_AUTO :: int
  DAIKIN_HVAC_MODE_AUXHEAT :: int
  DAIKIN_HVAC_MODE_DRY :: int
  WALL_UNIT_FAN_MODE_VALUES :: "int list"
  WALL_UNIT_FAN_MODE_DEFAULT :: int

text \<open>
  Modelled from the spec: the values of \<^verbatim>\<open>const.py\<close>, which the spec gives as
  0 = off, 1 = heat, 2 = cool, 3 = auto and 5 = dry (the codes that
  \<^verbatim>\<open>set_wall_unit_mode\<close> pairs with the constants as well). The auxiliary-heat code and
  the fan-only codes are not given by the spec; the values here are used for concrete
  inputs only.
\<close>

definition skyport_consts :: constants where
  "skyport_consts =
     \<lparr>DAIKIN_HVAC_MODE_OFF = 0, DAIKIN_HVAC_MODE_HEAT = 1, DAIKIN_HVAC_MODE_COOL = 2,
      DAIKIN_HVAC_MODE_AUTO = 3, DAIKIN_HVAC_MODE_AUXHEAT = 4, DAIKIN_HVAC_MODE_DRY = 5,
      WALL_UNIT_FAN_MODE_VALUES = [6], WALL_UNIT_FAN_MODE_DEFAULT = 6\<rparr>"

section \<open>The normalizer (\<^verbatim>\<open>daikinskyport.py\<close>)\<close>

text \<open>\<^verbatim>\<open>DaikinSkyport._is_wall_unit\<close>.\<close>

definition client_is_wall_unit :: "device \<Rightarrow> bool" where
  "client_is_wall_unit device_info \<longleftrightarrow>
     dget device_info ''adptSupportedEquipment'' = JStr ''RA''
     \<or> has_key device_info ''iduOperatingMode''"

text \<open>\<^verbatim>\<open>DaikinSkyport._wall_unit_mode\<close>.\<close>

definition wall_unit_mode :: "constants \<Rightarrow> device \<Rightarrow> int" where
  "wall_unit_mode c device_info =
     (let op_mode = dget device_info ''iduOperatingMode'' in
      if dget device_info ''iduOnOff'' = JBool False \<or> eq_int op_mode (DAIKIN_HVAC_MODE_OFF c)
      then DAIKIN_HVAC_MODE_OFF c
      else if in_ints op_mode (WALL_UNIT_FAN_MODE_VALUES c)
      then WALL_UNIT_FAN_MODE_DEFAULT c
      else (case lookup_int
                  [(1, DAIKIN_HVAC_MODE_HEAT c), (2, DAIKIN_HVAC_MODE_COOL c),
                   (3, DAIKIN_HVAC_MODE_AUTO c), (5, DAIKIN_HVAC_MODE_DRY c)] op_mode of
              Some m \<Rightarrow> m
            | None \<Rightarrow> DAIKIN_HVAC_MODE_OFF c))"

text \<open>
  \<^verbatim>\<open>if k not in d and src in d: d[k] = d[src]\<close>, the backfill of a canonical field.
\<close>

definition backfill :: "string \<Rightarrow> string \<Rightarrow> device \<Rightarrow> device" where
  "backfill k src d =
     (if \<not> has_key d k \<and> has_key d src then d(k \<mapsto> the (d src)) else d)"

text \<open>The statements of the wall-unit branch of \<^verbatim>\<open>_normalize_device_info\<close>, in order.\<close>

definition norm_mode :: "constants \<Rightarrow> device \<Rightarrow> device" where
  "norm_mode c d = (if \<not> has_key d ''mode'' then d(''mode'' \<mapsto> JInt (wall_unit_mode c d)) else d)"

definition norm_fan_mode_value :: "constants \<Rightarrow> device \<Rightarrow> device" where
  "norm_fan_mode_value c d =
     (let op_mode = dget d ''iduOperatingMode'' in
      if dget d ''iduOnOff'' = JBool True \<and> in_ints op_mode (WALL_UNIT_FAN_MODE_VALUES c)
      then d(''wallUnitFanModeValue'' \<mapsto> op_mode)
      else setdefault ''wallUnitFanModeValue'' (JInt (WALL_UNIT_FAN_MODE_DEFAULT c)) d)"

definition norm_backfills :: "device \<Rightarrow> device" where
  "norm_backfills d =
     backfill ''hspHome'' ''hspActive''
       (backfill ''cspHome'' ''cspActive''
         (backfill ''hspActive'' ''iduHeatSetpoint''
           (backfill ''cspActive'' ''iduCoolSetpoint''
             (backfill ''tempIndoor'' ''iduRoomTemp'' d))))"

definition norm_defaults :: "device \<Rightarrow> device" where
  "norm_defaults d =
     (let d1 = setdefault ''geofencingAway'' (JBool False) d;
          d2 = setdefault ''schedOverride'' (JInt 0) d1;
          d3 = setdefault ''schedEnabled'' (JBool False) d2;
          d4 = setdefault ''fanCirculate'' (JInt 0) d3;
          d5 = setdefault ''fanCirculateSpeed'' (JInt 0) d4;
          d6 = setdefault ''nightModeActive'' (JBool False) d5;
          d7 = setdefault ''nightModeEnabled'' (JBool False) d6;
          d8 = setdefault ''displayLockPIN'' (JInt 0) d7;
          d9 = setdefault ''alertMediaAirFilterDays'' (JInt 0) d8
      in setdefault ''statFirmware'' (dget d9 ''adptSWversion'') d9)"

text \<open>
  \<^verbatim>\<open>DaikinSkyport._normalize_device_info\<close>. The Python mutates the dictionary and returns
  it; the model returns the dictionary afterwards.
\<close>

definition normalize_device_info :: "constants \<Rightarrow> device \<Rightarrow> device" where
  "normalize_device_info c device_info =
     (if device_info = Map.empty then device_info
      else if client_is_wall_unit device_info then
        norm_defaults
          (norm_backfills
            (norm_fan_mode_value c
              (norm_mode c (device_info(''device_type'' \<mapsto> JStr ''wall_unit'')))))
      else device_info)"

section \<open>Classification in the entity layer (\<^verbatim>\<open>climate.py\<close>)\<close>

text \<open>The module-level \<^verbatim>\<open>_is_wall_unit\<close> of \<^verbatim>\<open>climate.py\<close>.\<close>

definition is_wall_unit :: "device \<Rightarrow> bool" where
  "is_wall_unit thermostat \<longleftrightarrow>
     dget thermostat ''device_type'' = JStr ''wall_unit''
     \<or> dget thermostat ''adptSupportedEquipment'' = JStr ''RA''
     \<or> has_key thermostat ''iduOperatingMode''"

section \<open>Enumerations of the platform\<close>

text \<open>
  \<^verbatim>\<open>HVACMode\<close> and \<^verbatim>\<open>ClimateEntityFeature\<close> are enumerations of the home-automation
  platform. \<^verbatim>\<open>HVACMode\<close> is a string enumeration; \<open>hvac_value\<close> is its \<^verbatim>\<open>.value\<close>.
\<close>

datatype HVACMode = OFF | HEAT | COOL | HEAT_COOL | AUTO | DRY | FAN_ONLY

fun hvac_value :: "HVACMode \<Rightarrow> string" where
  "hvac_value OFF = ''off''"
| "hvac_value HEAT = ''heat''"
| "hvac_value COOL = ''cool''"
| "hvac_value HEAT_COOL = ''heat_cool''"
| "hvac_value AUTO = ''auto''"
| "hvac_value DRY = ''dry''"
| "hvac_value FAN_ONLY = ''fan_only''"

datatype ClimateEntityFeature =
  TARGET_TEMPERATURE | TARGET_TEMPERATURE_RANGE | TARGET_HUMIDITY | FAN_MODE | PRESET_MODE
  | SWING_MODE | TURN_OFF | TURN_ON

section \<open>Errors, the network and the client state\<close>

text \<open>The exceptions the modelled code can raise.\<close>

datatype error =
  IndexError | KeyError | TypeError | AttributeError | UnboundLocalError
  | RequestException | JSONDecodeError | ExpiredTokenError

text \<open>
  An argument of \<^verbatim>\<open>make_request\<close>: Python does not type its parameters, and the call
  sites pass an integer, a dictionary or a string.
\<close>

datatype pyobj = PInt int | PStr string | PDict device

text \<open>The label that \<^verbatim>\<open>make_request\<close> logs: a literal, or an f-string over the body.\<close>

datatype log_msg = Msg string | BodyMsg device string

text \<open>
  The body of an HTTP response as \<^verbatim>\<open>request.json()\<close> sees it: an object of scalars, a
  list of such objects (the device list), or something that does not parse.
\<close>

datatype json = JsonObject device | JsonDevices "device list" | NotJson

text \<open>
  What a call of \<^verbatim>\<open>requests\<close> gives: a \<^verbatim>\<open>RequestException\<close> for a connection
  failure (after the transport's own retries), or a response with a status code.
\<close>

datatype response = ConnectionFailed | Response int json

datatype request =
  HttpPut string string pyobj
  | HttpGet string string
  | HttpPost string device

text \<open>
  The state of a \<^verbatim>\<open>DaikinSkyport\<close> object, together with the network it talks to:
  \<open>pending\<close> are the responses the vendor's server will give, in order, and \<open>sent\<close>
  are the requests made so far. An attribute that \<^verbatim>\<open>__init__\<close> may leave unset is an
  option.
\<close>

record client =
  thermostats :: "device list"
  thermostatlist :: json
  authenticated :: bool
  skip_next :: bool
  file_based_config :: bool
  user_email :: "string option"
  user_password :: "string option"
  access_token :: jval
  refresh_token :: jval
  config :: "device option"
  pending :: "response list"
  sent :: "request list"

text \<open>A result: the state afterwards, and the exception raised or the value returned.\<close>

type_synonym 'a result = "client \<times> (error + 'a)"

text \<open>One HTTP exchange. With no response left the connection fails.\<close>

definition http :: "request \<Rightarrow> client \<Rightarrow> client \<times> response" where
  "http rq s =
     (case pending s of
        [] \<Rightarrow> (s\<lparr>sent := sent s @ [rq]\<rparr>, ConnectionFailed)
      | r # rs \<Rightarrow> (s\<lparr>pending := rs, sent := sent s @ [rq]\<rparr>, r))"

text \<open>\<^verbatim>\<open>xs[i]\<close> for a Python list: a negative index counts from the end.\<close>

definition py_index :: "'a list \<Rightarrow> int \<Rightarrow> nat option" where
  "py_index xs i =
     (if 0 \<le> i \<and> i < int (length xs) then Some (nat i)
      else if i < 0 \<and> - int (length xs) \<le> i then Some (nat (int (length xs) + i))
      else None)"

text \<open>\<^verbatim>\<open>self.thermostats[index]\<close>, read.\<close>

definition thermostat_at :: "client \<Rightarrow> int \<Rightarrow> error + device" where
  "thermostat_at s index =
     (case py_index (thermostats s) index of
        None \<Rightarrow> Inl IndexError
      | Some i \<Rightarrow> Inr (thermostats s ! i))"

text \<open>\<^verbatim>\<open>self.thermostats[index][key]\<close>, read.\<close>

definition thermostat_field :: "client \<Rightarrow> int \<Rightarrow> string \<Rightarrow> error + jval" where
  "thermostat_field s index k =
     (case thermostat_at s index of
        Inl e \<Rightarrow> Inl e
      | Inr d \<Rightarrow> (case d k of None \<Rightarrow> Inl KeyError | Some v \<Rightarrow> Inr v))"

text \<open>\<^verbatim>\<open>self.thermostats[index][key] = v\<close>.\<close>

definition store_field :: "client \<Rightarrow> int \<Rightarrow> string \<Rightarrow> jval \<Rightarrow> unit result" where
  "store_field s index k v =
     (case py_index (thermostats s) index of
        None \<Rightarrow> (s, Inl IndexError)
      | Some i \<Rightarrow> (s\<lparr>thermostats := (thermostats s)[i := (thermostats s ! i)(k \<mapsto> v)]\<rparr>, Inr ()))"

text \<open>Sequencing: an exception of the first statement ends the call.\<close>

definition then_do :: "'a result \<Rightarrow> ('a \<Rightarrow> client \<Rightarrow> 'b result) \<Rightarrow> 'b result" where
  "then_do m f = (case m of (s, Inl e) \<Rightarrow> (s, Inl e) | (s, Inr x) \<Rightarrow> f x s)"

text \<open>\<^verbatim>\<open>'Bearer ' + self.access_token\<close> and \<^verbatim>\<open>url + deviceID\<close>: a string, or a TypeError.\<close>

definition as_str :: "jval \<Rightarrow> error + string" where
  "as_str v = (case v of JStr x \<Rightarrow> Inr x | _ \<Rightarrow> Inl TypeError)"

definition devices_url :: string where
  "devices_url = ''https://api.daikinskyport.com/devices''"

definition device_data_url :: string where
  "device_data_url = ''https://api.daikinskyport.com/deviceData/''"

definition login_url :: string where
  "login_url = ''https://api.daikinskyport.com/users/auth/login''"

definition token_url :: string where
  "token_url = ''https://api.daikinskyport.com/users/auth/token''"

section \<open>Tokens\<close>

text \<open>
  \<^verbatim>\<open>write_tokens_to_file\<close>. With a file-based configuration it reads
  \<^verbatim>\<open>self.config_filename\<close>, an attribute that no code assigns.
\<close>

definition write_tokens_to_file :: "client \<Rightarrow> unit result" where
  "write_tokens_to_file s =
     (case user_email s of
        None \<Rightarrow> (s, Inl AttributeError)
      | Some email \<Rightarrow>
          if file_based_config s then (s, Inl AttributeError)
          else (s\<lparr>config := Some [''ACCESS_TOKEN'' \<mapsto> access_token s,
                                   ''REFRESH_TOKEN'' \<mapsto> refresh_token s,
                                   ''EMAIL'' \<mapsto> JStr email]\<rparr>, Inr ()))"

text \<open>What \<^verbatim>\<open>request_tokens\<close> returns: \<^verbatim>\<open>False\<close>, \<^verbatim>\<open>None\<close> or the parsed body.\<close>

datatype tokens = TokensFalse | TokensNone | TokensData device

text \<open>\<^verbatim>\<open>json_data[key]\<close> on a parsed body.\<close>

definition json_item :: "json \<Rightarrow> string \<Rightarrow> error + jval" where
  "json_item js k =
     (case js of
        NotJson \<Rightarrow> Inl JSONDecodeError
      | JsonDevices ds \<Rightarrow> Inl TypeError
      | JsonObject j \<Rightarrow> (case j k of None \<Rightarrow> Inl KeyError | Some v \<Rightarrow> Inr v))"

definition request_tokens :: "client \<Rightarrow> tokens result" where
  "request_tokens s =
     (case user_email s of
        None \<Rightarrow> (s, Inl AttributeError)
      | Some email \<Rightarrow>
     (case user_password s of
        None \<Rightarrow> (s, Inl AttributeError)
      | Some password \<Rightarrow>
     (case http (HttpPost login_url [''email'' \<mapsto> JStr email, ''password'' \<mapsto> JStr password]) s of
        (s1, ConnectionFailed) \<Rightarrow> (s1, Inr TokensFalse)
      | (s1, Response status js) \<Rightarrow>
          if status = 200 then
            (case json_item js ''accessToken'' of
               Inl e \<Rightarrow> (s1, Inl e)
             | Inr a \<Rightarrow>
            (let s2 = s1\<lparr>access_token := a\<rparr> in
             case json_item js ''refreshToken'' of
               Inl e \<Rightarrow> (s2, Inl e)
             | Inr r \<Rightarrow>
            (let s3 = s2\<lparr>refresh_token := r\<rparr> in
             if r = JNull then (s3, Inr TokensNone)
             else if file_based_config s3 then
               then_do (write_tokens_to_file s3)
                 (\<lambda>_ s4. (s4, Inr (TokensData (case js of JsonObject j \<Rightarrow> j | _ \<Rightarrow> Map.empty))))
             else (s3, Inr (TokensData (case js of JsonObject j \<Rightarrow> j | _ \<Rightarrow> Map.empty))))))
          else (s1, Inr TokensFalse))))"

definition refresh_tokens :: "client \<Rightarrow> bool result" where
  "refresh_tokens s =
     (case user_email s of
        None \<Rightarrow> (s, Inl AttributeError)
      | Some email \<Rightarrow>
     (case http (HttpPost token_url [''email'' \<mapsto> JStr email, ''refreshToken'' \<mapsto> refresh_token s]) s of
        (s1, ConnectionFailed) \<Rightarrow> (s1, Inl RequestException)
      | (s1, Response status js) \<Rightarrow>
          if status = 200 then
            (case json_item js ''accessToken'' of
               Inl e \<Rightarrow> (s1, Inl e)
             | Inr a \<Rightarrow>
            (let s2 = s1\<lparr>access_token := a\<rparr> in
             if file_based_config s2 then
               then_do (write_tokens_to_file s2) (\<lambda>_ s3. (s3, Inr True))
             else (s2, Inr True)))
          else
            then_do (request_tokens s1)
              (\<lambda>result s2. (s2, Inr (result \<noteq> TokensNone)))))"

section \<open>\<^verbatim>\<open>make_request\<close>\<close>

text \<open>
  \<^verbatim>\<open>self.thermostats[index]\<close> inside \<^verbatim>\<open>make_request\<close>, where \<^verbatim>\<open>index\<close> is whatever
  the caller passed: a list accepts an integer only.
\<close>

definition thermostat_at_obj :: "client \<Rightarrow> pyobj \<Rightarrow> error + device" where
  "thermostat_at_obj s index =
     (case index of PInt i \<Rightarrow> thermostat_at s i | _ \<Rightarrow> Inl TypeError)"

text \<open>
  \<^verbatim>\<open>make_request\<close>. The call after a refresh is written as the source has it:
  \<^verbatim>\<open>self.make_request(body, deviceID, log_msg_action, retry_count=retry_count + 1)\<close>.
  The value returned is the response, or \<^verbatim>\<open>None\<close>.
\<close>

function make_request ::
  "client \<Rightarrow> pyobj \<Rightarrow> pyobj \<Rightarrow> log_msg \<Rightarrow> nat \<Rightarrow> response option result" where
  "make_request s index body log_msg_action retry_count =
     (let s0 = s\<lparr>skip_next := True\<rparr> in
      case thermostat_at_obj s0 index of
        Inl e \<Rightarrow> (s0, Inl e)
      | Inr d \<Rightarrow>
      (case d ''id'' of
        None \<Rightarrow> (s0, Inl KeyError)
      | Some deviceID \<Rightarrow>
      (case as_str deviceID of
        Inl e \<Rightarrow> (s0, Inl e)
      | Inr device_id \<Rightarrow>
      (case as_str (access_token s0) of
        Inl e \<Rightarrow> (s0, Inl e)
      | Inr token \<Rightarrow>
      (case http (HttpPut (device_data_url @ device_id) token body) s0 of
        (s1, ConnectionFailed) \<Rightarrow> (s1, Inr None)
      | (s1, Response status js) \<Rightarrow>
          if status = 200 then (s1, Inr (Some (Response status js)))
          else if status = 401 \<and> retry_count = 0 then
            (case json_item js ''error'' of
               Inl e \<Rightarrow> (s1, Inl e)
             | Inr err \<Rightarrow>
                 if err = JStr ''authorization_expired'' then
                   (case refresh_tokens s1 of
                      (s2, Inl e) \<Rightarrow> (s2, Inl e)
                    | (s2, Inr refreshed) \<Rightarrow>
                        if refreshed
                        then make_request s2 body (PStr device_id) log_msg_action (retry_count + 1)
                        else (s2, Inr None))
                 else (s1, Inr None))
          else if js = NotJson then (s1, Inl JSONDecodeError)
          else (s1, Inr None))))))"
  by pat_completeness auto
termination
  by (relation "measure (\<lambda>(s, index, body, log_msg_action, retry_count). 1 - retry_count)") auto

section \<open>The mutation calls of the client\<close>

text \<open>
  Python's \<^verbatim>\<open>round(x)\<close> on a float: to the nearest integer, a tie to the even one.
\<close>

definition py_round :: "rat \<Rightarrow> int" where
  "py_round r =
     (let f = \<lfloor>r\<rfloor>; d = r - of_int f
      in if d < 1 / 2 then f else if 1 / 2 < d then f + 1 else if even f then f else f + 1)"

text \<open>
  \<^verbatim>\<open>round(x, 1)\<close>: an integer stays as it is, a float goes to the nearest tenth, anything
  else raises. (On the rational a float stands for; a decimal tie that a binary float
  cannot hold exactly is rounded here as the tie it is.)
\<close>

definition round1 :: "jval \<Rightarrow> error + jval" where
  "round1 v =
     (case v of
        JInt i \<Rightarrow> Inr (JInt i)
      | JBool b \<Rightarrow> Inr (JInt (if b then 1 else 0))
      | JFloat r \<Rightarrow> Inr (JFloat (of_int (py_round (r * 10)) / 10))
      | _ \<Rightarrow> Inl TypeError)"

text \<open>\<^verbatim>\<open>if arg is None: arg = self.thermostats[index][key]\<close>.\<close>

definition arg_or_field :: "client \<Rightarrow> int \<Rightarrow> jval \<Rightarrow> string \<Rightarrow> error + jval" where
  "arg_or_field s index arg k = (if arg = JNull then thermostat_field s index k else Inr arg)"

definition set_hvac_mode :: "client \<Rightarrow> int \<Rightarrow> jval \<Rightarrow> response option result" where
  "set_hvac_mode s index hvac_mode =
     (let body = [''mode'' \<mapsto> hvac_mode] in
      then_do (store_field s index ''mode'' hvac_mode)
        (\<lambda>_ s1. make_request s1 (PInt index) (PDict body) (Msg ''set HVAC mode'') 0))"

definition set_thermostat_schedule ::
  "client \<Rightarrow> int \<Rightarrow> string \<Rightarrow> jval \<Rightarrow> jval \<Rightarrow> jval \<Rightarrow> jval \<Rightarrow> jval \<Rightarrow> response option result" where
  "set_thermostat_schedule s index prefix start enable label heating cooling =
     (let body = [prefix @ ''Time'' \<mapsto> start,
                  prefix @ ''Enabled'' \<mapsto> enable,
                  prefix @ ''Label'' \<mapsto> label,
                  prefix @ ''hsp'' \<mapsto> heating,
                  prefix @ ''csp'' \<mapsto> cooling]
      in make_request s (PInt index) (PDict body) (Msg ''set thermostat schedule'') 0)"

definition set_fan_mode :: "client \<Rightarrow> int \<Rightarrow> jval \<Rightarrow> response option result" where
  "set_fan_mode s index fan_mode =
     (let body = [''fanCirculate'' \<mapsto> fan_mode] in
      then_do (store_field s index ''fanCirculate'' fan_mode)
        (\<lambda>_ s1. make_request s1 (PInt index) (PDict body) (Msg ''set fan mode'') 0))"

definition set_fan_speed :: "client \<Rightarrow> int \<Rightarrow> jval \<Rightarrow> response option result" where
  "set_fan_speed s index fan_speed =
     (let body = [''fanCirculateSpeed'' \<mapsto> fan_speed] in
      then_do (store_field s index ''fanCirculateSpeed'' fan_speed)
        (\<lambda>_ s1. make_request s1 (PInt index) (PDict body) (Msg ''set fan speed'') 0))"

definition set_fan_clean :: "client \<Rightarrow> int \<Rightarrow> jval \<Rightarrow> response option result" where
  "set_fan_clean s index active =
     (let body = [''oneCleanFanActive'' \<mapsto> active]
      in make_request s (PInt index) (PDict body) (Msg ''set fan clean mode'') 0)"

definition set_dual_fuel_efficiency :: "client \<Rightarrow> int \<Rightarrow> jval \<Rightarrow> response option result" where
  "set_dual_fuel_efficiency s index active =
     (let body = [''ctDualFuelFurnaceLockoutEnable'' \<mapsto> active]
      in make_request s (PInt index) (PDict body) (Msg ''set dual fuel efficiency mode'') 0)"

definition set_temp_hold ::
  "client \<Rightarrow> int \<Rightarrow> jval \<Rightarrow> jval \<Rightarrow> jval \<Rightarrow> response option result" where
  "set_temp_hold s index cool_temp heat_temp hold_duration =
     then_do (s, arg_or_field s index hold_duration ''schedOverrideDuration'') (\<lambda>duration s.
     then_do (s, arg_or_field s index cool_temp ''cspHome'') (\<lambda>cool s.
     then_do (s, arg_or_field s index heat_temp ''hspHome'') (\<lambda>heat s.
     then_do (s, round1 heat) (\<lambda>hsp s.
     then_do (s, round1 cool) (\<lambda>csp s.
       let body = [''hspHome'' \<mapsto> hsp, ''cspHome'' \<mapsto> csp,
                   ''schedOverride'' \<mapsto> JInt 1, ''schedOverrideDuration'' \<mapsto> duration] in
     then_do (store_field s index ''hspHome'' hsp) (\<lambda>_ s.
     then_do (store_field s index ''cspHome'' csp) (\<lambda>_ s.
     then_do (store_field s index ''schedOverride'' (JInt 1)) (\<lambda>_ s.
     then_do (store_field s index ''schedOverrideDuration'' duration) (\<lambda>_ s.
       make_request s (PInt index) (PDict body) (Msg ''set hold temp'') 0)))))))))"

definition set_permanent_hold ::
  "client \<Rightarrow> int \<Rightarrow> jval \<Rightarrow> jval \<Rightarrow> response option result" where
  "set_permanent_hold s index cool_temp heat_temp =
     then_do (s, arg_or_field s index cool_temp ''cspHome'') (\<lambda>cool s.
     then_do (s, arg_or_field s index heat_temp ''hspHome'') (\<lambda>heat s.
     then_do (s, round1 heat) (\<lambda>hsp s.
     then_do (s, round1 cool) (\<lambda>csp s.
       let body = [''hspHome'' \<mapsto> hsp, ''cspHome'' \<mapsto> csp,
                   ''schedOverride'' \<mapsto> JInt 0, ''schedEnabled'' \<mapsto> JBool False] in
     then_do (store_field s index ''hspHome'' hsp) (\<lambda>_ s.
     then_do (store_field s index ''cspHome'' csp) (\<lambda>_ s.
     then_do (store_field s index ''schedOverride'' (JInt 0)) (\<lambda>_ s.
     then_do (store_field s index ''schedEnabled'' (JBool False)) (\<lambda>_ s.
       make_request s (PInt index) (PDict body) (Msg ''set permanent hold'') 0))))))))"

text \<open>\<^verbatim>\<open>if t is None: t = round(self.thermostats[index][key], 1)\<close>.\<close>

definition arg_or_rounded_field :: "client \<Rightarrow> int \<Rightarrow> jval \<Rightarrow> string \<Rightarrow> error + jval" where
  "arg_or_rounded_field s index arg k =
     (if arg = JNull then
        (case thermostat_field s index k of Inl e \<Rightarrow> Inl e | Inr v \<Rightarrow> round1 v)
      else Inr arg)"

definition set_away :: "client \<Rightarrow> int \<Rightarrow> jval \<Rightarrow> jval \<Rightarrow> jval \<Rightarrow> response option result" where
  "set_away s index away_mode heat_temp cool_temp =
     then_do (s, arg_or_rounded_field s index heat_temp ''hspAway'') (\<lambda>heat s.
     then_do (s, arg_or_rounded_field s index cool_temp ''cspAway'') (\<lambda>cool s.
       let body = [''geofencingAway'' \<mapsto> away_mode, ''hspAway'' \<mapsto> heat, ''cspAway'' \<mapsto> cool] in
     then_do (store_field s index ''geofencingAway'' away_mode) (\<lambda>_ s.
     then_do (store_field s index ''hspAway'' heat) (\<lambda>_ s.
     then_do (store_field s index ''cspAway'' cool) (\<lambda>_ s.
       make_request s (PInt index) (PDict body) (Msg ''set away mode'') 0)))))"

definition resume_program :: "client \<Rightarrow> int \<Rightarrow> response option result" where
  "resume_program s index =
     (let body = [''schedEnabled'' \<mapsto> JBool True, ''schedOverride'' \<mapsto> JInt 0,
                  ''geofencingAway'' \<mapsto> JBool False]
      in make_request s (PInt index) (PDict body) (Msg ''resume program'') 0)"

definition set_fan_schedule ::
  "client \<Rightarrow> int \<Rightarrow> jval \<Rightarrow> jval \<Rightarrow> jval \<Rightarrow> jval \<Rightarrow> response option result" where
  "set_fan_schedule s index start stop interval speed =
     (let body = [''fanCirculateStart'' \<mapsto> start, ''fanCirculateStop'' \<mapsto> stop,
                  ''fanCirculateDuration'' \<mapsto> interval, ''fanCirculateSpeed'' \<mapsto> speed]
      in make_request s (PInt index) (PDict body) (Msg ''set fan schedule'') 0)"

definition set_night_mode ::
  "client \<Rightarrow> int \<Rightarrow> jval \<Rightarrow> jval \<Rightarrow> jval \<Rightarrow> response option result" where
  "set_night_mode s index start stop enable =
     (let body = [''nightModeStart'' \<mapsto> start, ''nightModeStop'' \<mapsto> stop,
                  ''nightModeEnabled'' \<mapsto> enable]
      in make_request s (PInt index) (PDict body) (Msg ''set night mode'') 0)"

definition set_econo_mode :: "client \<Rightarrow> int \<Rightarrow> jval \<Rightarrow> response option result" where
  "set_econo_mode s index active =
     (let body = [''iduEconoModeSetting'' \<mapsto> active] in
      then_do (store_field s index ''iduEconoModeSetting'' active)
        (\<lambda>_ s1. make_request s1 (PInt index) (PDict body) (Msg ''set econo mode'') 0))"

definition set_boost_mode :: "client \<Rightarrow> int \<Rightarrow> jval \<Rightarrow> response option result" where
  "set_boost_mode s index active =
     (let body = [''oduPowerfulOperationRequest'' \<mapsto> active] in
      then_do (store_field s index ''oduPowerfulOperationRequest'' active)
        (\<lambda>_ s1. make_request s1 (PInt index) (PDict body) (Msg ''set boost mode'') 0))"

definition set_humidity :: "client \<Rightarrow> int \<Rightarrow> jval \<Rightarrow> jval \<Rightarrow> response option result" where
  "set_humidity s index humidity_low humidity_high =
     then_do (s, arg_or_field s index humidity_low ''humSP'') (\<lambda>low s.
     then_do (s, arg_or_field s index humidity_high ''dehumSP'') (\<lambda>high s.
       let body = [''dehumSP'' \<mapsto> high, ''humSP'' \<mapsto> low]
       in make_request s (PInt index) (PDict body) (Msg ''set humidity level'') 0))"

text \<open>
  \<^verbatim>\<open>DaikinSkyport._wall_unit_fan_speed_key\<close>: a dictionary keyed by the mode constants.
\<close>

definition wall_unit_fan_speed_key :: "constants \<Rightarrow> jval \<Rightarrow> string option" where
  "wall_unit_fan_speed_key c hvac_mode =
     lookup_int
       [(DAIKIN_HVAC_MODE_HEAT c, ''iduHeatFanSpeed''),
        (DAIKIN_HVAC_MODE_COOL c, ''iduCoolFanSpeed''),
        (DAIKIN_HVAC_MODE_AUTO c, ''iduAutoFanSpeed''),
        (DAIKIN_HVAC_MODE_DRY c, ''iduDryFanSpeed''),
        (WALL_UNIT_FAN_MODE_DEFAULT c, ''iduFanModeFanSpeed'')] hvac_mode"

text \<open>
  The mode argument of \<^verbatim>\<open>set_wall_unit_mode\<close>: a member of \<^verbatim>\<open>HVACMode\<close> (which has a
  \<^verbatim>\<open>.value\<close>) or a plain value.
\<close>

datatype mode_arg = ModeEnum HVACMode | ModeRaw jval

definition mode_arg_value :: "mode_arg \<Rightarrow> jval" where
  "mode_arg_value a = (case a of ModeEnum m \<Rightarrow> JStr (hvac_value m) | ModeRaw v \<Rightarrow> v)"

text \<open>
  \<^verbatim>\<open>mode_map.get(hvac_mode, default)\<close> in \<^verbatim>\<open>set_wall_unit_mode\<close>: the dictionary has the
  mode constants and the mode names as keys.
\<close>

definition mode_map_get :: "constants \<Rightarrow> jval \<Rightarrow> jval \<Rightarrow> jval" where
  "mode_map_get c hvac_mode dflt =
     (case hvac_mode of
        JStr name \<Rightarrow>
          (case map_of [(''heat'', 1), (''cool'', 2), (''auto'', 3), (''dry'', 5),
                        (''fan_only'', WALL_UNIT_FAN_MODE_DEFAULT c)] name of
             Some code \<Rightarrow> JInt code
           | None \<Rightarrow> dflt)
      | _ \<Rightarrow>
          (case lookup_int
                  [(DAIKIN_HVAC_MODE_HEAT c, 1), (DAIKIN_HVAC_MODE_COOL c, 2),
                   (DAIKIN_HVAC_MODE_AUTO c, 3), (DAIKIN_HVAC_MODE_DRY c, 5),
                   (WALL_UNIT_FAN_MODE_DEFAULT c, WALL_UNIT_FAN_MODE_DEFAULT c)] hvac_mode of
             Some code \<Rightarrow> JInt code
           | None \<Rightarrow> dflt))"

text \<open>The branch of \<^verbatim>\<open>set_wall_unit_mode\<close> for a mode other than off: state and body.\<close>

definition set_wall_unit_mode_on :: "constants \<Rightarrow> client \<Rightarrow> int \<Rightarrow> jval \<Rightarrow> device result" where
  "set_wall_unit_mode_on c s index hvac_mode =
     then_do (s, thermostat_at s index) (\<lambda>d s.
       let op_mode = mode_map_get c hvac_mode
                       (dget_default d ''iduOperatingMode'' (JInt (DAIKIN_HVAC_MODE_AUTO c)));
           body = [''iduOnOff'' \<mapsto> JBool True, ''iduOperatingMode'' \<mapsto> op_mode] in
     then_do (store_field s index ''iduOperatingMode'' op_mode) (\<lambda>_ s.
     then_do (if in_ints op_mode (WALL_UNIT_FAN_MODE_VALUES c)
              then store_field s index ''wallUnitFanModeValue'' op_mode
              else (s, Inr ())) (\<lambda>_ s.
     then_do (s, thermostat_at s index) (\<lambda>d1 s.
       case wall_unit_fan_speed_key c op_mode of
         None \<Rightarrow> (s, Inr body)
       | Some fan_key \<Rightarrow>
           if has_key d1 fan_key then (s, Inr (body(fan_key \<mapsto> the (d1 fan_key))))
           else (s, Inr body)))))"

definition set_wall_unit_mode :: "constants \<Rightarrow> client \<Rightarrow> int \<Rightarrow> mode_arg \<Rightarrow> response option result" where
  "set_wall_unit_mode c s index mode =
     (let hvac_mode = mode_arg_value mode in
      then_do (if eq_int hvac_mode (DAIKIN_HVAC_MODE_OFF c) \<or> hvac_mode = JStr ''off''
               then (s, Inr [''iduOnOff'' \<mapsto> JBool False])
               else set_wall_unit_mode_on c s index hvac_mode) (\<lambda>body s.
      then_do (store_field s index ''iduOnOff'' (dget_default body ''iduOnOff'' (JBool True))) (\<lambda>_ s.
      then_do (s, thermostat_at s index) (\<lambda>d s.
      then_do (store_field s index ''mode'' (JInt (wall_unit_mode c d))) (\<lambda>_ s.
        make_request s (PInt index) (PDict body) (Msg ''set wall unit mode'') 0)))))"

definition set_wall_unit_fan_speed ::
  "constants \<Rightarrow> client \<Rightarrow> int \<Rightarrow> jval \<Rightarrow> jval \<Rightarrow> response option result" where
  "set_wall_unit_fan_speed c s index fan_speed hvac_mode =
     (if fan_speed = JNull then (s, Inr None)
      else
        then_do (s, thermostat_at s index) (\<lambda>d s.
          let is_on = (dget d ''iduOnOff'' \<noteq> JBool False);
              hvac_mode1 = (if hvac_mode = JNull then dget d ''iduOperatingMode'' else hvac_mode)
          in if eq_int hvac_mode1 (DAIKIN_HVAC_MODE_OFF c) \<and> \<not> is_on then (s, Inr None)
             else
               (case wall_unit_fan_speed_key c hvac_mode1 of
                  None \<Rightarrow> (s, Inr None)
                | Some fan_key \<Rightarrow>
                    (let body = [fan_key \<mapsto> fan_speed] in
                     then_do (store_field s index fan_key fan_speed) (\<lambda>_ s.
                       make_request s (PInt index) (PDict body)
                         (Msg ''set wall unit fan speed'') 0)))))"

text \<open>
  \<^verbatim>\<open>round(temperature * 2) / 2\<close> followed by \<^verbatim>\<open>round(temperature, 1)\<close>; the division
  makes the result a float.
\<close>

definition round_to_half :: "jval \<Rightarrow> error + jval" where
  "round_to_half temperature =
     (case num_val temperature of
        None \<Rightarrow> Inl TypeError
      | Some t \<Rightarrow> round1 (JFloat (of_int (py_round (t * 2)) / 2)))"

text \<open>\<^verbatim>\<open>bool(v)\<close>.\<close>

definition py_bool :: "jval \<Rightarrow> jval" where
  "py_bool v = JBool (truthy v)"

text \<open>\<^verbatim>\<open>if hvac_mode is None: hvac_mode = self.thermostats[index].get("mode")\<close>.\<close>

definition mode_or_cached :: "client \<Rightarrow> int \<Rightarrow> jval \<Rightarrow> error + jval" where
  "mode_or_cached s index hvac_mode =
     (if hvac_mode = JNull
      then (case thermostat_at s index of Inl e \<Rightarrow> Inl e | Inr d \<Rightarrow> Inr (dget d ''mode''))
      else Inr hvac_mode)"

text \<open>
  The body that \<^verbatim>\<open>set_wall_unit_temperature\<close> starts from: empty, or the boost flag of
  the cached record as a truth value.
\<close>

definition powerful_echo :: "device \<Rightarrow> device" where
  "powerful_echo d =
     (if has_key d ''oduPowerfulOperationRequest''
      then [''oduPowerfulOperationRequest'' \<mapsto> py_bool (dget d ''oduPowerfulOperationRequest'')]
      else Map.empty)"

text \<open>
  The branches of \<^verbatim>\<open>set_wall_unit_temperature\<close> on the mode: the setpoint is put into
  the body and into the cached record; in dry mode the call returns (no body).
\<close>

definition set_wall_unit_setpoint ::
  "constants \<Rightarrow> client \<Rightarrow> int \<Rightarrow> jval \<Rightarrow> jval \<Rightarrow> device \<Rightarrow> device option result" where
  "set_wall_unit_setpoint c s index temp hvac_mode body =
     (if eq_int hvac_mode (DAIKIN_HVAC_MODE_COOL c) then
        then_do (store_field s index ''iduCoolSetpoint'' temp)
          (\<lambda>_ s. (s, Inr (Some (body(''iduCoolSetpoint'' \<mapsto> temp)))))
      else if eq_int hvac_mode (DAIKIN_HVAC_MODE_HEAT c) then
        then_do (store_field s index ''iduHeatSetpoint'' temp)
          (\<lambda>_ s. (s, Inr (Some (body(''iduHeatSetpoint'' \<mapsto> temp)))))
      else if eq_int hvac_mode (DAIKIN_HVAC_MODE_AUTO c) then
        then_do (store_field s index ''iduAutoSetpoint'' temp)
          (\<lambda>_ s. (s, Inr (Some (body(''iduAutoSetpoint'' \<mapsto> temp)))))
      else if eq_int hvac_mode (DAIKIN_HVAC_MODE_DRY c) then (s, Inr None)
      else (s, Inr (Some body)))"

definition set_wall_unit_temperature ::
  "constants \<Rightarrow> client \<Rightarrow> int \<Rightarrow> jval \<Rightarrow> jval \<Rightarrow> response option result" where
  "set_wall_unit_temperature c s index temperature hvac_mode =
     (if temperature = JNull then (s, Inr None)
      else
        then_do (s, round_to_half temperature) (\<lambda>temp s.
        then_do (s, mode_or_cached s index hvac_mode) (\<lambda>hvac_mode1 s.
        then_do (s, thermostat_at s index) (\<lambda>d s.
        then_do (set_wall_unit_setpoint c s index temp hvac_mode1 (powerful_echo d))
          (\<lambda>sending s.
             case sending of
               None \<Rightarrow> (s, Inr None)
             | Some body \<Rightarrow>
                 then_do (if hvac_mode1 \<noteq> JNull then store_field s index ''mode'' hvac_mode1
                          else (s, Inr ())) (\<lambda>_ s.
                   make_request s (PInt index) (PDict body)
                     (BodyMsg body ''set wall unit temperature'') 0))))))"

text \<open>The mutation calls as data, and the call each one stands for.\<close>

datatype call =
  SetHvacMode int jval
  | SetThermostatSchedule int string jval jval jval jval jval
  | SetFanMode int jval
  | SetFanSpeed int jval
  | SetFanClean int jval
  | SetDualFuelEfficiency int jval
  | SetTempHold int jval jval jval
  | SetPermanentHold int jval jval
  | SetAway int jval jval jval
  | ResumeProgram int
  | SetFanSchedule int jval jval jval jval
  | SetNightMode int jval jval jval
  | SetEconoMode int jval
  | SetBoostMode int jval
  | SetHumidity int jval jval
  | SetWallUnitMode int mode_arg
  | SetWallUnitFanSpeed int jval jval
  | SetWallUnitTemperature int jval jval

fun run_call :: "constants \<Rightarrow> client \<Rightarrow> call \<Rightarrow> response option result" where
  "run_call c s (SetHvacMode i m) = set_hvac_mode s i m"
| "run_call c s (SetThermostatSchedule i p st en lb h cl) = set_thermostat_schedule s i p st en lb h cl"
| "run_call c s (SetFanMode i m) = set_fan_mode s i m"
| "run_call c s (SetFanSpeed i v) = set_fan_speed s i v"
| "run_call c s (SetFanClean i a) = set_fan_clean s i a"
| "run_call c s (SetDualFuelEfficiency i a) = set_dual_fuel_efficiency s i a"
| "run_call c s (SetTempHold i cl h dur) = set_temp_hold s i cl h dur"
| "run_call c s (SetPermanentHold i cl h) = set_permanent_hold s i cl h"
| "run_call c s (SetAway i m h cl) = set_away s i m h cl"
| "run_call c s (ResumeProgram i) = resume_program s i"
| "run_call c s (SetFanSchedule i st sp iv v) = set_fan_schedule s i st sp iv v"
| "run_call c s (SetNightMode i st sp en) = set_night_mode s i st sp en"
| "run_call c s (SetEconoMode i a) = set_econo_mode s i a"
| "run_call c s (SetBoostMode i a) = set_boost_mode s i a"
| "run_call c s (SetHumidity i lo hi) = set_humidity s i lo hi"
| "run_call c s (SetWallUnitMode i m) = set_wall_unit_mode c s i m"
| "run_call c s (SetWallUnitFanSpeed i v m) = set_wall_unit_fan_speed c s i v m"
| "run_call c s (SetWallUnitTemperature i t m) = set_wall_unit_temperature c s i t m"

fun call_index :: "call \<Rightarrow> int" where
  "call_index (SetHvacMode i m) = i"
| "call_index (SetThermostatSchedule i p st en lb h cl) = i"
| "call_index (SetFanMode i m) = i"
| "call_index (SetFanSpeed i v) = i"
| "call_index (SetFanClean i a) = i"
| "call_index (SetDualFuelEfficiency i a) = i"
| "call_index (SetTempHold i cl h dur) = i"
| "call_index (SetPermanentHold i cl h) = i"
| "call_index (SetAway i m h cl) = i"
| "call_index (ResumeProgram i) = i"
| "call_index (SetFanSchedule i st sp iv v) = i"
| "call_index (SetNightMode i st sp en) = i"
| "call_index (SetEconoMode i a) = i"
| "call_index (SetBoostMode i a) = i"
| "call_index (SetHumidity i lo hi) = i"
| "call_index (SetWallUnitMode i m) = i"
| "call_index (SetWallUnitFanSpeed i v m) = i"
| "call_index (SetWallUnitTemperature i t m) = i"

section \<open>Polling\<close>

text \<open>Python's \<^verbatim>\<open>==\<close> on two values: numbers by what they stand for.\<close>

definition py_eq :: "jval \<Rightarrow> jval \<Rightarrow> bool" where
  "py_eq v w =
     (case (num_val v, num_val w) of
        (Some a, Some b) \<Rightarrow> a = b
      | (None, None) \<Rightarrow> v = w
      | _ \<Rightarrow> False)"

text \<open>
  \<^verbatim>\<open>get_thermostat_info\<close>. The value returned is \<^verbatim>\<open>None\<close> for a device that is
  offline, or the normalized body; an empty list passes through the normalizer as it is,
  a list with members has no \<^verbatim>\<open>.get\<close>.
\<close>

definition get_thermostat_info :: "constants \<Rightarrow> client \<Rightarrow> jval \<Rightarrow> json option result" where
  "get_thermostat_info c s deviceid =
     then_do (s, as_str deviceid) (\<lambda>device_id s.
     then_do (s, as_str (access_token s)) (\<lambda>token s.
       case http (HttpGet (device_data_url @ device_id) token) s of
         (s1, ConnectionFailed) \<Rightarrow> (s1, Inl RequestException)
       | (s1, Response status js) \<Rightarrow>
           if 400 \<le> status \<and> status < 600 then
             (if status = 400 then
                (case js of
                   NotJson \<Rightarrow> (s1, Inl JSONDecodeError)
                 | JsonDevices ds \<Rightarrow> (s1, Inl AttributeError)
                 | JsonObject j \<Rightarrow>
                     if dget j ''message'' = JStr ''DeviceOfflineException''
                     then (s1\<lparr>authenticated := True\<rparr>, Inr None)
                     else (s1\<lparr>authenticated := False\<rparr>, Inl ExpiredTokenError))
              else (s1\<lparr>authenticated := False\<rparr>, Inl ExpiredTokenError))
           else if status = 200 then
             (let s2 = s1\<lparr>authenticated := True\<rparr> in
              case js of
                NotJson \<Rightarrow> (s2, Inl JSONDecodeError)
              | JsonDevices ds \<Rightarrow>
                  if ds = [] then (s2, Inr (Some (JsonDevices []))) else (s2, Inl AttributeError)
              | JsonObject j \<Rightarrow> (s2, Inr (Some (JsonObject (normalize_device_info c j)))))
           else (s1\<lparr>authenticated := False\<rparr>, Inl ExpiredTokenError)))"

text \<open>
  The inner loop of \<^verbatim>\<open>get_thermostats\<close>: every cached record with the same \<^verbatim>\<open>id\<close> is
  replaced. The list is returned as far as the loop changed it, with the exception or
  the flag \<^verbatim>\<open>overwrite\<close>.
\<close>

fun overwrite_loop :: "jval \<Rightarrow> device \<Rightarrow> device list \<Rightarrow> device list \<times> (error + bool)" where
  "overwrite_loop tid info [] = ([], Inr False)"
| "overwrite_loop tid info (x # xs) =
     (case x ''id'' of
        None \<Rightarrow> (x # xs, Inl KeyError)
      | Some xid \<Rightarrow>
          (case overwrite_loop tid info xs of
             (ys, r) \<Rightarrow>
               if py_eq tid xid
               then (info # ys, (case r of Inl e \<Rightarrow> Inl e | Inr b \<Rightarrow> Inr True))
               else (x # ys, r)))"

text \<open>The body of the outer loop, for one entry of the device list.\<close>

definition fetch_one :: "constants \<Rightarrow> client \<Rightarrow> device \<Rightarrow> unit result" where
  "fetch_one c s thermostat =
     (case thermostat ''id'' of
        None \<Rightarrow> (s, Inl KeyError)
      | Some tid \<Rightarrow>
          then_do (get_thermostat_info c s tid) (\<lambda>thermostat_info s.
            case thermostat_info of
              None \<Rightarrow> (s, Inr ())
            | Some js \<Rightarrow>
                (case thermostat ''name'' of
                   None \<Rightarrow> (s, Inl KeyError)
                 | Some name \<Rightarrow>
                (case js of
                   JsonObject info \<Rightarrow>
                     (case thermostat ''model'' of
                        None \<Rightarrow> (s, Inl KeyError)
                      | Some model \<Rightarrow>
                     (let info1 = info(''name'' \<mapsto> name, ''id'' \<mapsto> tid, ''model'' \<mapsto> model) in
                      case overwrite_loop tid info1 (thermostats s) of
                        (ts, Inl e) \<Rightarrow> (s\<lparr>thermostats := ts\<rparr>, Inl e)
                      | (ts, Inr overwrite) \<Rightarrow>
                          if overwrite then (s\<lparr>thermostats := ts\<rparr>, Inr ())
                          else (s\<lparr>thermostats := ts @ [info1]\<rparr>, Inr ())))
                 | _ \<Rightarrow> (s, Inl TypeError)))))"

fun fetch_all :: "constants \<Rightarrow> client \<Rightarrow> device list \<Rightarrow> unit result" where
  "fetch_all c s [] = (s, Inr ())"
| "fetch_all c s (thermostat # rest) =
     then_do (fetch_one c s thermostat) (\<lambda>_ s1. fetch_all c s1 rest)"

text \<open>
  \<^verbatim>\<open>get_thermostats\<close>. A body that is an object is iterated by its keys, which are
  strings and cannot be indexed by \<^verbatim>\<open>'id'\<close>.
\<close>

definition get_thermostats :: "constants \<Rightarrow> client \<Rightarrow> device list option result" where
  "get_thermostats c s =
     then_do (s, as_str (access_token s)) (\<lambda>token s.
       case http (HttpGet devices_url token) s of
         (s1, ConnectionFailed) \<Rightarrow> (s1, Inr None)
       | (s1, Response status js) \<Rightarrow>
           if status = 200 then
             (let s2 = s1\<lparr>authenticated := True\<rparr> in
              case js of
                NotJson \<Rightarrow> (s2, Inl JSONDecodeError)
              | JsonObject j \<Rightarrow>
                  (let s3 = s2\<lparr>thermostatlist := js\<rparr> in
                   if j = Map.empty then (s3, Inr (Some (thermostats s3)))
                   else (s3, Inl TypeError))
              | JsonDevices ds \<Rightarrow>
                  then_do (fetch_all c (s2\<lparr>thermostatlist := js\<rparr>) ds)
                    (\<lambda>_ s3. (s3, Inr (Some (thermostats s3)))))
           else (s1\<lparr>authenticated := False\<rparr>, Inl ExpiredTokenError))"

text \<open>\<^verbatim>\<open>update\<close>.\<close>

definition update :: "constants \<Rightarrow> client \<Rightarrow> device list option result" where
  "update c s =
     (if skip_next s then (s\<lparr>skip_next := False\<rparr>, Inr None)
      else get_thermostats c s)"

section \<open>The entity (\<^verbatim>\<open>climate.py\<close>)\<close>

text \<open>The string constants of \<^verbatim>\<open>climate.py\<close> and of the platform.\<close>

definition PRESET_AWAY :: string where "PRESET_AWAY = ''Away''"
definition PRESET_SCHEDULE :: string where "PRESET_SCHEDULE = ''Schedule''"
definition PRESET_MANUAL :: string where "PRESET_MANUAL = ''Manual''"
definition PRESET_TEMP_HOLD :: string where "PRESET_TEMP_HOLD = ''Temp Hold''"
definition PRESET_ECONO :: string where "PRESET_ECONO = ''Econo''"
definition PRESET_BOOST :: string where "PRESET_BOOST = ''Boost''"
definition PRESET_NONE :: string where "PRESET_NONE = ''none''"
definition FAN_SCHEDULE :: string where "FAN_SCHEDULE = ''Schedule''"
definition FAN_AUTO :: string where "FAN_AUTO = ''auto''"
definition FAN_ON :: string where "FAN_ON = ''on''"
definition FAN_LOW :: string where "FAN_LOW = ''low''"
definition FAN_MEDIUM :: string where "FAN_MEDIUM = ''medium''"
definition FAN_HIGH :: string where "FAN_HIGH = ''high''"

text \<open>
  A string made by \<^verbatim>\<open>str\<close>: the digits of an integer are computed, the digits of a
  float are not.
\<close>

datatype pystr = Lit string | StrOfFloat rat

fun digits_of :: "nat \<Rightarrow> string" where
  "digits_of n =
     (if n < 10 then [''0123456789'' ! n]
      else digits_of (n div 10) @ [''0123456789'' ! (n mod 10)])"

definition str_of_int :: "int \<Rightarrow> string" where
  "str_of_int i = (if i < 0 then CHR ''-'' # digits_of (nat (- i)) else digits_of (nat i))"

fun py_str :: "jval \<Rightarrow> pystr" where
  "py_str JNull = Lit ''None''"
| "py_str (JBool b) = Lit (if b then ''True'' else ''False'')"
| "py_str (JInt i) = Lit (str_of_int i)"
| "py_str (JFloat r) = StrOfFloat r"
| "py_str (JStr x) = Lit x"

text \<open>The tables of \<^verbatim>\<open>climate.py\<close>.\<close>

definition DAIKIN_HVAC_TO_HASS :: "constants \<Rightarrow> (int \<times> HVACMode) list" where
  "DAIKIN_HVAC_TO_HASS c =
     [(DAIKIN_HVAC_MODE_HEAT c, HEAT), (DAIKIN_HVAC_MODE_COOL c, COOL),
      (DAIKIN_HVAC_MODE_AUTO c, AUTO), (DAIKIN_HVAC_MODE_DRY c, DRY),
      (DAIKIN_HVAC_MODE_OFF c, OFF), (DAIKIN_HVAC_MODE_AUXHEAT c, HEAT)]"

definition DAIKIN_FAN_TO_HASS :: "(int \<times> string) list" where
  "DAIKIN_FAN_TO_HASS =
     [(0, FAN_AUTO), (1, FAN_ON), (2, FAN_SCHEDULE), (3, FAN_LOW), (4, FAN_MEDIUM), (5, FAN_HIGH)]"

definition DAIKIN_FAN_SPEED_TO_HASS :: "(int \<times> string) list" where
  "DAIKIN_FAN_SPEED_TO_HASS = [(0, FAN_LOW), (1, FAN_MEDIUM), (2, FAN_HIGH)]"

definition WALL_UNIT_FAN_SPEED_TO_HASS :: "(int \<times> string) list" where
  "WALL_UNIT_FAN_SPEED_TO_HASS =
     [(10, ''auto''), (11, ''quiet''), (3, ''low''), (4, ''medium_low''), (5, ''medium''),
      (6, ''medium_high''), (7, ''high'')]"

definition WALL_UNIT_FAN_SPEED_ORDER :: "int list" where
  "WALL_UNIT_FAN_SPEED_ORDER = [10, 11, 3, 4, 5, 6, 7]"

text \<open>
  The attributes of a \<^verbatim>\<open>Thermostat\<close> entity. \<open>ent_thermostat\<close> is the record the entity's
  reference points at when a method starts; the modelled methods read it before they call
  the client.
\<close>

record entity =
  ent_thermostat :: device
  ent_thermostat_index :: int
  ent_is_wall_unit :: bool
  ent_cool_setpoint :: jval
  ent_heat_setpoint :: jval
  ent_target_temp :: jval
  ent_hvac_mode :: HVACMode
  ent_fan_mode :: "pystr option"
  ent_fan_speed :: "pystr option"
  ent_base_supported_features :: "ClimateEntityFeature set"
  ent_supported_features :: "ClimateEntityFeature set"
  ent_attr_precision :: rat
  ent_operation_list :: "HVACMode list"
  ent_preset_modes :: "string set"
  ent_preset_mode :: string
  ent_fan_modes :: "pystr list"
  ent_update_without_throttle :: bool

definition SUPPORT_FLAGS :: "ClimateEntityFeature set" where
  "SUPPORT_FLAGS =
     {TARGET_TEMPERATURE, PRESET_MODE, TARGET_TEMPERATURE_RANGE, FAN_MODE, TURN_ON, TURN_OFF}"

text \<open>\<^verbatim>\<open>Thermostat._build_wall_unit_operation_list\<close>.\<close>

definition build_wall_unit_operation_list :: "constants \<Rightarrow> device \<Rightarrow> HVACMode list" where
  "build_wall_unit_operation_list c thermostat =
     (let m1 = (if has_key thermostat ''iduHeatSetpoint'' then [HEAT] else []);
          m2 = (if has_key thermostat ''iduCoolSetpoint'' then m1 @ [COOL] else m1);
          m3 = (if has_key thermostat ''iduAutoSetpoint'' then AUTO # m2 else m2);
          m4 = (if has_key thermostat ''iduDryFanSpeed''
                   \<or> eq_int (dget thermostat ''iduOperatingMode'') 5
                then m3 @ [DRY] else m3);
          m5 = (if has_key thermostat ''iduFanModeFanSpeed''
                   \<or> in_ints (dget thermostat ''iduOperatingMode'') (WALL_UNIT_FAN_MODE_VALUES c)
                then m4 @ [FAN_ONLY] else m4)
      in if OFF \<notin> set m5 then m5 @ [OFF] else m5)"

text \<open>\<^verbatim>\<open>x > 0\<close>: a comparison of \<^verbatim>\<open>None\<close> or of a string with a number raises.\<close>

definition py_positive :: "jval \<Rightarrow> error + bool" where
  "py_positive v = (case num_val v of None \<Rightarrow> Inl TypeError | Some r \<Rightarrow> Inr (0 < r))"

text \<open>The condition under which \<^verbatim>\<open>_configure_capabilities\<close> lists cooling.\<close>

definition cool_capability :: "device \<Rightarrow> error + bool" where
  "cool_capability thermostat =
     (case (if has_key thermostat ''ctOutdoorNoofCoolStages''
            then py_positive (dget thermostat ''ctOutdoorNoofCoolStages'')
            else Inr False) of
        Inl e \<Rightarrow> Inl e
      | Inr stages \<Rightarrow>
          Inr (stages \<or> (has_key thermostat ''P1P2S21CoolingCapability''
                          \<and> dget thermostat ''P1P2S21CoolingCapability'' = JBool True)))"

text \<open>
  The list that the branch for a central device of \<^verbatim>\<open>_configure_capabilities\<close>
  builds in \<^verbatim>\<open>self._operation_list\<close>.
\<close>

definition central_operation_list :: "device \<Rightarrow> error + HVACMode list" where
  "central_operation_list thermostat =
     (let l1 = (if truthy (dget thermostat ''ctSystemCapHeat'') then [HEAT] else [])
      in case cool_capability thermostat of
           Inl err \<Rightarrow> Inl err
         | Inr cool \<Rightarrow>
             (let l2 = (if cool then l1 @ [COOL] else l1);
                  l3 = (if length l2 = 2 then AUTO # l2 else l2)
              in Inr (l3 @ [OFF])))"

text \<open>\<^verbatim>\<open>Thermostat._configure_capabilities\<close>.\<close>

definition configure_capabilities :: "constants \<Rightarrow> entity \<Rightarrow> error + entity" where
  "configure_capabilities c e =
     (if ent_is_wall_unit e then
        Inr (e\<lparr>ent_base_supported_features := {TARGET_TEMPERATURE, FAN_MODE, PRESET_MODE},
               ent_supported_features := {TARGET_TEMPERATURE, FAN_MODE, PRESET_MODE},
               ent_attr_precision := 1 / 2,
               ent_operation_list := build_wall_unit_operation_list c (ent_thermostat e),
               ent_preset_modes :=
                 (if has_key (ent_thermostat e) ''oduPowerfulOperationRequest''
                  then {PRESET_ECONO, PRESET_NONE, PRESET_BOOST}
                  else {PRESET_ECONO, PRESET_NONE}),
               ent_fan_modes := []\<rparr>)
      else
        (case central_operation_list (ent_thermostat e) of
           Inl err \<Rightarrow> Inl err
         | Inr operation_list \<Rightarrow>
             Inr (e\<lparr>ent_base_supported_features := SUPPORT_FLAGS,
                    ent_supported_features := SUPPORT_FLAGS,
                    ent_attr_precision := 1 / 10,
                    ent_operation_list := operation_list,
                    ent_preset_modes :=
                      {PRESET_SCHEDULE, PRESET_MANUAL, PRESET_TEMP_HOLD, PRESET_AWAY},
                    ent_fan_modes :=
                      map Lit [FAN_AUTO, FAN_ON, FAN_LOW, FAN_MEDIUM, FAN_HIGH, FAN_SCHEDULE]\<rparr>)))"

text \<open>\<^verbatim>\<open>Thermostat._is_dry_mode\<close>.\<close>

definition is_dry_mode :: "entity \<Rightarrow> bool" where
  "is_dry_mode e \<longleftrightarrow> ent_hvac_mode e = DRY"

text \<open>\<^verbatim>\<open>Thermostat._refresh_supported_features_for_mode\<close>.\<close>

definition refresh_supported_features_for_mode :: "entity \<Rightarrow> entity" where
  "refresh_supported_features_for_mode e =
     (let e1 = e\<lparr>ent_supported_features := ent_base_supported_features e\<rparr>;
          e2 = (if ent_fan_modes e1 = []
                then e1\<lparr>ent_supported_features := ent_supported_features e1 - {FAN_MODE}\<rparr>
                else e1)
      in if ent_is_wall_unit e2 \<and> is_dry_mode e2
         then e2\<lparr>ent_supported_features :=
                    ent_supported_features e2 - {TARGET_TEMPERATURE}
                      - {TARGET_TEMPERATURE_RANGE} - {FAN_MODE}\<rparr>
         else e2)"

text \<open>\<^verbatim>\<open>Thermostat._wall_unit_hvac_mode\<close>.\<close>

definition wall_unit_hvac_mode :: "constants \<Rightarrow> device \<Rightarrow> HVACMode" where
  "wall_unit_hvac_mode c thermostat =
     (let daikin_mode0 = dget thermostat ''mode'';
          daikin_mode = (if daikin_mode0 = JNull then dget thermostat ''iduOperatingMode''
                         else daikin_mode0)
      in if dget thermostat ''iduOnOff'' = JBool False then OFF
         else if in_ints daikin_mode (WALL_UNIT_FAN_MODE_VALUES c) then FAN_ONLY
         else (case lookup_int (DAIKIN_HVAC_TO_HASS c) daikin_mode of
                 Some m \<Rightarrow> m
               | None \<Rightarrow> OFF))"

text \<open>\<^verbatim>\<open>Thermostat._wall_unit_operating_mode\<close>.\<close>

definition wall_unit_operating_mode :: "constants \<Rightarrow> device \<Rightarrow> HVACMode option" where
  "wall_unit_operating_mode c thermostat =
     (let op_mode = dget thermostat ''iduOperatingMode''
      in if in_ints op_mode (WALL_UNIT_FAN_MODE_VALUES c) then Some FAN_ONLY
         else if eq_int op_mode 1 then Some HEAT
         else if eq_int op_mode 2 then Some COOL
         else if eq_int op_mode 3 then Some AUTO
         else if eq_int op_mode 5 then Some DRY
         else None)"

text \<open>\<^verbatim>\<open>Thermostat._wall_unit_fan_speed_key\<close>.\<close>

fun ent_wall_unit_fan_speed_key :: "HVACMode \<Rightarrow> string option" where
  "ent_wall_unit_fan_speed_key HEAT = Some ''iduHeatFanSpeed''"
| "ent_wall_unit_fan_speed_key COOL = Some ''iduCoolFanSpeed''"
| "ent_wall_unit_fan_speed_key AUTO = Some ''iduAutoFanSpeed''"
| "ent_wall_unit_fan_speed_key DRY = Some ''iduDryFanSpeed''"
| "ent_wall_unit_fan_speed_key FAN_ONLY = Some ''iduFanModeFanSpeed''"
| "ent_wall_unit_fan_speed_key OFF = None"
| "ent_wall_unit_fan_speed_key HEAT_COOL = None"

text \<open>\<^verbatim>\<open>Thermostat._wall_unit_fan_speed\<close>; \<^verbatim>\<open>None\<close> is \<open>JNull\<close>.\<close>

definition wall_unit_fan_speed :: "constants \<Rightarrow> entity \<Rightarrow> jval" where
  "wall_unit_fan_speed c e =
     (case (if ent_hvac_mode e = OFF then wall_unit_operating_mode c (ent_thermostat e)
            else Some (ent_hvac_mode e)) of
        None \<Rightarrow> JNull
      | Some hvac_mode \<Rightarrow>
          (case ent_wall_unit_fan_speed_key hvac_mode of
             None \<Rightarrow> JNull
           | Some fan_key \<Rightarrow> dget (ent_thermostat e) fan_key))"

text \<open>\<^verbatim>\<open>TABLE.get(v, str(v))\<close> for a table with integer keys.\<close>

definition label_or_str :: "(int \<times> string) list \<Rightarrow> jval \<Rightarrow> pystr" where
  "label_or_str table v = (case lookup_int table v of Some l \<Rightarrow> Lit l | None \<Rightarrow> py_str v)"

text \<open>\<^verbatim>\<open>int(v)\<close> for the values that pass \<^verbatim>\<open>isinstance(v, (int, float))\<close>.\<close>

fun fan_value_int :: "jval \<Rightarrow> int option" where
  "fan_value_int (JInt i) = Some i"
| "fan_value_int (JBool b) = Some (if b then 1 else 0)"
| "fan_value_int (JFloat r) = Some (if r < 0 then \<lceil>r\<rceil> else \<lfloor>r\<rfloor>)"
| "fan_value_int JNull = None"
| "fan_value_int (JStr x) = None"

text \<open>
  The fan modes that the wall-unit branch of \<^verbatim>\<open>_apply_thermostat_state\<close> collects
  (before the test for dry mode).
\<close>

definition wall_unit_fan_modes :: "device \<Rightarrow> pystr list" where
  "wall_unit_fan_modes thermostat =
     (let fan_values_set =
            List.map_filter (\<lambda>key. fan_value_int (dget thermostat key))
              [''iduHeatFanSpeed'', ''iduCoolFanSpeed'', ''iduAutoFanSpeed'', ''iduDryFanSpeed'',
               ''iduFanModeFanSpeed''];
          fan_modes =
            (if has_key thermostat ''iduFanModeFanSpeed''
             then map (\<lambda>v. label_or_str WALL_UNIT_FAN_SPEED_TO_HASS (JInt v))
                    WALL_UNIT_FAN_SPEED_ORDER
             else map (\<lambda>v. label_or_str WALL_UNIT_FAN_SPEED_TO_HASS (JInt v))
                    (filter (\<lambda>v. v \<in> set fan_values_set) WALL_UNIT_FAN_SPEED_ORDER));
          unknown_values =
            sort (remdups (filter (\<lambda>v. lookup_int WALL_UNIT_FAN_SPEED_TO_HASS (JInt v) = None)
                             fan_values_set))
      in fan_modes @ map (\<lambda>v. py_str (JInt v)) unknown_values)"

text \<open>\<^verbatim>\<open>a or b\<close>.\<close>

definition py_or :: "jval \<Rightarrow> jval \<Rightarrow> jval" where
  "py_or a b = (if truthy a then a else b)"

text \<open>\<^verbatim>\<open>v + k\<close> for an integer constant: \<^verbatim>\<open>None\<close> and strings raise.\<close>

definition py_add_int :: "jval \<Rightarrow> int \<Rightarrow> error + jval" where
  "py_add_int v k =
     (case v of
        JInt i \<Rightarrow> Inr (JInt (i + k))
      | JBool b \<Rightarrow> Inr (JInt ((if b then 1 else 0) + k))
      | JFloat r \<Rightarrow> Inr (JFloat (r + of_int k))
      | _ \<Rightarrow> Inl TypeError)"

text \<open>\<^verbatim>\<open>TABLE.get(v, default)\<close> for a table of labels.\<close>

definition label_or :: "(int \<times> string) list \<Rightarrow> jval \<Rightarrow> string \<Rightarrow> string" where
  "label_or table v dflt = (case lookup_int table v of Some l \<Rightarrow> l | None \<Rightarrow> dflt)"

text \<open>
  \<^verbatim>\<open>Thermostat._apply_thermostat_state\<close>, in the blocks of the source. For a wall
  unit: the mode, the setpoints, the target temperature and the preset.
\<close>

definition wall_unit_target_temp :: "HVACMode \<Rightarrow> device \<Rightarrow> jval \<Rightarrow> jval \<Rightarrow> jval" where
  "wall_unit_target_temp hvac_mode t cool_setpoint heat_setpoint =
     (let target_temp = dget t ''iduTargetTemp''
      in if target_temp = JNull then
           (if hvac_mode = HEAT then heat_setpoint
            else if hvac_mode = COOL then cool_setpoint
            else dget_default t ''iduAutoSetpoint'' (py_or cool_setpoint heat_setpoint))
         else target_temp)"

definition apply_wall_unit_values :: "constants \<Rightarrow> entity \<Rightarrow> entity" where
  "apply_wall_unit_values c e =
     (let t = ent_thermostat e;
          hvac_mode = wall_unit_hvac_mode c t;
          cool_setpoint = dget_default t ''iduCoolSetpoint'' (dget t ''cspActive'');
          heat_setpoint = dget_default t ''iduHeatSetpoint'' (dget t ''hspActive'')
      in e\<lparr>ent_hvac_mode := hvac_mode,
            ent_cool_setpoint := cool_setpoint,
            ent_heat_setpoint := heat_setpoint,
            ent_target_temp := wall_unit_target_temp hvac_mode t cool_setpoint heat_setpoint,
            ent_preset_mode :=
              (if truthy (dget t ''oduPowerfulOperationRequest'') then PRESET_BOOST
               else if truthy (dget t ''iduEconoModeSetting'') then PRESET_ECONO
               else PRESET_NONE)\<rparr>)"

text \<open>For a wall unit: the fan mode, the fan modes to choose from, and the test for dry mode.\<close>

definition apply_wall_unit_fan :: "constants \<Rightarrow> entity \<Rightarrow> entity" where
  "apply_wall_unit_fan c e =
     (let fan_speed = wall_unit_fan_speed c e;
          e1 = e\<lparr>ent_fan_mode :=
                    (if fan_speed \<noteq> JNull
                     then Some (label_or_str WALL_UNIT_FAN_SPEED_TO_HASS fan_speed)
                     else None),
                  ent_fan_modes := wall_unit_fan_modes (ent_thermostat e)\<rparr>
      in if is_dry_mode e1 then e1\<lparr>ent_fan_modes := [], ent_fan_mode := None\<rparr> else e1)"

text \<open>For a central device: the setpoints and the mode.\<close>

definition apply_central_values :: "constants \<Rightarrow> entity \<Rightarrow> entity" where
  "apply_central_values c e =
     (let t = ent_thermostat e;
          daikin_mode = dget_default t ''mode'' (JInt (DAIKIN_HVAC_MODE_OFF c))
      in e\<lparr>ent_cool_setpoint := dget t ''cspActive'',
            ent_heat_setpoint := dget t ''hspActive'',
            ent_hvac_mode :=
              (case lookup_int (DAIKIN_HVAC_TO_HASS c) daikin_mode of
                 Some m \<Rightarrow> m | None \<Rightarrow> OFF)\<rparr>)"

text \<open>For a central device: the fan mode and the fan speed.\<close>

definition apply_central_fan :: "entity \<Rightarrow> error + entity" where
  "apply_central_fan e =
     (let t = ent_thermostat e;
          fan_circulate = dget_default t ''fanCirculate'' (JInt 0);
          fan_speed = dget_default t ''fanCirculateSpeed'' (JInt 0)
      in case (if lookup_int DAIKIN_FAN_TO_HASS fan_circulate = Some FAN_ON then
                 (case py_add_int fan_speed 3 of
                    Inl err \<Rightarrow> Inl err
                  | Inr v \<Rightarrow> Inr (label_or DAIKIN_FAN_TO_HASS v FAN_ON))
               else Inr (label_or DAIKIN_FAN_TO_HASS fan_circulate FAN_AUTO)) of
           Inl err \<Rightarrow> Inl err
         | Inr fan_mode \<Rightarrow>
             Inr (e\<lparr>ent_fan_mode := Some (Lit fan_mode),
                    ent_fan_speed :=
                      Some (Lit (label_or DAIKIN_FAN_SPEED_TO_HASS fan_speed FAN_LOW))\<rparr>))"

text \<open>For a central device: the preset, and the test for dry mode.\<close>

definition apply_central_preset :: "entity \<Rightarrow> entity" where
  "apply_central_preset e =
     (let t = ent_thermostat e;
          e1 = e\<lparr>ent_preset_mode :=
                    (if truthy (dget t ''geofencingAway'') then PRESET_AWAY
                     else if eq_int (dget t ''schedOverride'') 1 then PRESET_TEMP_HOLD
                     else if truthy (dget t ''schedEnabled'') then PRESET_SCHEDULE
                     else PRESET_MANUAL)\<rparr>
      in if ent_is_wall_unit e1 \<and> is_dry_mode e1
         then e1\<lparr>ent_fan_mode := None, ent_fan_speed := None\<rparr> else e1)"

definition apply_thermostat_state :: "constants \<Rightarrow> entity \<Rightarrow> error + entity" where
  "apply_thermostat_state c e =
     (if ent_is_wall_unit e then
        Inr ((refresh_supported_features_for_mode
                (apply_wall_unit_fan c (apply_wall_unit_values c e)))\<lparr>ent_fan_speed := None\<rparr>)
      else
        (case apply_central_fan (apply_central_values c e) of
           Inl err \<Rightarrow> Inl err
         | Inr e1 \<Rightarrow> Inr (refresh_supported_features_for_mode (apply_central_preset e1))))"

text \<open>
  The end of \<^verbatim>\<open>Thermostat.async_update\<close> (and of \<^verbatim>\<open>__init__\<close>): the record is
  classified again, the capabilities configured and the state applied.
\<close>

definition resolve :: "constants \<Rightarrow> entity \<Rightarrow> device \<Rightarrow> error + entity" where
  "resolve c e thermostat =
     (case configure_capabilities c
             (e\<lparr>ent_thermostat := thermostat, ent_is_wall_unit := is_wall_unit thermostat\<rparr>) of
        Inl err \<Rightarrow> Inl err
      | Inr e1 \<Rightarrow> apply_thermostat_state c e1)"

text \<open>The property \<^verbatim>\<open>target_temperature\<close>.\<close>

definition target_temperature :: "entity \<Rightarrow> jval" where
  "target_temperature e =
     (if ent_is_wall_unit e then (if is_dry_mode e then JNull else ent_target_temp e)
      else if ent_hvac_mode e = AUTO then JNull
      else if ent_hvac_mode e = HEAT then ent_heat_setpoint e
      else if ent_hvac_mode e = COOL then ent_cool_setpoint e
      else JNull)"

section \<open>Setting the temperature from the entity\<close>

text \<open>
  A method of the entity changes the entity and, through \<^verbatim>\<open>self.data.daikinskyport\<close>,
  the client. It ends with an exception or returns \<^verbatim>\<open>None\<close>.
\<close>

type_synonym ent_result = "(entity \<times> client) \<times> (error + unit)"

text \<open>\<^verbatim>\<open>Thermostat.hold_preference\<close>; \<^verbatim>\<open>bool\<close> is a subclass of \<^verbatim>\<open>int\<close>.\<close>

definition hold_preference :: "entity \<Rightarrow> jval" where
  "hold_preference e =
     (case dget_default (ent_thermostat e) ''schedOverrideDuration'' (JInt 0) of
        JInt i \<Rightarrow> JInt i
      | JBool b \<Rightarrow> JBool b
      | _ \<Rightarrow> JInt 0)"

text \<open>\<^verbatim>\<open>Thermostat.set_auto_temp_hold\<close>.\<close>

definition Thermostat_set_auto_temp_hold :: "entity \<Rightarrow> client \<Rightarrow> jval \<Rightarrow> jval \<Rightarrow> ent_result" where
  "Thermostat_set_auto_temp_hold e s heat_temp cool_temp =
     (case (if cool_temp \<noteq> JNull then Some cool_temp else ent_thermostat e ''cspHome'') of
        None \<Rightarrow> ((e, s), Inl KeyError)
      | Some cool_temp_setpoint \<Rightarrow>
     (case (if heat_temp \<noteq> JNull then Some heat_temp else ent_thermostat e ''hspHome'') of
        None \<Rightarrow> ((e, s), Inl KeyError)
      | Some heat_temp_setpoint \<Rightarrow>
     (case (if ent_preset_mode e = PRESET_MANUAL
            then set_permanent_hold s (ent_thermostat_index e) cool_temp_setpoint heat_temp_setpoint
            else set_temp_hold s (ent_thermostat_index e) cool_temp_setpoint heat_temp_setpoint
                   (hold_preference e)) of
        (s1, Inl err) \<Rightarrow> ((e, s1), Inl err)
      | (s1, Inr _) \<Rightarrow>
          ((e\<lparr>ent_cool_setpoint := cool_temp_setpoint,
              ent_heat_setpoint := heat_temp_setpoint,
              ent_update_without_throttle := True\<rparr>, s1), Inr ()))))"

text \<open>
  \<^verbatim>\<open>Thermostat.set_temp_hold\<close>. In a mode other than heat and cool neither branch
  assigns \<^verbatim>\<open>heat_temp\<close> and \<^verbatim>\<open>cool_temp\<close>, and the call that reads them raises.
\<close>

definition Thermostat_set_temp_hold :: "entity \<Rightarrow> client \<Rightarrow> jval \<Rightarrow> ent_result" where
  "Thermostat_set_temp_hold e s temp =
     (case (if ent_hvac_mode e = HEAT then
              (case ent_thermostat e ''cspHome'' of
                 None \<Rightarrow> Inl KeyError
               | Some cool_temp \<Rightarrow> Inr (temp, cool_temp))
            else if ent_hvac_mode e = COOL then
              (case ent_thermostat e ''hspHome'' of
                 None \<Rightarrow> Inl KeyError
               | Some heat_temp \<Rightarrow> Inr (heat_temp, temp))
            else Inl UnboundLocalError) of
        Inl err \<Rightarrow> ((e, s), Inl err)
      | Inr (heat_temp, cool_temp) \<Rightarrow>
          (case Thermostat_set_auto_temp_hold e s heat_temp cool_temp of
             ((e1, s1), Inl err) \<Rightarrow> ((e1, s1), Inl err)
           | ((e1, s1), Inr _) \<Rightarrow>
               ((e1\<lparr>ent_cool_setpoint := cool_temp, ent_heat_setpoint := heat_temp\<rparr>, s1),
                Inr ())))"

text \<open>
  \<^verbatim>\<open>Thermostat._daikin_mode_from_hass\<close>: the first key of the ordered dictionary whose
  value is the mode. A dictionary keeps each key where it was first inserted, with the
  value inserted last.
\<close>

fun dict_insert :: "int \<Rightarrow> 'a \<Rightarrow> (int \<times> 'a) list \<Rightarrow> (int \<times> 'a) list" where
  "dict_insert k v [] = [(k, v)]"
| "dict_insert k v ((k', v') # kvs) =
     (if k = k' then (k, v) # kvs else (k', v') # dict_insert k v kvs)"

definition dict_items :: "(int \<times> 'a) list \<Rightarrow> (int \<times> 'a) list" where
  "dict_items pairs = fold (\<lambda>(k, v) d. dict_insert k v d) pairs []"

definition daikin_mode_from_hass :: "constants \<Rightarrow> HVACMode \<Rightarrow> int" where
  "daikin_mode_from_hass c hvac_mode =
     (case filter (\<lambda>(k, v). v = hvac_mode) (dict_items (DAIKIN_HVAC_TO_HASS c)) of
        [] \<Rightarrow> DAIKIN_HVAC_MODE_OFF c
      | (k, v) # _ \<Rightarrow> k)"

text \<open>The keyword arguments of \<^verbatim>\<open>set_temperature\<close>; a missing one is \<^verbatim>\<open>None\<close>.\<close>

record kwargs =
  ATTR_TEMPERATURE :: jval
  ATTR_TARGET_TEMP_LOW :: jval
  ATTR_TARGET_TEMP_HIGH :: jval

text \<open>\<^verbatim>\<open>Thermostat.set_temperature\<close>.\<close>

definition Thermostat_set_temperature ::
  "constants \<Rightarrow> entity \<Rightarrow> client \<Rightarrow> kwargs \<Rightarrow> ent_result" where
  "Thermostat_set_temperature c e s kw =
     (if ent_is_wall_unit e \<and> is_dry_mode e then ((e, s), Inr ())
      else if ent_is_wall_unit e then
        (let temp0 = ATTR_TEMPERATURE kw;
             temp = (if temp0 = JNull
                     then py_or (ATTR_TARGET_TEMP_HIGH kw) (ATTR_TARGET_TEMP_LOW kw) else temp0)
         in if temp = JNull then ((e, s), Inr ())
            else
              (case set_wall_unit_temperature c s (ent_thermostat_index e) temp
                      (JInt (daikin_mode_from_hass c (ent_hvac_mode e))) of
                 (s1, Inl err) \<Rightarrow> ((e, s1), Inl err)
               | (s1, Inr _) \<Rightarrow>
                   (let e1 = e\<lparr>ent_target_temp := temp\<rparr>;
                        e2 = (if ent_hvac_mode e1 = HEAT then e1\<lparr>ent_heat_setpoint := temp\<rparr>
                              else if ent_hvac_mode e1 = COOL then e1\<lparr>ent_cool_setpoint := temp\<rparr>
                              else e1)
                    in ((e2\<lparr>ent_update_without_throttle := True\<rparr>, s1), Inr ()))))
      else
        (let low_temp = ATTR_TARGET_TEMP_LOW kw;
             high_temp = ATTR_TARGET_TEMP_HIGH kw;
             temp = ATTR_TEMPERATURE kw
         in case (if ent_hvac_mode e = AUTO \<and> (low_temp \<noteq> JNull \<or> high_temp \<noteq> JNull)
                  then Thermostat_set_auto_temp_hold e s low_temp high_temp
                  else if temp \<noteq> JNull then Thermostat_set_temp_hold e s temp
                  else ((e, s), Inr ())) of
              ((e1, s1), Inl err) \<Rightarrow> ((e1, s1), Inl err)
            | ((e1, s1), Inr _) \<Rightarrow>
                ((e1\<lparr>ent_cool_setpoint := high_temp, ent_heat_setpoint := low_temp\<rparr>, s1),
                 Inr ())))"


section \<open>Definitions used in the statements and proofs\<close>

text \<open>
  What the wall-unit branch of \<^verbatim>\<open>_normalize_device_info\<close> makes of a record: the five
  blocks of statements, one after the other.
\<close>

definition wall_unit_normal_form :: "constants \<Rightarrow> device \<Rightarrow> device" where
  "wall_unit_normal_form c d =
     norm_defaults (norm_backfills (norm_fan_mode_value c
       (norm_mode c (d(''device_type'' \<mapsto> JStr ''wall_unit'')))))"

text \<open>The attributes that \<^verbatim>\<open>Thermostat.__init__\<close> assigns before it resolves a record.\<close>

definition blank_entity :: entity where
  "blank_entity =
     \<lparr>ent_thermostat = Map.empty, ent_thermostat_index = 0, ent_is_wall_unit = False,
      ent_cool_setpoint = JNull, ent_heat_setpoint = JNull, ent_target_temp = JNull,
      ent_hvac_mode = OFF, ent_fan_mode = None, ent_fan_speed = None,
      ent_base_supported_features = SUPPORT_FLAGS, ent_supported_features = SUPPORT_FLAGS,
      ent_attr_precision = 1 / 10, ent_operation_list = [], ent_preset_modes = {},
      ent_preset_mode = [], ent_fan_modes = [], ent_update_without_throttle = False\<rparr>"

text \<open>The requests made between two states of the client.\<close>

definition new_requests :: "client \<Rightarrow> client \<Rightarrow> request list" where
  "new_requests s s' = drop (length (sent s)) (sent s')"

text \<open>Records for concrete inputs.\<close>

definition off_wall_unit :: device where
  "off_wall_unit = [''iduOperatingMode'' \<mapsto> JInt 5, ''iduOnOff'' \<mapsto> JBool False, ''mode'' \<mapsto> JInt 5]"

definition typed_only_record :: device where
  "typed_only_record = [''device_type'' \<mapsto> JStr ''wall_unit'']"

definition ra_record :: device where
  "ra_record = [''adptSupportedEquipment'' \<mapsto> JStr ''RA'']"

definition dry_wall_unit :: device where
  "dry_wall_unit = [''iduOperatingMode'' \<mapsto> JInt 5, ''iduOnOff'' \<mapsto> JBool True,
                    ''iduDryFanSpeed'' \<mapsto> JInt 3]"

definition central_record :: device where
  "central_record = [''ctSystemCapHeat'' \<mapsto> JBool True, ''ctOutdoorNoofCoolStages'' \<mapsto> JInt 2,
                     ''mode'' \<mapsto> JInt 2]"

text \<open>The bodies of the PUT requests in a list of requests, with their URL and token.\<close>

fun puts_of :: "request list \<Rightarrow> (string \<times> string \<times> pyobj) list" where
  "puts_of [] = []"
| "puts_of (HttpPut url token body # rqs) = (url, token, body) # puts_of rqs"
| "puts_of (HttpGet url token # rqs) = puts_of rqs"
| "puts_of (HttpPost url body # rqs) = puts_of rqs"

text \<open>The cached record at an index has a field with a value.\<close>

definition cache_has :: "client \<Rightarrow> int \<Rightarrow> string \<Rightarrow> jval \<Rightarrow> bool" where
  "cache_has s index k v \<longleftrightarrow> (case thermostat_at s index of Inl e \<Rightarrow> False | Inr d \<Rightarrow> d k = Some v)"

text \<open>The fields that only the token calls and the network change.\<close>

definition same_cache :: "client \<Rightarrow> client \<Rightarrow> bool" where
  "same_cache s s' \<longleftrightarrow>
     thermostats s' = thermostats s \<and> thermostatlist s' = thermostatlist s
     \<and> authenticated s' = authenticated s \<and> skip_next s' = skip_next s
     \<and> file_based_config s' = file_based_config s \<and> user_email s' = user_email s
     \<and> user_password s' = user_password s"

text \<open>A result whose state has sent nothing beyond the given requests, or has the flag set.\<close>

definition quiet_or_flagged :: "request list \<Rightarrow> 'a result \<Rightarrow> bool" where
  "quiet_or_flagged n r \<longleftrightarrow> sent (fst r) = n \<or> skip_next (fst r)"

text \<open>
  A client with one cached device, and a server that answers the next request with 200;
  and the same client with a server that answers 401 \<^verbatim>\<open>authorization_expired\<close>, then
  grants a new token, then answers 200.
\<close>

definition example_client :: client where
  "example_client =
     \<lparr>thermostats = [[''id'' \<mapsto> JStr ''dev1'', ''mode'' \<mapsto> JInt 2, ''cspHome'' \<mapsto> JFloat 24,
                      ''hspHome'' \<mapsto> JFloat 20, ''schedEnabled'' \<mapsto> JBool False]],
      thermostatlist = JsonDevices [], authenticated = True, skip_next = False,
      file_based_config = False, user_email = Some ''user@example.org'', user_password = None,
      access_token = JStr ''token1'', refresh_token = JStr ''refresh1'', config = None,
      pending = [Response 200 (JsonObject Map.empty)], sent = []\<rparr>"

definition expired_client :: client where
  "expired_client =
     example_client\<lparr>pending :=
       [Response 401 (JsonObject [''error'' \<mapsto> JStr ''authorization_expired'']),
        Response 200 (JsonObject [''accessToken'' \<mapsto> JStr ''token2'']),
        Response 200 (JsonObject Map.empty)]\<rparr>"

text \<open>
  The state in which a request for the device at \<open>index\<close> is sent and answered with 200:
  the index is valid, the cached record has the identifier, the token is a string.
\<close>

definition ready_for_put :: "client \<Rightarrow> int \<Rightarrow> string \<Rightarrow> string \<Rightarrow> bool" where
  "ready_for_put s index device_id token \<longleftrightarrow>
     (case thermostat_at s index of
        Inr d \<Rightarrow> d ''id'' = Some (JStr device_id)
      | Inl _ \<Rightarrow> False)
     \<and> access_token s = JStr token
     \<and> (case pending s of
           Response status _ # _ \<Rightarrow> status = 200
         | _ \<Rightarrow> False)"

text \<open>
  Between \<open>s\<close> and \<open>s'\<close> one request was sent, a PUT for the device with the two setpoints in
  its body, and the cached record has them too.
\<close>

definition holds_setpoints :: "client \<Rightarrow> int \<Rightarrow> string \<Rightarrow> string \<Rightarrow> jval \<Rightarrow> jval \<Rightarrow> client \<Rightarrow> bool" where
  "holds_setpoints s index device_id token hsp csp s' \<longleftrightarrow>
     (\<exists>d' body.
        thermostat_at s' index = Inr d' \<and> d' ''hspHome'' = Some hsp \<and> d' ''cspHome'' = Some csp
      \<and> sent s' = sent s @ [HttpPut (device_data_url @ device_id) token (PDict body)]
      \<and> body ''hspHome'' = Some hsp \<and> body ''cspHome'' = Some csp)"

text \<open>An entity of a Central device in heat mode.\<close>

definition heat_entity :: entity where
  "heat_entity =
     blank_entity\<lparr>ent_thermostat := [''cspHome'' \<mapsto> JInt 24, ''hspHome'' \<mapsto> JInt 20],
                  ent_hvac_mode := HEAT\<rparr>"

section \<open>Dictionaries: reading after writing\<close>

lemma has_key_upd: "has_key (d(k \<mapsto> v)) k' \<longleftrightarrow> k' = k \<or> has_key d k'"
  by (simp add: has_key_def)

lemma has_key_setdefault: "has_key (setdefault k v d) k' \<longleftrightarrow> k' = k \<or> has_key d k'"
  by (auto simp add: setdefault_def has_key_def)

lemma has_key_backfill:
  "has_key (backfill k src d) k' \<longleftrightarrow> has_key d k' \<or> (k' = k \<and> has_key d src)"
  by (auto simp add: backfill_def has_key_def)

lemma setdefault_present: "has_key d k \<Longrightarrow> setdefault k v d = d"
  by (simp add: setdefault_def)

lemma backfill_settled: "has_key d k \<or> \<not> has_key d src \<Longrightarrow> backfill k src d = d"
  by (auto simp add: backfill_def)

lemma dget_upd: "dget (d(k \<mapsto> v)) k' = (if k' = k then v else dget d k')"
  by (simp add: dget_def)

lemma dget_setdefault_other: "k' \<noteq> k \<Longrightarrow> dget (setdefault k v d) k' = dget d k'"
  by (simp add: dget_def setdefault_def)

lemma dget_backfill_other: "k' \<noteq> k \<Longrightarrow> dget (backfill k src d) k' = dget d k'"
  by (simp add: dget_def backfill_def)

lemma has_key_norm_mode: "has_key (norm_mode c d) k \<longleftrightarrow> k = ''mode'' \<or> has_key d k"
  by (auto simp add: norm_mode_def has_key_def)

lemma has_key_norm_fan_mode_value:
  "has_key (norm_fan_mode_value c d) k \<longleftrightarrow> k = ''wallUnitFanModeValue'' \<or> has_key d k"
  by (auto simp add: norm_fan_mode_value_def Let_def has_key_setdefault has_key_upd)

lemma dget_norm_mode_other: "k \<noteq> ''mode'' \<Longrightarrow> dget (norm_mode c d) k = dget d k"
  by (simp add: norm_mode_def dget_def)

lemma dget_norm_fan_mode_value_other:
  "k \<noteq> ''wallUnitFanModeValue'' \<Longrightarrow> dget (norm_fan_mode_value c d) k = dget d k"
  by (simp add: norm_fan_mode_value_def Let_def dget_def setdefault_def)

lemma has_key_norm_backfills:
  "has_key (norm_backfills d) k \<longleftrightarrow>
     has_key d k
     \<or> (k = ''tempIndoor'' \<and> has_key d ''iduRoomTemp'')
     \<or> (k = ''cspActive'' \<and> has_key d ''iduCoolSetpoint'')
     \<or> (k = ''hspActive'' \<and> has_key d ''iduHeatSetpoint'')
     \<or> (k = ''cspHome'' \<and> (has_key d ''cspActive'' \<or> has_key d ''iduCoolSetpoint''))
     \<or> (k = ''hspHome'' \<and> (has_key d ''hspActive'' \<or> has_key d ''iduHeatSetpoint''))"
  unfolding norm_backfills_def has_key_backfill by auto

lemma dget_norm_backfills_other:
  "k \<notin> {''tempIndoor'', ''cspActive'', ''hspActive'', ''cspHome'', ''hspHome''} \<Longrightarrow>
     dget (norm_backfills d) k = dget d k"
  unfolding norm_backfills_def by (simp add: dget_backfill_other)

lemma has_key_norm_defaults:
  "has_key (norm_defaults d) k \<longleftrightarrow>
     has_key d k \<or> k \<in> {''geofencingAway'', ''schedOverride'', ''schedEnabled'',
       ''fanCirculate'', ''fanCirculateSpeed'', ''nightModeActive'', ''nightModeEnabled'',
       ''displayLockPIN'', ''alertMediaAirFilterDays'', ''statFirmware''}"
  unfolding norm_defaults_def Let_def has_key_setdefault by auto


lemma setdefault_other: "k' \<noteq> k \<Longrightarrow> setdefault k v d k' = d k'"
  by (simp add: setdefault_def)

lemma backfill_other: "k' \<noteq> k \<Longrightarrow> backfill k src d k' = d k'"
  by (simp add: backfill_def)

lemma norm_backfills_other:
  "k \<notin> {''tempIndoor'', ''cspActive'', ''hspActive'', ''cspHome'', ''hspHome''} \<Longrightarrow>
     norm_backfills d k = d k"
  unfolding norm_backfills_def by (simp add: backfill_other)

lemma norm_defaults_other:
  "k \<notin> {''geofencingAway'', ''schedOverride'', ''schedEnabled'',
       ''fanCirculate'', ''fanCirculateSpeed'', ''nightModeActive'', ''nightModeEnabled'',
       ''displayLockPIN'', ''alertMediaAirFilterDays'', ''statFirmware''} \<Longrightarrow>
     norm_defaults d k = d k"
  unfolding norm_defaults_def Let_def by (simp add: setdefault_other)

lemma dget_cong_key: "d k = d' k \<Longrightarrow> dget d k = dget d' k"
  by (simp add: dget_def)

lemma has_key_cong_key: "d k = d' k \<Longrightarrow> has_key d k = has_key d' k"
  by (simp add: has_key_def)

lemma norm_mode_other: "k \<noteq> ''mode'' \<Longrightarrow> norm_mode c d k = d k"
  by (simp add: norm_mode_def)

lemma norm_fan_mode_value_other:
  "k \<noteq> ''wallUnitFanModeValue'' \<Longrightarrow> norm_fan_mode_value c d k = d k"
  by (simp add: norm_fan_mode_value_def Let_def setdefault_def)

lemma wnf_other:
  "k \<notin> {''device_type'', ''mode'', ''wallUnitFanModeValue'',
          ''tempIndoor'', ''cspActive'', ''hspActive'', ''cspHome'', ''hspHome'',
          ''geofencingAway'', ''schedOverride'', ''schedEnabled'',
          ''fanCirculate'', ''fanCirculateSpeed'', ''nightModeActive'', ''nightModeEnabled'',
          ''displayLockPIN'', ''alertMediaAirFilterDays'', ''statFirmware''} \<Longrightarrow>
   wall_unit_normal_form c d k = d k"
  unfolding wall_unit_normal_form_def
  by (simp add: norm_defaults_other norm_backfills_other norm_fan_mode_value_other norm_mode_other)

lemma wnf_device_type: "wall_unit_normal_form c d ''device_type'' = Some (JStr ''wall_unit'')"
  unfolding wall_unit_normal_form_def
  by (simp add: norm_defaults_other norm_backfills_other norm_fan_mode_value_other norm_mode_other)

lemma wnf_has_mode: "has_key (wall_unit_normal_form c d) ''mode''"
  unfolding wall_unit_normal_form_def
  by (simp add: has_key_norm_defaults has_key_norm_backfills has_key_norm_fan_mode_value
      has_key_norm_mode)

lemma wnf_fan_mode_value:
  "wall_unit_normal_form c d ''wallUnitFanModeValue'' =
     norm_fan_mode_value c (norm_mode c (d(''device_type'' \<mapsto> JStr ''wall_unit''))) ''wallUnitFanModeValue''"
  unfolding wall_unit_normal_form_def
  by (simp add: norm_defaults_other norm_backfills_other)


lemma norm_defaults_fix:
  assumes "has_key m ''geofencingAway''" "has_key m ''schedOverride''"
    "has_key m ''schedEnabled''" "has_key m ''fanCirculate''" "has_key m ''fanCirculateSpeed''"
    "has_key m ''nightModeActive''" "has_key m ''nightModeEnabled''"
    "has_key m ''displayLockPIN''" "has_key m ''alertMediaAirFilterDays''"
    "has_key m ''statFirmware''"
  shows "norm_defaults m = m"
  unfolding norm_defaults_def Let_def using assms by (simp add: setdefault_present)

lemma norm_backfills_fix:
  assumes "has_key m ''tempIndoor'' \<or> \<not> has_key m ''iduRoomTemp''"
    "has_key m ''cspActive'' \<or> \<not> has_key m ''iduCoolSetpoint''"
    "has_key m ''hspActive'' \<or> \<not> has_key m ''iduHeatSetpoint''"
    "has_key m ''cspHome'' \<or> \<not> has_key m ''cspActive''"
    "has_key m ''hspHome'' \<or> \<not> has_key m ''hspActive''"
  shows "norm_backfills m = m"
  unfolding norm_backfills_def using assms by (simp add: backfill_settled)

lemma has_key_wnf:
  "has_key (wall_unit_normal_form c d) k \<longleftrightarrow>
     has_key d k
     \<or> k \<in> {''device_type'', ''mode'', ''wallUnitFanModeValue'',
          ''geofencingAway'', ''schedOverride'', ''schedEnabled'',
          ''fanCirculate'', ''fanCirculateSpeed'', ''nightModeActive'', ''nightModeEnabled'',
          ''displayLockPIN'', ''alertMediaAirFilterDays'', ''statFirmware''}
     \<or> (k = ''tempIndoor'' \<and> has_key d ''iduRoomTemp'')
     \<or> (k = ''cspActive'' \<and> has_key d ''iduCoolSetpoint'')
     \<or> (k = ''hspActive'' \<and> has_key d ''iduHeatSetpoint'')
     \<or> (k = ''cspHome'' \<and> (has_key d ''cspActive'' \<or> has_key d ''iduCoolSetpoint''))
     \<or> (k = ''hspHome'' \<and> (has_key d ''hspActive'' \<or> has_key d ''iduHeatSetpoint''))"
  unfolding wall_unit_normal_form_def has_key_norm_defaults has_key_norm_backfills
    has_key_norm_fan_mode_value has_key_norm_mode has_key_upd
  by auto

lemma wnf_backfills_fix:
  "norm_backfills (wall_unit_normal_form c d) = wall_unit_normal_form c d"
  by (rule norm_backfills_fix) (auto simp add: has_key_wnf)

lemma wnf_defaults_fix:
  "norm_defaults (wall_unit_normal_form c d) = wall_unit_normal_form c d"
  by (rule norm_defaults_fix) (simp_all add: has_key_wnf)

lemma wnf_mode_fix: "norm_mode c (wall_unit_normal_form c d) = wall_unit_normal_form c d"
  by (simp add: norm_mode_def has_key_wnf)

lemma wnf_device_type_fix:
  "(wall_unit_normal_form c d)(''device_type'' \<mapsto> JStr ''wall_unit'') = wall_unit_normal_form c d"
  by (rule map_upd_triv) (rule wnf_device_type)

lemma wnf_dget_other:
  "k \<notin> {''device_type'', ''mode'', ''wallUnitFanModeValue'',
          ''tempIndoor'', ''cspActive'', ''hspActive'', ''cspHome'', ''hspHome'',
          ''geofencingAway'', ''schedOverride'', ''schedEnabled'',
          ''fanCirculate'', ''fanCirculateSpeed'', ''nightModeActive'', ''nightModeEnabled'',
          ''displayLockPIN'', ''alertMediaAirFilterDays'', ''statFirmware''} \<Longrightarrow>
   dget (wall_unit_normal_form c d) k = dget d k"
  by (rule dget_cong_key) (rule wnf_other)

lemma wnf_fan_mode_value_fix:
  "norm_fan_mode_value c (wall_unit_normal_form c d) = wall_unit_normal_form c d"
proof (cases "dget d ''iduOnOff'' = JBool True
    \<and> in_ints (dget d ''iduOperatingMode'') (WALL_UNIT_FAN_MODE_VALUES c)")
  case True
  have "wall_unit_normal_form c d ''wallUnitFanModeValue'' = Some (dget d ''iduOperatingMode'')"
    using True
    by (simp add: wnf_fan_mode_value norm_fan_mode_value_def Let_def dget_norm_mode_other dget_upd)
  then have "(wall_unit_normal_form c d)(''wallUnitFanModeValue'' \<mapsto> dget d ''iduOperatingMode'')
      = wall_unit_normal_form c d"
    by (rule map_upd_triv)
  with True show ?thesis
    by (simp add: norm_fan_mode_value_def[of c "wall_unit_normal_form c d"] Let_def wnf_dget_other)
next
  case False
  have "has_key (wall_unit_normal_form c d) ''wallUnitFanModeValue''"
    by (simp add: has_key_wnf)
  then have "setdefault ''wallUnitFanModeValue'' (JInt (WALL_UNIT_FAN_MODE_DEFAULT c))
      (wall_unit_normal_form c d) = wall_unit_normal_form c d"
    by (rule setdefault_present)
  with False show ?thesis
    by (auto simp add: norm_fan_mode_value_def[of c "wall_unit_normal_form c d"] Let_def
        wnf_dget_other)
qed

lemma wnf_idem: "wall_unit_normal_form c (wall_unit_normal_form c d) = wall_unit_normal_form c d"
  unfolding wall_unit_normal_form_def[of c "wall_unit_normal_form c d"]
  by (simp add: wnf_device_type_fix wnf_mode_fix wnf_fan_mode_value_fix wnf_backfills_fix
      wnf_defaults_fix)

lemma wnf_nonempty: "wall_unit_normal_form c d \<noteq> Map.empty"
  using wnf_device_type[of c d] by auto

lemma wnf_client_is_wall_unit:
  "client_is_wall_unit (wall_unit_normal_form c d) = client_is_wall_unit d"
  by (simp add: client_is_wall_unit_def has_key_wnf wnf_dget_other)

lemma normalize_wall_unit:
  "d \<noteq> Map.empty \<Longrightarrow> client_is_wall_unit d \<Longrightarrow>
     normalize_device_info c d = wall_unit_normal_form c d"
  by (simp add: normalize_device_info_def wall_unit_normal_form_def)

section \<open>The normalizer is idempotent\<close>

text \<open>
  Claim C3. Normalizing a device record that is already normalized changes nothing:
  \<open>normalize (normalize x) = normalize x\<close> for every record \<open>x\<close>.
\<close>

theorem normalize_idempotent:
  "normalize_device_info c (normalize_device_info c x) = normalize_device_info c x"
proof (cases "x \<noteq> Map.empty \<and> client_is_wall_unit x")
  case True
  then have "normalize_device_info c x = wall_unit_normal_form c x"
    by (simp add: normalize_wall_unit)
  moreover have "normalize_device_info c (wall_unit_normal_form c x)
      = wall_unit_normal_form c (wall_unit_normal_form c x)"
    using True by (intro normalize_wall_unit) (simp_all add: wnf_nonempty wnf_client_is_wall_unit)
  ultimately show ?thesis by (simp add: wnf_idem)
next
  case False
  then show ?thesis by (auto simp add: normalize_device_info_def)
qed

theorem normalize_idempotent_witness:
  "normalize_device_info skyport_consts (normalize_device_info skyport_consts ra_record)
     = normalize_device_info skyport_consts ra_record"
  using normalize_idempotent [of skyport_consts ra_record] by simp

section \<open>Resolving a wall unit\<close>

lemma refresh_features_frame:
  "ent_hvac_mode (refresh_supported_features_for_mode e) = ent_hvac_mode e"
  "ent_is_wall_unit (refresh_supported_features_for_mode e) = ent_is_wall_unit e"
  "ent_fan_modes (refresh_supported_features_for_mode e) = ent_fan_modes e"
  "ent_target_temp (refresh_supported_features_for_mode e) = ent_target_temp e"
  "ent_operation_list (refresh_supported_features_for_mode e) = ent_operation_list e"
  by (simp_all add: refresh_supported_features_for_mode_def Let_def is_dry_mode_def)

lemma configure_wall_unit:
  "ent_is_wall_unit e \<Longrightarrow> \<exists>e1. configure_capabilities c e = Inr e1
     \<and> ent_is_wall_unit e1 \<and> ent_thermostat e1 = ent_thermostat e
     \<and> ent_base_supported_features e1 = {TARGET_TEMPERATURE, FAN_MODE, PRESET_MODE}"
  by (simp add: configure_capabilities_def)

lemma apply_wall_unit_values_frame:
  "ent_hvac_mode (apply_wall_unit_values c e) = wall_unit_hvac_mode c (ent_thermostat e)"
  "ent_is_wall_unit (apply_wall_unit_values c e) = ent_is_wall_unit e"
  "ent_thermostat (apply_wall_unit_values c e) = ent_thermostat e"
  "ent_base_supported_features (apply_wall_unit_values c e) = ent_base_supported_features e"
  by (simp_all add: apply_wall_unit_values_def Let_def)

lemma apply_wall_unit_fan_frame:
  "ent_hvac_mode (apply_wall_unit_fan c e) = ent_hvac_mode e"
  "ent_is_wall_unit (apply_wall_unit_fan c e) = ent_is_wall_unit e"
  "ent_base_supported_features (apply_wall_unit_fan c e) = ent_base_supported_features e"
  "ent_fan_modes (apply_wall_unit_fan c e) =
     (if ent_hvac_mode e = DRY then [] else wall_unit_fan_modes (ent_thermostat e))"
  "ent_hvac_mode e = DRY \<Longrightarrow> ent_fan_mode (apply_wall_unit_fan c e) = None"
  by (simp_all add: apply_wall_unit_fan_def Let_def is_dry_mode_def)

lemma refresh_features_wall_unit:
  "ent_is_wall_unit e \<Longrightarrow>
   ent_supported_features (refresh_supported_features_for_mode e) =
     (if ent_hvac_mode e = DRY
      then ent_base_supported_features e - {TARGET_TEMPERATURE, TARGET_TEMPERATURE_RANGE, FAN_MODE}
      else if ent_fan_modes e = [] then ent_base_supported_features e - {FAN_MODE}
      else ent_base_supported_features e)"
  by (auto simp add: refresh_supported_features_for_mode_def Let_def is_dry_mode_def)

lemma refresh_features_fan_mode:
  "ent_fan_mode (refresh_supported_features_for_mode e) = ent_fan_mode e"
  by (simp add: refresh_supported_features_for_mode_def Let_def)

lemma apply_wall_unit:
  assumes "ent_is_wall_unit e"
  shows "\<exists>e'. apply_thermostat_state c e = Inr e'
     \<and> ent_hvac_mode e' = wall_unit_hvac_mode c (ent_thermostat e)
     \<and> ent_is_wall_unit e'
     \<and> ent_supported_features e' =
         (if wall_unit_hvac_mode c (ent_thermostat e) = DRY
          then ent_base_supported_features e - {TARGET_TEMPERATURE, TARGET_TEMPERATURE_RANGE, FAN_MODE}
          else if wall_unit_fan_modes (ent_thermostat e) = []
          then ent_base_supported_features e - {FAN_MODE}
          else ent_base_supported_features e)
     \<and> ent_fan_modes e' =
         (if wall_unit_hvac_mode c (ent_thermostat e) = DRY then []
          else wall_unit_fan_modes (ent_thermostat e))
     \<and> (wall_unit_hvac_mode c (ent_thermostat e) = DRY \<longrightarrow> ent_fan_mode e' = None)"
  using assms
  by (simp add: apply_thermostat_state_def refresh_features_frame refresh_features_wall_unit
      refresh_features_fan_mode apply_wall_unit_fan_frame apply_wall_unit_values_frame)

lemma resolve_wall_unit:
  assumes "is_wall_unit t"
  shows "\<exists>e'. resolve c e t = Inr e'
     \<and> ent_hvac_mode e' = wall_unit_hvac_mode c t
     \<and> ent_is_wall_unit e'
     \<and> ent_supported_features e' =
         (if wall_unit_hvac_mode c t = DRY then {PRESET_MODE}
          else if wall_unit_fan_modes t = [] then {TARGET_TEMPERATURE, PRESET_MODE}
          else {TARGET_TEMPERATURE, FAN_MODE, PRESET_MODE})
     \<and> ent_fan_modes e' = (if wall_unit_hvac_mode c t = DRY then [] else wall_unit_fan_modes t)
     \<and> (wall_unit_hvac_mode c t = DRY \<longrightarrow> ent_fan_mode e' = None)"
proof -
  let ?e0 = "e\<lparr>ent_thermostat := t, ent_is_wall_unit := is_wall_unit t\<rparr>"
  have w: "ent_is_wall_unit ?e0" using assms by simp
  from configure_wall_unit[OF w, of c] obtain e1 where
    e1: "configure_capabilities c ?e0 = Inr e1" "ent_is_wall_unit e1" "ent_thermostat e1 = t"
      "ent_base_supported_features e1 = {TARGET_TEMPERATURE, FAN_MODE, PRESET_MODE}"
    by auto
  from apply_wall_unit[OF e1(2), of c] e1 show ?thesis
    by (auto simp add: resolve_def)
qed

text \<open>
  Claim C2. A wall-unit record whose \<^verbatim>\<open>iduOnOff\<close> is \<^verbatim>\<open>false\<close> resolves to the mode
  off, whatever \<^verbatim>\<open>mode\<close> and \<^verbatim>\<open>iduOperatingMode\<close> hold: in the entity
  (\<^verbatim>\<open>_wall_unit_hvac_mode\<close>, and so in the state that is resolved from the record) and in
  the client (\<^verbatim>\<open>_wall_unit_mode\<close>).
\<close>

theorem wall_unit_off_when_not_on:
  assumes "is_wall_unit t" and "dget t ''iduOnOff'' = JBool False"
  shows "wall_unit_hvac_mode c t = OFF
    \<and> wall_unit_mode c t = DAIKIN_HVAC_MODE_OFF c
    \<and> (\<exists>e'. resolve c e t = Inr e' \<and> ent_hvac_mode e' = OFF)"
proof -
  have m: "wall_unit_hvac_mode c t = OFF"
    using assms(2) by (simp add: wall_unit_hvac_mode_def Let_def)
  moreover have "wall_unit_mode c t = DAIKIN_HVAC_MODE_OFF c"
    using assms(2) by (simp add: wall_unit_mode_def Let_def)
  moreover from resolve_wall_unit[OF assms(1), of c e] m
  have "\<exists>e'. resolve c e t = Inr e' \<and> ent_hvac_mode e' = OFF" by auto
  ultimately show ?thesis by blast
qed

theorem wall_unit_off_when_not_on_witness:
  "is_wall_unit off_wall_unit \<and> dget off_wall_unit ''iduOnOff'' = JBool False
   \<and> wall_unit_hvac_mode skyport_consts off_wall_unit = OFF
   \<and> wall_unit_mode skyport_consts off_wall_unit = DAIKIN_HVAC_MODE_OFF skyport_consts
   \<and> (\<exists>e'. resolve skyport_consts blank_entity off_wall_unit = Inr e' \<and> ent_hvac_mode e' = OFF)"
proof -
  have a: "is_wall_unit off_wall_unit"
    by (simp add: is_wall_unit_def off_wall_unit_def has_key_def)
  have b: "dget off_wall_unit ''iduOnOff'' = JBool False"
    by (simp add: off_wall_unit_def dget_def)
  from wall_unit_off_when_not_on[OF a b, of skyport_consts blank_entity] a b
  show ?thesis by simp
qed

section \<open>Classifying a record\<close>

text \<open>
  Claim C6, as amended. The entity layer classifies a record as a wall unit exactly when
  \<^verbatim>\<open>device_type\<close> is \<^verbatim>\<open>"wall_unit"\<close>, or \<^verbatim>\<open>adptSupportedEquipment\<close> is \<^verbatim>\<open>"RA"\<close>, or
  the key \<^verbatim>\<open>iduOperatingMode\<close> is there. The client's own classifier, which the
  normalizer applies to the raw record, tests the last two conditions only. The two agree
  on every record whose \<^verbatim>\<open>device_type\<close> is not \<^verbatim>\<open>"wall_unit"\<close>, and on such a record the
  entity layer classifies the normalized record as the client classified the raw one.
\<close>

theorem wall_unit_classification:
  "(is_wall_unit t \<longleftrightarrow>
      dget t ''device_type'' = JStr ''wall_unit''
      \<or> dget t ''adptSupportedEquipment'' = JStr ''RA''
      \<or> has_key t ''iduOperatingMode'')
   \<and> (client_is_wall_unit t \<longleftrightarrow>
      dget t ''adptSupportedEquipment'' = JStr ''RA'' \<or> has_key t ''iduOperatingMode'')
   \<and> (dget t ''device_type'' \<noteq> JStr ''wall_unit'' \<longrightarrow>
        client_is_wall_unit t = is_wall_unit t
        \<and> is_wall_unit (normalize_device_info c t) = client_is_wall_unit t)"
proof -
  have "is_wall_unit (normalize_device_info c t) = client_is_wall_unit t"
    if dt: "dget t ''device_type'' \<noteq> JStr ''wall_unit''"
  proof (cases "client_is_wall_unit t")
    case True
    then have "t \<noteq> Map.empty"
      by (auto simp add: client_is_wall_unit_def dget_def has_key_def)
    with True have "normalize_device_info c t = wall_unit_normal_form c t"
      by (simp add: normalize_wall_unit)
    moreover have "is_wall_unit (wall_unit_normal_form c t)"
      using wnf_device_type [of c t] by (simp add: is_wall_unit_def dget_def)
    ultimately show ?thesis using True by simp
  next
    case False
    then have "normalize_device_info c t = t"
      by (simp add: normalize_device_info_def)
    with False dt show ?thesis
      by (simp add: is_wall_unit_def client_is_wall_unit_def)
  qed
  then show ?thesis
    by (auto simp add: is_wall_unit_def client_is_wall_unit_def)
qed

theorem wall_unit_classification_witness:
  "dget ra_record ''device_type'' \<noteq> JStr ''wall_unit''
   \<and> client_is_wall_unit ra_record \<and> is_wall_unit ra_record
   \<and> is_wall_unit (normalize_device_info skyport_consts ra_record)"
proof -
  have a: "dget ra_record ''device_type'' \<noteq> JStr ''wall_unit''"
    by (simp add: ra_record_def dget_def)
  have b: "client_is_wall_unit ra_record"
    by (simp add: ra_record_def client_is_wall_unit_def dget_def)
  from wall_unit_classification [of ra_record skyport_consts] a b show ?thesis by simp
qed

text \<open>
  The record \<^verbatim>\<open>{"device_type": "wall_unit"}\<close> meets the first condition of claim C6, and
  the client's classifier does not classify it as a wall unit.
\<close>

theorem wall_unit_classification_counterexample:
  "dget typed_only_record ''device_type'' = JStr ''wall_unit''
   \<and> is_wall_unit typed_only_record
   \<and> \<not> client_is_wall_unit typed_only_record"
  by (simp add: typed_only_record_def is_wall_unit_def client_is_wall_unit_def dget_def
      has_key_def)

section \<open>A wall unit in dry mode\<close>

text \<open>
  Claim C4. For a wall unit the resolver always produces a state, and when the mode it
  resolves is dry, the features for the target temperature, for the temperature range and
  for the fan mode are cleared, there is no fan mode to choose from and none current, and
  the target temperature that the entity reports is \<^verbatim>\<open>None\<close>.
\<close>

theorem dry_wall_unit_features:
  assumes "is_wall_unit t"
  shows "\<exists>e'. resolve c e t = Inr e'
     \<and> (ent_hvac_mode e' = DRY \<longrightarrow>
          TARGET_TEMPERATURE \<notin> ent_supported_features e'
          \<and> TARGET_TEMPERATURE_RANGE \<notin> ent_supported_features e'
          \<and> FAN_MODE \<notin> ent_supported_features e'
          \<and> ent_fan_modes e' = []
          \<and> ent_fan_mode e' = None
          \<and> target_temperature e' = JNull)"
proof -
  from resolve_wall_unit [OF assms, of c e] obtain e' where
    r: "resolve c e t = Inr e'" and
    m: "ent_hvac_mode e' = wall_unit_hvac_mode c t" and
    w: "ent_is_wall_unit e'" and
    f: "ent_supported_features e' =
         (if wall_unit_hvac_mode c t = DRY then {PRESET_MODE}
          else if wall_unit_fan_modes t = [] then {TARGET_TEMPERATURE, PRESET_MODE}
          else {TARGET_TEMPERATURE, FAN_MODE, PRESET_MODE})" and
    fm: "ent_fan_modes e' = (if wall_unit_hvac_mode c t = DRY then [] else wall_unit_fan_modes t)" and
    fn: "wall_unit_hvac_mode c t = DRY \<longrightarrow> ent_fan_mode e' = None"
    by blast
  have "target_temperature e' = JNull" if "ent_hvac_mode e' = DRY"
    using that w by (simp add: target_temperature_def is_dry_mode_def)
  with r m f fm fn show ?thesis by auto
qed

lemma dry_wall_unit_mode: "wall_unit_hvac_mode skyport_consts dry_wall_unit = DRY"
  by (simp add: wall_unit_hvac_mode_def dry_wall_unit_def dget_def skyport_consts_def
      DAIKIN_HVAC_TO_HASS_def eq_int_def Let_def)

theorem dry_wall_unit_features_witness:
  "is_wall_unit dry_wall_unit
   \<and> (\<exists>e'. resolve skyport_consts blank_entity dry_wall_unit = Inr e'
         \<and> ent_hvac_mode e' = DRY
         \<and> TARGET_TEMPERATURE \<notin> ent_supported_features e'
         \<and> TARGET_TEMPERATURE_RANGE \<notin> ent_supported_features e'
         \<and> FAN_MODE \<notin> ent_supported_features e'
         \<and> ent_fan_modes e' = []
         \<and> target_temperature e' = JNull)"
proof -
  have a: "is_wall_unit dry_wall_unit"
    by (simp add: is_wall_unit_def dry_wall_unit_def has_key_def)
  from resolve_wall_unit [OF a, of skyport_consts blank_entity] dry_wall_unit_mode
  have "\<exists>e'. resolve skyport_consts blank_entity dry_wall_unit = Inr e' \<and> ent_hvac_mode e' = DRY"
    by auto
  with dry_wall_unit_features [OF a, of skyport_consts blank_entity] a show ?thesis
    by auto
qed

section \<open>The modes of a central device\<close>

lemma central_operation_list_cases:
  assumes "cool_capability t = Inr cool"
  shows "central_operation_list t =
     Inr (if truthy (dget t ''ctSystemCapHeat'')
          then (if cool then [AUTO, HEAT, COOL, OFF] else [HEAT, OFF])
          else (if cool then [COOL, OFF] else [OFF]))"
  using assms by (simp add: central_operation_list_def Let_def)

lemma cool_capability_total:
  assumes "t ''ctOutdoorNoofCoolStages'' = None \<or> num_val (dget t ''ctOutdoorNoofCoolStages'') \<noteq> None"
  shows "cool_capability t =
     Inr ((\<exists>r. num_val (dget t ''ctOutdoorNoofCoolStages'') = Some r \<and> 0 < r)
          \<or> dget t ''P1P2S21CoolingCapability'' = JBool True)"
  using assms
  by (auto simp add: cool_capability_def py_positive_def has_key_def dget_def
      split: option.splits)

lemma apply_central_frame:
  "ent_operation_list (apply_central_values c e) = ent_operation_list e"
  "apply_central_fan e = Inr e1 \<Longrightarrow> ent_operation_list e1 = ent_operation_list e"
  "ent_operation_list (apply_central_preset e) = ent_operation_list e"
  by (auto simp add: apply_central_values_def apply_central_fan_def apply_central_preset_def
      Let_def split: sum.splits if_splits)

lemma apply_thermostat_state_operation_list:
  "apply_thermostat_state c e = Inr e' \<Longrightarrow> ent_operation_list e' = ent_operation_list e"
  by (auto simp add: apply_thermostat_state_def refresh_features_frame apply_central_frame
      apply_wall_unit_fan_def apply_wall_unit_values_def Let_def
      split: if_splits sum.splits)

text \<open>
  Claim C5. For a central record (one whose count of outdoor cooling stages, when present,
  is a number) the list of supported modes has heat exactly when \<^verbatim>\<open>ctSystemCapHeat\<close> is
  truthy, cool exactly when \<^verbatim>\<open>ctOutdoorNoofCoolStages\<close> is positive or
  \<^verbatim>\<open>P1P2S21CoolingCapability\<close> is \<^verbatim>\<open>True\<close>, and auto exactly when it has both; auto,
  when there, is first, and off is always last. Resolving the state leaves the list as
  it is.
\<close>

theorem central_auto_iff_heat_and_cool:
  assumes "\<not> is_wall_unit t"
    and "t ''ctOutdoorNoofCoolStages'' = None \<or> num_val (dget t ''ctOutdoorNoofCoolStages'') \<noteq> None"
  shows "\<exists>e'. configure_capabilities c (e\<lparr>ent_thermostat := t, ent_is_wall_unit := is_wall_unit t\<rparr>) = Inr e'
     \<and> (HEAT \<in> set (ent_operation_list e') \<longleftrightarrow> truthy (dget t ''ctSystemCapHeat''))
     \<and> (COOL \<in> set (ent_operation_list e') \<longleftrightarrow>
          (\<exists>r. num_val (dget t ''ctOutdoorNoofCoolStages'') = Some r \<and> 0 < r)
          \<or> dget t ''P1P2S21CoolingCapability'' = JBool True)
     \<and> (AUTO \<in> set (ent_operation_list e') \<longleftrightarrow>
          HEAT \<in> set (ent_operation_list e') \<and> COOL \<in> set (ent_operation_list e'))
     \<and> (AUTO \<in> set (ent_operation_list e') \<longrightarrow> hd (ent_operation_list e') = AUTO)
     \<and> last (ent_operation_list e') = OFF
     \<and> distinct (ent_operation_list e')
     \<and> (\<forall>e''. resolve c e t = Inr e'' \<longrightarrow> ent_operation_list e'' = ent_operation_list e')"
proof -
  let ?cool = "(\<exists>r. num_val (dget t ''ctOutdoorNoofCoolStages'') = Some r \<and> 0 < r)
          \<or> dget t ''P1P2S21CoolingCapability'' = JBool True"
  let ?e0 = "e\<lparr>ent_thermostat := t, ent_is_wall_unit := is_wall_unit t\<rparr>"
  have ops: "central_operation_list t =
     Inr (if truthy (dget t ''ctSystemCapHeat'')
          then (if ?cool then [AUTO, HEAT, COOL, OFF] else [HEAT, OFF])
          else (if ?cool then [COOL, OFF] else [OFF]))"
    by (rule central_operation_list_cases) (rule cool_capability_total [OF assms(2)])
  obtain e' where e': "configure_capabilities c ?e0 = Inr e'"
    and l: "ent_operation_list e' =
      (if truthy (dget t ''ctSystemCapHeat'')
          then (if ?cool then [AUTO, HEAT, COOL, OFF] else [HEAT, OFF])
          else (if ?cool then [COOL, OFF] else [OFF]))"
    using assms(1) ops by (simp add: configure_capabilities_def)
  have r: "\<forall>e''. resolve c e t = Inr e'' \<longrightarrow> ent_operation_list e'' = ent_operation_list e'"
    using e' by (auto simp add: resolve_def dest: apply_thermostat_state_operation_list)
  from l have "(HEAT \<in> set (ent_operation_list e') \<longleftrightarrow> truthy (dget t ''ctSystemCapHeat''))
     \<and> (COOL \<in> set (ent_operation_list e') \<longleftrightarrow> ?cool)
     \<and> (AUTO \<in> set (ent_operation_list e') \<longleftrightarrow>
          HEAT \<in> set (ent_operation_list e') \<and> COOL \<in> set (ent_operation_list e'))
     \<and> (AUTO \<in> set (ent_operation_list e') \<longrightarrow> hd (ent_operation_list e') = AUTO)
     \<and> last (ent_operation_list e') = OFF
     \<and> distinct (ent_operation_list e')"
    by (simp split: if_splits)
  with e' r show ?thesis by blast
qed

theorem central_auto_iff_heat_and_cool_witness:
  "\<not> is_wall_unit central_record
   \<and> num_val (dget central_record ''ctOutdoorNoofCoolStages'') \<noteq> None
   \<and> (\<exists>e'. configure_capabilities skyport_consts
              (blank_entity\<lparr>ent_thermostat := central_record,
                             ent_is_wall_unit := is_wall_unit central_record\<rparr>) = Inr e'
         \<and> AUTO \<in> set (ent_operation_list e')
         \<and> HEAT \<in> set (ent_operation_list e')
         \<and> COOL \<in> set (ent_operation_list e')
         \<and> hd (ent_operation_list e') = AUTO
         \<and> last (ent_operation_list e') = OFF)"
proof -
  have a: "\<not> is_wall_unit central_record"
    by (simp add: is_wall_unit_def central_record_def has_key_def dget_def)
  have b: "num_val (dget central_record ''ctOutdoorNoofCoolStages'') = Some 2"
    by (simp add: central_record_def dget_def)
  have h: "truthy (dget central_record ''ctSystemCapHeat'')"
    by (simp add: central_record_def dget_def)
  from b have b': "central_record ''ctOutdoorNoofCoolStages'' = None
      \<or> num_val (dget central_record ''ctOutdoorNoofCoolStages'') \<noteq> None"
    by simp
  from central_auto_iff_heat_and_cool [OF a b', of skyport_consts blank_entity] a b h
  show ?thesis by auto
qed

section \<open>The network, the tokens and \<^verbatim>\<open>make_request\<close>\<close>

declare make_request.simps [simp del]

lemma puts_of_append: "puts_of (xs @ ys) = puts_of xs @ puts_of ys"
  by (induction xs rule: puts_of.induct) simp_all

lemma http_effect:
  "http rq s = (s', r) \<Longrightarrow>
     sent s' = sent s @ [rq] \<and> s' = s\<lparr>pending := pending s', sent := sent s'\<rparr>
     \<and> (pending s = [] \<longrightarrow> r = ConnectionFailed \<and> pending s' = [])
     \<and> (\<forall>x xs. pending s = x # xs \<longrightarrow> r = x \<and> pending s' = xs)"
  by (auto simp add: http_def split: list.splits)

lemma same_cache_refl [simp]: "same_cache s s"
  by (simp add: same_cache_def)

lemma same_cache_trans: "same_cache s s1 \<Longrightarrow> same_cache s1 s2 \<Longrightarrow> same_cache s s2"
  by (simp add: same_cache_def)

lemma http_same_cache: "same_cache s (fst (http rq s))"
  by (simp add: http_def same_cache_def split: list.splits)

lemma http_sent: "sent (fst (http rq s)) = sent s @ [rq]"
  by (simp add: http_def split: list.splits)

lemma write_tokens_effect:
  "same_cache s (fst (write_tokens_to_file s)) \<and> sent (fst (write_tokens_to_file s)) = sent s"
  by (simp add: write_tokens_to_file_def same_cache_def split: option.splits)

lemma request_tokens_effect:
  "same_cache s (fst (request_tokens s))
   \<and> (\<exists>new. sent (fst (request_tokens s)) = sent s @ new \<and> puts_of new = [])"
  by (auto simp add: request_tokens_def then_do_def Let_def http_def write_tokens_to_file_def
      same_cache_def split: option.splits list.splits response.splits sum.splits prod.splits)

lemma fst_then_do_return: "fst (then_do m (\<lambda>x s. (s, g x s))) = fst m"
  by (cases m) (auto simp add: then_do_def split: sum.splits)

lemma refresh_tokens_effect:
  "same_cache s (fst (refresh_tokens s))
   \<and> (\<exists>new. sent (fst (refresh_tokens s)) = sent s @ new \<and> puts_of new = [])"
proof (cases "user_email s")
  case None
  then show ?thesis by (simp add: refresh_tokens_def)
next
  case (Some email)
  let ?rq = "HttpPost token_url [''email'' \<mapsto> JStr email, ''refreshToken'' \<mapsto> refresh_token s]"
  obtain s1 r where h: "http ?rq s = (s1, r)" by (cases "http ?rq s")
  from h have c1: "same_cache s s1" and n1: "sent s1 = sent s @ [?rq]"
    using http_same_cache [of s ?rq] http_sent [of ?rq s] by simp_all
  have base: "same_cache s s1 \<and> (\<exists>new. sent s1 = sent s @ new \<and> puts_of new = [])"
    using c1 n1 by simp
  show ?thesis
  proof (cases r)
    case ConnectionFailed
    with Some h base show ?thesis by (simp add: refresh_tokens_def)
  next
    case (Response status js)
    show ?thesis
    proof (cases "status = 200")
      case True
      have "same_cache s s2 \<and> (\<exists>new. sent s2 = sent s @ new \<and> puts_of new = [])"
        if "s2 = s1\<lparr>access_token := a\<rparr>" for s2 a
        using that base by (simp add: same_cache_def)
      moreover have "same_cache s (fst (write_tokens_to_file s2))
          \<and> (\<exists>new. sent (fst (write_tokens_to_file s2)) = sent s @ new \<and> puts_of new = [])"
        if "s2 = s1\<lparr>access_token := a\<rparr>" for s2 a
        using that base write_tokens_effect [of s2] by (simp add: same_cache_def)
      ultimately show ?thesis
        using Some h Response True base
        by (simp add: refresh_tokens_def Let_def fst_then_do_return split: sum.splits)
    next
      case False
      from request_tokens_effect [of s1] obtain new where
        "same_cache s1 (fst (request_tokens s1))"
        "sent (fst (request_tokens s1)) = sent s1 @ new" "puts_of new = []"
        by blast
      with c1 n1 have "same_cache s (fst (request_tokens s1))
          \<and> (\<exists>new. sent (fst (request_tokens s1)) = sent s @ new \<and> puts_of new = [])"
        by (auto intro: same_cache_trans)
      with Some h Response False show ?thesis
        by (simp add: refresh_tokens_def fst_then_do_return)
    qed
  qed
qed

lemma make_request_retry:
  "make_request s (PDict b) body log_msg_action retry_count = (s\<lparr>skip_next := True\<rparr>, Inl TypeError)"
  by (subst make_request.simps) (simp add: thermostat_at_obj_def Let_def)

lemma refresh_tokens_thermostats: "thermostats (fst (refresh_tokens s)) = thermostats s"
  using refresh_tokens_effect [of s] by (simp add: same_cache_def)

lemma http_thermostats: "thermostats (fst (http rq s)) = thermostats s"
  using http_same_cache [of s rq] by (simp add: same_cache_def)

lemma thermostat_at_skip_next [simp]:
  "thermostat_at (s\<lparr>skip_next := b\<rparr>) i = thermostat_at s i"
  by (simp add: thermostat_at_def split: option.splits)

lemma as_str_Inr: "as_str v = Inr x \<longleftrightarrow> v = JStr x"
  by (auto simp add: as_str_def split: jval.splits)

lemma make_request_prelude_error:
  assumes "\<And>i d device_id token.
     \<not> (index = PInt i \<and> thermostat_at s i = Inr d \<and> d ''id'' = Some (JStr device_id)
        \<and> access_token s = JStr token)"
  shows "\<exists>e. make_request s index body log_msg_action retry_count = (s\<lparr>skip_next := True\<rparr>, Inl e)"
proof (cases index)
  case (PInt i)
  with assms have "\<And>d device_id token.
     \<not> (thermostat_at s i = Inr d \<and> d ''id'' = Some (JStr device_id) \<and> access_token s = JStr token)"
    by blast
  with PInt show ?thesis
    by (subst make_request.simps)
      (auto simp add: Let_def thermostat_at_obj_def as_str_Inr split: sum.splits option.splits)
next
  case (PStr x)
  then show ?thesis
    by (subst make_request.simps) (simp add: thermostat_at_obj_def Let_def)
next
  case (PDict b)
  then show ?thesis
    by (subst make_request.simps) (simp add: thermostat_at_obj_def Let_def)
qed

lemma make_request_sends:
  assumes "thermostat_at s i = Inr d" and "d ''id'' = Some (JStr device_id)"
    and "access_token s = JStr token"
    and "http (HttpPut (device_data_url @ device_id) token body) (s\<lparr>skip_next := True\<rparr>) = (s1, rsp)"
  shows "make_request s (PInt i) body log_msg_action retry_count =
     (case rsp of
        ConnectionFailed \<Rightarrow> (s1, Inr None)
      | Response status js \<Rightarrow>
          if status = 200 then (s1, Inr (Some (Response status js)))
          else if status = 401 \<and> retry_count = 0 then
            (case json_item js ''error'' of
               Inl e \<Rightarrow> (s1, Inl e)
             | Inr err \<Rightarrow>
                 if err = JStr ''authorization_expired'' then
                   (case refresh_tokens s1 of
                      (s2, Inl e) \<Rightarrow> (s2, Inl e)
                    | (s2, Inr refreshed) \<Rightarrow>
                        if refreshed
                        then make_request s2 body (PStr device_id) log_msg_action (retry_count + 1)
                        else (s2, Inr None))
                 else (s1, Inr None))
          else if js = NotJson then (s1, Inl JSONDecodeError)
          else (s1, Inr None))"
  using assms
  by (subst make_request.simps) (simp add: Let_def thermostat_at_obj_def as_str_def)

text \<open>Where a call of \<^verbatim>\<open>make_request\<close> that sent its request can end.\<close>

lemma make_request_end_states:
  assumes "thermostat_at s i = Inr d" and "d ''id'' = Some (JStr device_id)"
    and "access_token s = JStr token"
    and "http (HttpPut (device_data_url @ device_id) token body) (s\<lparr>skip_next := True\<rparr>) = (s1, rsp)"
    and "refresh_tokens s1 = (s2, y)"
  shows "fst (make_request s (PInt i) body log_msg_action retry_count) = s1
    \<or> fst (make_request s (PInt i) body log_msg_action retry_count) = s2
    \<or> (retry_count = 0 \<and> fst (make_request s (PInt i) body log_msg_action retry_count)
          = fst (make_request s2 body (PStr device_id) log_msg_action 1))"
  unfolding make_request_sends [OF assms(1-4)] using assms(5)
  by (auto split: response.splits sum.splits)


lemma http_put_skip:
  "http rq (s\<lparr>skip_next := True\<rparr>) = (s1, rsp) \<Longrightarrow>
     skip_next s1 \<and> thermostats s1 = thermostats s \<and> sent s1 = sent s @ [rq]"
  by (auto simp add: http_def split: list.splits)

lemma refresh_tokens_keeps:
  "refresh_tokens s1 = (s2, y) \<Longrightarrow>
     skip_next s2 = skip_next s1 \<and> thermostats s2 = thermostats s1
     \<and> (\<exists>new. sent s2 = sent s1 @ new \<and> puts_of new = [])"
  using refresh_tokens_effect [of s1] by (simp add: same_cache_def)

lemma make_request_retried_inv:
  assumes "retry_count \<noteq> 0"
  shows "skip_next (fst (make_request s index body log_msg_action retry_count))
    \<and> thermostats (fst (make_request s index body log_msg_action retry_count)) = thermostats s"
proof (cases "\<exists>i d device_id token. index = PInt i \<and> thermostat_at s i = Inr d
    \<and> d ''id'' = Some (JStr device_id) \<and> access_token s = JStr token")
  case False
  then obtain e where
    "make_request s index body log_msg_action retry_count = (s\<lparr>skip_next := True\<rparr>, Inl e)"
    using make_request_prelude_error [of index s body log_msg_action retry_count] by blast
  then show ?thesis by simp
next
  case True
  then obtain i d device_id token where t: "index = PInt i" "thermostat_at s i = Inr d"
    "d ''id'' = Some (JStr device_id)" "access_token s = JStr token"
    by blast
  obtain s1 rsp where h:
    "http (HttpPut (device_data_url @ device_id) token body) (s\<lparr>skip_next := True\<rparr>) = (s1, rsp)"
    by (cases "http (HttpPut (device_data_url @ device_id) token body) (s\<lparr>skip_next := True\<rparr>)")
  obtain s2 y where rf: "refresh_tokens s1 = (s2, y)" by (cases "refresh_tokens s1")
  from make_request_end_states [OF t(2-4) h rf, of log_msg_action retry_count] assms
    http_put_skip [OF h] refresh_tokens_keeps [OF rf] t(1)
  show ?thesis by auto
qed

lemma make_request_inv:
  "skip_next (fst (make_request s index body log_msg_action retry_count))
    \<and> thermostats (fst (make_request s index body log_msg_action retry_count)) = thermostats s"
proof (cases "\<exists>i d device_id token. index = PInt i \<and> thermostat_at s i = Inr d
    \<and> d ''id'' = Some (JStr device_id) \<and> access_token s = JStr token")
  case False
  then obtain e where
    "make_request s index body log_msg_action retry_count = (s\<lparr>skip_next := True\<rparr>, Inl e)"
    using make_request_prelude_error [of index s body log_msg_action retry_count] by blast
  then show ?thesis by simp
next
  case True
  then obtain i d device_id token where t: "index = PInt i" "thermostat_at s i = Inr d"
    "d ''id'' = Some (JStr device_id)" "access_token s = JStr token"
    by blast
  obtain s1 rsp where h:
    "http (HttpPut (device_data_url @ device_id) token body) (s\<lparr>skip_next := True\<rparr>) = (s1, rsp)"
    by (cases "http (HttpPut (device_data_url @ device_id) token body) (s\<lparr>skip_next := True\<rparr>)")
  obtain s2 y where rf: "refresh_tokens s1 = (s2, y)" by (cases "refresh_tokens s1")
  from make_request_end_states [OF t(2-4) h rf, of log_msg_action retry_count]
    http_put_skip [OF h] refresh_tokens_keeps [OF rf] t(1)
    make_request_retried_inv [of 1 s2 body "PStr device_id" log_msg_action]
  show ?thesis by auto
qed

lemma make_request_sent:
  "\<exists>new. sent (fst (make_request s index (PDict b) log_msg_action retry_count)) = sent s @ new
     \<and> (puts_of new = [] \<or> (\<exists>url token. puts_of new = [(url, token, PDict b)]))
     \<and> (\<forall>i d device_id token.
           index = PInt i \<and> thermostat_at s i = Inr d \<and> d ''id'' = Some (JStr device_id)
           \<and> access_token s = JStr token \<longrightarrow>
           (\<exists>rest. new = HttpPut (device_data_url @ device_id) token (PDict b) # rest
              \<and> puts_of rest = []))"
proof (cases "\<exists>i d device_id token. index = PInt i \<and> thermostat_at s i = Inr d
    \<and> d ''id'' = Some (JStr device_id) \<and> access_token s = JStr token")
  case False
  then obtain e where
    "make_request s index (PDict b) log_msg_action retry_count = (s\<lparr>skip_next := True\<rparr>, Inl e)"
    using make_request_prelude_error [of index s "PDict b" log_msg_action retry_count] by blast
  with False show ?thesis by auto
next
  case True
  then obtain i d device_id token where t: "index = PInt i" "thermostat_at s i = Inr d"
    "d ''id'' = Some (JStr device_id)" "access_token s = JStr token"
    by blast
  let ?put = "HttpPut (device_data_url @ device_id) token (PDict b)"
  obtain s1 rsp where h: "http ?put (s\<lparr>skip_next := True\<rparr>) = (s1, rsp)"
    by (cases "http ?put (s\<lparr>skip_next := True\<rparr>)")
  obtain s2 y where rf: "refresh_tokens s1 = (s2, y)" by (cases "refresh_tokens s1")
  from refresh_tokens_keeps [OF rf] obtain posts where
    posts: "sent s2 = sent s1 @ posts" "puts_of posts = []" by blast
  have s1: "sent s1 = sent s @ [?put]" using http_put_skip [OF h] by simp
  from make_request_end_states [OF t(2-4) h rf, of log_msg_action retry_count]
  have "sent (fst (make_request s (PInt i) (PDict b) log_msg_action retry_count)) = sent s1
      \<or> sent (fst (make_request s (PInt i) (PDict b) log_msg_action retry_count)) = sent s2"
    by (auto simp add: make_request_retry)
  then have "\<exists>rest. sent (fst (make_request s (PInt i) (PDict b) log_msg_action retry_count))
      = sent s @ ?put # rest \<and> puts_of rest = []"
    using s1 posts by auto
  with t show ?thesis by auto
qed

lemma make_request_ok:
  assumes "thermostat_at s i = Inr d" and "d ''id'' = Some (JStr device_id)"
    and "access_token s = JStr token" and "pending s = Response 200 js # rest"
  shows "make_request s (PInt i) body log_msg_action retry_count =
     (s\<lparr>skip_next := True, pending := rest,
        sent := sent s @ [HttpPut (device_data_url @ device_id) token body]\<rparr>,
      Inr (Some (Response 200 js)))"
proof -
  have "http (HttpPut (device_data_url @ device_id) token body) (s\<lparr>skip_next := True\<rparr>) =
      (s\<lparr>skip_next := True, pending := rest,
         sent := sent s @ [HttpPut (device_data_url @ device_id) token body]\<rparr>, Response 200 js)"
    using assms(4) by (simp add: http_def)
  from make_request_sends [OF assms(1-3) this] show ?thesis by simp
qed

section \<open>Polling after a mutation\<close>

lemma then_do_Inr [simp]: "then_do (s, Inr x) f = f x s"
  by (simp add: then_do_def)

lemma then_do_Inl [simp]: "then_do (s, Inl e) f = (s, Inl e)"
  by (simp add: then_do_def)

lemma sent_grows_trans:
  "\<exists>new. sent s1 = sent s @ new \<Longrightarrow> \<exists>new. sent s2 = sent s1 @ new \<Longrightarrow> \<exists>new. sent s2 = sent s @ new"
  by auto

lemma get_thermostat_info_sent:
  "\<exists>new. sent (fst (get_thermostat_info c s deviceid)) = sent s @ new"
  by (auto simp add: get_thermostat_info_def then_do_def http_def Let_def
      split: sum.splits list.splits response.splits json.splits)

lemma then_do_sent_grows:
  assumes "\<exists>new. sent (fst m) = sent s @ new"
    and "\<And>x s1. \<exists>new. sent (fst (f x s1)) = sent s1 @ new"
  shows "\<exists>new. sent (fst (then_do m f)) = sent s @ new"
proof (cases m)
  case (Pair s1 x)
  show ?thesis
  proof (cases x)
    case (Inl e)
    with Pair assms(1) show ?thesis by (simp add: then_do_def)
  next
    case (Inr y)
    from assms(2) [of y s1] obtain new2 where "sent (fst (f y s1)) = sent s1 @ new2" by blast
    moreover from assms(1) Pair obtain new1 where "sent s1 = sent s @ new1" by auto
    ultimately show ?thesis using Pair Inr by (simp add: then_do_def)
  qed
qed

lemma fetch_one_sent: "\<exists>new. sent (fst (fetch_one c s thermostat)) = sent s @ new"
proof (cases "thermostat ''id''")
  case None
  then show ?thesis by (simp add: fetch_one_def)
next
  case (Some tid)
  have "\<exists>new. sent (fst (then_do (get_thermostat_info c s tid) f)) = sent s @ new"
    if "\<And>x s1. \<exists>new. sent (fst (f x s1)) = sent s1 @ new" for f :: "json option \<Rightarrow> client \<Rightarrow> unit result"
    using get_thermostat_info_sent that by (rule then_do_sent_grows)
  then show ?thesis
    using Some unfolding fetch_one_def
    by (auto simp add: Let_def split: option.splits json.splits prod.splits sum.splits)
qed

lemma fetch_all_sent: "\<exists>new. sent (fst (fetch_all c s ds)) = sent s @ new"
proof (induction ds arbitrary: s)
  case Nil
  then show ?case by simp
next
  case (Cons thermostat rest)
  show ?case
    unfolding fetch_all.simps
    by (rule then_do_sent_grows [OF fetch_one_sent]) (rule Cons.IH)
qed

lemma get_thermostats_fetches:
  assumes "access_token s = JStr token"
  shows "\<exists>rest. sent (fst (get_thermostats c s)) = sent s @ HttpGet devices_url token # rest"
proof -
  obtain s1 rsp where h: "http (HttpGet devices_url token) s = (s1, rsp)"
    by (cases "http (HttpGet devices_url token) s")
  then have s1: "sent s1 = sent s @ [HttpGet devices_url token]"
    using http_sent [of "HttpGet devices_url token" s] by simp
  have "\<exists>new. sent (fst (get_thermostats c s)) = sent s1 @ new"
  proof (cases rsp)
    case ConnectionFailed
    with h assms show ?thesis by (simp add: get_thermostats_def as_str_def)
  next
    case (Response status js)
    show ?thesis
    proof (cases js)
      case (JsonDevices ds)
      from fetch_all_sent [of c "s1\<lparr>authenticated := True, thermostatlist := js\<rparr>" ds]
      show ?thesis
        using h assms Response JsonDevices
        by (simp add: get_thermostats_def as_str_def Let_def fst_then_do_return
            del: fetch_all.simps)
    qed (use h assms Response in \<open>simp_all add: get_thermostats_def as_str_def Let_def\<close>)
  qed
  with s1 show ?thesis by auto
qed

lemma qf_make_request: "quiet_or_flagged n (make_request s index body log_msg_action retry_count)"
  using make_request_inv [of s index body log_msg_action retry_count]
  by (simp add: quiet_or_flagged_def)

lemma qf_return: "sent s = n \<Longrightarrow> quiet_or_flagged n (s, x)"
  by (simp add: quiet_or_flagged_def)

lemma qf_then_do:
  assumes "sent (fst m) = n" and "\<And>x s1. sent s1 = n \<Longrightarrow> quiet_or_flagged n (f x s1)"
  shows "quiet_or_flagged n (then_do m f)"
proof (cases m)
  case (Pair s1 x)
  with assms show ?thesis
    by (cases x) (auto simp add: quiet_or_flagged_def)
qed

lemma store_field_sent: "sent (fst (store_field s index k v)) = sent s"
  by (simp add: store_field_def split: option.splits)

lemma qf_store_then:
  assumes "sent s = n" and "\<And>s1. sent s1 = n \<Longrightarrow> quiet_or_flagged n (f () s1)"
  shows "quiet_or_flagged n (then_do (store_field s index k v) f)"
  using assms by (intro qf_then_do) (simp_all add: store_field_sent)

lemma qf_pure_then:
  assumes "sent s = n" and "\<And>x s1. sent s1 = n \<Longrightarrow> quiet_or_flagged n (f x s1)"
  shows "quiet_or_flagged n (then_do (s, y) f)"
  using assms by (intro qf_then_do) simp_all

lemmas qf_intros = qf_make_request qf_store_then qf_pure_then qf_return

lemma set_wall_unit_mode_on_sent: "sent (fst (set_wall_unit_mode_on c s index hvac_mode)) = sent s"
  unfolding set_wall_unit_mode_on_def then_do_def
  by (auto simp add: Let_def store_field_def split: sum.splits option.splits prod.splits)

lemma run_call_quiet_or_flagged: "quiet_or_flagged (sent s) (run_call c s cl)"
proof (cases cl)
  case (SetTempHold i cl h dur)
  then show ?thesis
    unfolding run_call.simps SetTempHold set_temp_hold_def
    by (intro qf_intros | simp add: Let_def)+
next
  case (SetPermanentHold i cl h)
  then show ?thesis
    unfolding run_call.simps SetPermanentHold set_permanent_hold_def
    by (intro qf_intros | simp add: Let_def)+
next
  case (SetAway i m h cl)
  then show ?thesis
    unfolding run_call.simps SetAway set_away_def
    by (intro qf_intros | simp add: Let_def)+
next
  case (SetHumidity i lo hi)
  then show ?thesis
    unfolding run_call.simps SetHumidity set_humidity_def
    by (intro qf_intros | simp add: Let_def)+
next
  case (SetWallUnitMode i m)
  have "sent (fst (if b then (s, Inr x) else set_wall_unit_mode_on c s i hm)) = sent s" for b x hm
    by (simp add: set_wall_unit_mode_on_sent)
  then show ?thesis
    unfolding run_call.simps SetWallUnitMode set_wall_unit_mode_def Let_def
    by (intro qf_then_do qf_intros | simp add: store_field_sent)+
next
  case (SetWallUnitFanSpeed i v m)
  show ?thesis
    unfolding run_call.simps SetWallUnitFanSpeed set_wall_unit_fan_speed_def
    by (intro conjI impI allI qf_intros | simp add: Let_def split: option.splits)+
next
  case (SetWallUnitTemperature i t m)
  have "sent (fst (set_wall_unit_setpoint c s1 i v hm b)) = sent s1" for s1 v hm b
    by (simp add: set_wall_unit_setpoint_def fst_then_do_return store_field_sent)
  then show ?thesis
    unfolding run_call.simps SetWallUnitTemperature set_wall_unit_temperature_def
    by (auto intro!: qf_then_do qf_intros
        simp add: Let_def store_field_sent split: option.splits)
qed (simp_all add: set_hvac_mode_def set_thermostat_schedule_def set_fan_mode_def
    set_fan_speed_def set_fan_clean_def set_dual_fuel_efficiency_def resume_program_def
    set_fan_schedule_def set_night_mode_def set_econo_mode_def set_boost_mode_def Let_def
    qf_intros)

lemma example_thermostat_at:
  "thermostat_at example_client 0 =
     Inr [''id'' \<mapsto> JStr ''dev1'', ''mode'' \<mapsto> JInt 2, ''cspHome'' \<mapsto> JFloat 24,
          ''hspHome'' \<mapsto> JFloat 20, ''schedEnabled'' \<mapsto> JBool False]"
  by (simp add: example_client_def thermostat_at_def py_index_def)

lemma example_make_request:
  "make_request example_client (PInt 0) body log_msg_action retry_count =
     (example_client\<lparr>skip_next := True, pending := [],
        sent := [HttpPut (device_data_url @ ''dev1'') ''token1'' body]\<rparr>,
      Inr (Some (Response 200 (JsonObject Map.empty))))"
proof -
  have "make_request example_client (PInt 0) body log_msg_action retry_count =
     (example_client\<lparr>skip_next := True, pending := [],
        sent := sent example_client @ [HttpPut (device_data_url @ ''dev1'') ''token1'' body]\<rparr>,
      Inr (Some (Response 200 (JsonObject Map.empty))))"
    by (rule make_request_ok [OF example_thermostat_at]) (simp_all add: example_client_def)
  then show ?thesis by (simp add: example_client_def)
qed

text \<open>
  Claim C9. \<^verbatim>\<open>make_request\<close>, through which every mutation goes, sets
  \<^verbatim>\<open>skip_next\<close>, whatever its arguments and however it ends. The next \<^verbatim>\<open>update\<close>
  returns \<^verbatim>\<open>None\<close> without a request, leaves the cached records as they were and clears
  the flag; the \<^verbatim>\<open>update\<close> after that is \<^verbatim>\<open>get_thermostats\<close>, which asks the server for
  the device list. And a mutation call of the client that sent any request has set the
  flag.
\<close>

theorem skip_next_poll:
  "skip_next (fst (make_request s index body log_msg_action retry_count))
   \<and> update c (fst (make_request s index body log_msg_action retry_count))
       = ((fst (make_request s index body log_msg_action retry_count))\<lparr>skip_next := False\<rparr>, Inr None)
   \<and> thermostats (fst (update c (fst (make_request s index body log_msg_action retry_count))))
       = thermostats s
   \<and> update c (fst (update c (fst (make_request s index body log_msg_action retry_count))))
       = get_thermostats c
           (fst (update c (fst (make_request s index body log_msg_action retry_count))))
   \<and> (\<forall>token. access_token (fst (make_request s index body log_msg_action retry_count)) = JStr token
        \<longrightarrow> (\<exists>rest.
               sent (fst (update c (fst (update c
                 (fst (make_request s index body log_msg_action retry_count))))))
               = sent (fst (make_request s index body log_msg_action retry_count))
                   @ HttpGet devices_url token # rest))
   \<and> (sent (fst (run_call c s cl)) \<noteq> sent s \<longrightarrow> skip_next (fst (run_call c s cl)))"
proof -
  let ?s1 = "fst (make_request s index body log_msg_action retry_count)"
  have a: "skip_next ?s1" and t: "thermostats ?s1 = thermostats s"
    using make_request_inv [of s index body log_msg_action retry_count] by simp_all
  from a have u: "update c ?s1 = (?s1\<lparr>skip_next := False\<rparr>, Inr None)"
    by (simp add: update_def)
  have v: "update c (?s1\<lparr>skip_next := False\<rparr>) = get_thermostats c (?s1\<lparr>skip_next := False\<rparr>)"
    by (simp add: update_def)
  have "\<exists>rest. sent (fst (get_thermostats c (?s1\<lparr>skip_next := False\<rparr>)))
      = sent ?s1 @ HttpGet devices_url token # rest"
    if "access_token ?s1 = JStr token" for token
    using get_thermostats_fetches [of "?s1\<lparr>skip_next := False\<rparr>" token c] that by simp
  moreover have "sent (fst (run_call c s cl)) \<noteq> sent s \<longrightarrow> skip_next (fst (run_call c s cl))"
    using run_call_quiet_or_flagged [of s c cl] by (auto simp add: quiet_or_flagged_def)
  ultimately show ?thesis using a t u v by simp
qed

theorem skip_next_poll_witness:
  "skip_next (fst (make_request example_client (PInt 0) (PDict [''mode'' \<mapsto> JInt 1])
        (Msg ''set HVAC mode'') 0))
   \<and> access_token (fst (make_request example_client (PInt 0) (PDict [''mode'' \<mapsto> JInt 1])
        (Msg ''set HVAC mode'') 0)) = JStr ''token1''
   \<and> (\<exists>rest.
        sent (fst (update skyport_consts (fst (update skyport_consts
          (fst (make_request example_client (PInt 0) (PDict [''mode'' \<mapsto> JInt 1])
             (Msg ''set HVAC mode'') 0))))))
        = sent (fst (make_request example_client (PInt 0) (PDict [''mode'' \<mapsto> JInt 1])
             (Msg ''set HVAC mode'') 0))
            @ HttpGet devices_url ''token1'' # rest)
   \<and> sent (fst (run_call skyport_consts example_client (ResumeProgram 0))) \<noteq> sent example_client
   \<and> skip_next (fst (run_call skyport_consts example_client (ResumeProgram 0)))"
proof -
  let ?r = "make_request example_client (PInt 0) (PDict [''mode'' \<mapsto> JInt 1])
        (Msg ''set HVAC mode'') 0"
  have tok: "access_token (fst ?r) = JStr ''token1''"
    by (simp add: example_make_request) (simp add: example_client_def)
  have rc: "sent (fst (run_call skyport_consts example_client (ResumeProgram 0))) \<noteq> sent example_client"
    by (simp add: resume_program_def example_make_request) (simp add: example_client_def)
  from skip_next_poll [of example_client "PInt 0" "PDict [''mode'' \<mapsto> JInt 1]"
      "Msg ''set HVAC mode''" 0 skyport_consts "ResumeProgram 0"] tok rc
  show ?thesis by blast
qed

section \<open>The retry after a token refresh\<close>

text \<open>
  Claim C1, which the code does not meet. When the first attempt is answered with 401 and
  the error \<^verbatim>\<open>authorization_expired\<close>, and the refresh of the token succeeds,
  \<^verbatim>\<open>make_request\<close> calls itself with \<^verbatim>\<open>body\<close> in the place of \<^verbatim>\<open>index\<close>; indexing the
  list of thermostats with a dictionary raises a TypeError. The call ends with that
  exception, and the request is not sent a second time: the only PUT request is the one of
  the first attempt.
\<close>

theorem retry_after_refresh_raises:
  assumes "thermostat_at s i = Inr d" and "d ''id'' = Some (JStr device_id)"
    and "access_token s = JStr token"
    and "pending s = Response 401 (JsonObject j) # rest"
    and "j ''error'' = Some (JStr ''authorization_expired'')"
    and "refresh_tokens
           (s\<lparr>skip_next := True, pending := rest,
              sent := sent s @ [HttpPut (device_data_url @ device_id) token (PDict b)]\<rparr>)
         = (s2, Inr True)"
  shows "make_request s (PInt i) (PDict b) log_msg_action 0 = (s2\<lparr>skip_next := True\<rparr>, Inl TypeError)
    \<and> puts_of (sent s2) = puts_of (sent s) @ [(device_data_url @ device_id, token, PDict b)]"
proof -
  let ?put = "HttpPut (device_data_url @ device_id) token (PDict b)"
  let ?s1 = "s\<lparr>skip_next := True, pending := rest, sent := sent s @ [?put]\<rparr>"
  have h: "http ?put (s\<lparr>skip_next := True\<rparr>) = (?s1, Response 401 (JsonObject j))"
    using assms(4) by (simp add: http_def)
  have "make_request s (PInt i) (PDict b) log_msg_action 0 = (s2\<lparr>skip_next := True\<rparr>, Inl TypeError)"
    unfolding make_request_sends [OF assms(1-3) h]
    using assms(5,6) by (simp add: json_item_def make_request_retry)
  moreover from refresh_tokens_keeps [OF assms(6)]
  have "puts_of (sent s2) = puts_of (sent s) @ [(device_data_url @ device_id, token, PDict b)]"
    by (auto simp add: puts_of_append)
  ultimately show ?thesis by simp
qed

theorem retry_after_refresh_raises_witness:
  "snd (make_request expired_client (PInt 0) (PDict [''mode'' \<mapsto> JInt 1]) (Msg ''set HVAC mode'') 0)
     = Inl TypeError
   \<and> access_token (fst (make_request expired_client (PInt 0) (PDict [''mode'' \<mapsto> JInt 1])
        (Msg ''set HVAC mode'') 0)) = JStr ''token2''
   \<and> pending (fst (make_request expired_client (PInt 0) (PDict [''mode'' \<mapsto> JInt 1])
        (Msg ''set HVAC mode'') 0)) = [Response 200 (JsonObject Map.empty)]
   \<and> sent (fst (make_request expired_client (PInt 0) (PDict [''mode'' \<mapsto> JInt 1])
        (Msg ''set HVAC mode'') 0))
      = [HttpPut (device_data_url @ ''dev1'') ''token1'' (PDict [''mode'' \<mapsto> JInt 1]),
         HttpPost token_url [''email'' \<mapsto> JStr ''user@example.org'',
                             ''refreshToken'' \<mapsto> JStr ''refresh1'']]"
proof -
  let ?b = "[''mode'' \<mapsto> JInt (1::int)]"
  let ?put = "HttpPut (device_data_url @ ''dev1'') ''token1'' (PDict ?b)"
  let ?post = "HttpPost token_url [''email'' \<mapsto> JStr ''user@example.org'',
                             ''refreshToken'' \<mapsto> JStr ''refresh1'']"
  let ?s2 = "expired_client\<lparr>skip_next := True, access_token := JStr ''token2'',
      pending := [Response 200 (JsonObject Map.empty)], sent := [?put, ?post]\<rparr>"
  have t: "thermostat_at expired_client 0 =
     Inr [''id'' \<mapsto> JStr ''dev1'', ''mode'' \<mapsto> JInt 2, ''cspHome'' \<mapsto> JFloat 24,
          ''hspHome'' \<mapsto> JFloat 20, ''schedEnabled'' \<mapsto> JBool False]"
    by (simp add: expired_client_def example_client_def thermostat_at_def py_index_def)
  have rf: "refresh_tokens
      (expired_client\<lparr>skip_next := True,
         pending := [Response 200 (JsonObject [''accessToken'' \<mapsto> JStr ''token2'']),
                     Response 200 (JsonObject Map.empty)],
         sent := sent expired_client @ [?put]\<rparr>) = (?s2, Inr True)"
    by (simp add: refresh_tokens_def expired_client_def example_client_def http_def json_item_def
        Let_def)
  have "make_request expired_client (PInt 0) (PDict ?b) (Msg ''set HVAC mode'') 0
      = (?s2\<lparr>skip_next := True\<rparr>, Inl TypeError)"
    using retry_after_refresh_raises [OF t _ _ _ _ rf, where log_msg_action = "Msg ''set HVAC mode''"]
    by (simp add: expired_client_def example_client_def)
  then show ?thesis by simp
qed

section \<open>Setting the temperature of a wall unit\<close>

lemma py_round_of_int [simp]: "py_round (of_int m) = m"
  by (simp add: py_round_def)

lemma py_round_unfold:
  assumes "\<lfloor>r\<rfloor> = f"
  shows "py_round r =
     (if r - of_int f < 1 / 2 then f else if 1 / 2 < r - of_int f then f + 1
      else if even f then f else f + 1)"
  using assms by (simp add: py_round_def Let_def)

lemma py_round_near: "\<bar>of_int (py_round r) - r\<bar> \<le> 1 / 2"
proof -
  define f where "f = \<lfloor>r\<rfloor>"
  define d where "d = r - of_int f"
  have d: "0 \<le> d" "d < 1" unfolding d_def f_def by linarith+
  have r: "r = of_int f + d" by (simp add: d_def)
  have "py_round r = (if d < 1 / 2 then f else if 1 / 2 < d then f + 1
      else if even f then f else f + 1)"
    unfolding d_def by (rule py_round_unfold) (simp add: f_def)
  then show ?thesis
    using d unfolding r by (auto simp add: abs_if)
qed

lemma round_to_half_value:
  assumes "num_val temperature = Some t"
  shows "round_to_half temperature = Inr (JFloat (of_int (py_round (t * 2)) / 2))"
proof -
  have "of_int (py_round (t * 2)) / 2 * 10 = (of_int (5 * py_round (t * 2)) :: rat)"
    by simp
  then have "py_round (of_int (py_round (t * 2)) / 2 * 10) = 5 * py_round (t * 2)"
    by (simp only: py_round_of_int)
  with assms show ?thesis
    by (simp add: round_to_half_def round1_def)
qed

lemma round_to_half_near:
  "\<bar>of_int (py_round (t * 2)) / 2 - t\<bar> \<le> 1 / 4"
  using py_round_near [of "t * 2"] by (simp add: abs_if field_simps split: if_splits)

lemma py_round_quarter: "py_round ((of_int n + 1 / 4) * 2) = 2 * n"
proof -
  have fl: "\<lfloor>(of_int n + 1 / 4) * 2 :: rat\<rfloor> = 2 * n"
    by (rule floor_unique) simp_all
  show ?thesis
    unfolding py_round_unfold [OF fl] by simp
qed

lemma py_round_examples: "py_round (213 / 10 * 2) = 43" "py_round (106 / 5 * 2) = 42"
proof -
  have f1: "\<lfloor>213 / 10 * 2 :: rat\<rfloor> = 42" by (rule floor_unique) simp_all
  show "py_round (213 / 10 * 2) = 43" unfolding py_round_unfold [OF f1] by simp
  have f2: "\<lfloor>106 / 5 * 2 :: rat\<rfloor> = 42" by (rule floor_unique) simp_all
  show "py_round (106 / 5 * 2) = 42" unfolding py_round_unfold [OF f2] by simp
qed

lemma thermostat_at_Inr:
  "thermostat_at s index = Inr d \<Longrightarrow>
     \<exists>n. py_index (thermostats s) index = Some n \<and> n < length (thermostats s)
       \<and> d = thermostats s ! n"
  by (auto simp add: thermostat_at_def py_index_def split: option.splits if_splits)

lemma store_field_at:
  "py_index (thermostats s) index = Some n \<Longrightarrow>
     store_field s index k v =
       (s\<lparr>thermostats := (thermostats s)[n := (thermostats s ! n)(k \<mapsto> v)]\<rparr>, Inr ())"
  by (simp add: store_field_def)

lemma py_index_update [simp]: "py_index (xs[n := x]) i = py_index xs i"
  by (simp add: py_index_def)

lemma thermostat_at_update:
  "py_index (thermostats s) index = Some n \<Longrightarrow> n < length (thermostats s) \<Longrightarrow>
     thermostat_at (s\<lparr>thermostats := (thermostats s)[n := x]\<rparr>) index = Inr x"
  by (simp add: thermostat_at_def)

text \<open>A store into the cached record, when the index is valid.\<close>

lemma store_field_valid:
  assumes "thermostat_at s index = Inr d"
  shows "\<exists>s1. store_field s index k v = (s1, Inr ())
     \<and> thermostat_at s1 index = Inr (d(k \<mapsto> v))
     \<and> sent s1 = sent s \<and> access_token s1 = access_token s \<and> pending s1 = pending s
     \<and> skip_next s1 = skip_next s"
proof -
  from thermostat_at_Inr [OF assms] obtain n where
    n: "py_index (thermostats s) index = Some n" "n < length (thermostats s)"
      "d = thermostats s ! n"
    by blast
  show ?thesis
    using n by (simp add: store_field_at thermostat_at_update)
qed


lemma eq_int_not_null: "eq_int v k \<Longrightarrow> v \<noteq> JNull"
  by (auto simp add: eq_int_def)

lemma eq_int_unique: "eq_int v k \<Longrightarrow> eq_int v k' \<Longrightarrow> k = k'"
  by (simp add: eq_int_def)

text \<open>
  \<^verbatim>\<open>set_wall_unit_temperature\<close> in a mode with a setpoint of its own: the state before
  the request is made, and the body of the request.
\<close>

lemma mode_or_cached_valid:
  "thermostat_at s index = Inr d \<Longrightarrow>
     mode_or_cached s index hvac_mode = Inr (if hvac_mode = JNull then dget d ''mode'' else hvac_mode)"
  by (simp add: mode_or_cached_def)

lemma set_wall_unit_temperature_setpoint:
  assumes num: "num_val temperature = Some t"
    and d: "thermostat_at s index = Inr d"
    and dist: "distinct [DAIKIN_HVAC_MODE_COOL c, DAIKIN_HVAC_MODE_HEAT c,
                 DAIKIN_HVAC_MODE_AUTO c, DAIKIN_HVAC_MODE_DRY c]"
    and mk: "(m, k) \<in> {(DAIKIN_HVAC_MODE_COOL c, ''iduCoolSetpoint''),
                      (DAIKIN_HVAC_MODE_HEAT c, ''iduHeatSetpoint''),
                      (DAIKIN_HVAC_MODE_AUTO c, ''iduAutoSetpoint'')}"
    and m: "eq_int (if hvac_mode = JNull then dget d ''mode'' else hvac_mode) m"
  shows "\<exists>s2 body.
     set_wall_unit_temperature c s index temperature hvac_mode =
       make_request s2 (PInt index) (PDict body) (BodyMsg body ''set wall unit temperature'') 0
     \<and> thermostat_at s2 index =
         Inr (d(k \<mapsto> JFloat (of_int (py_round (t * 2)) / 2),
               ''mode'' \<mapsto> (if hvac_mode = JNull then dget d ''mode'' else hvac_mode)))
     \<and> sent s2 = sent s \<and> access_token s2 = access_token s
     \<and> body k = Some (JFloat (of_int (py_round (t * 2)) / 2))
     \<and> dom body \<subseteq> {k, ''oduPowerfulOperationRequest''}"
proof -
  define v where "v = JFloat (of_int (py_round (t * 2)) / 2)"
  define hvac_mode1 where "hvac_mode1 = (if hvac_mode = JNull then dget d ''mode'' else hvac_mode)"
  have tn: "temperature \<noteq> JNull" using num by auto
  have r: "round_to_half temperature = Inr v"
    using round_to_half_value [OF num] v_def by simp
  have mc: "mode_or_cached s index hvac_mode = Inr hvac_mode1"
    unfolding hvac_mode1_def by (rule mode_or_cached_valid [OF d])
  have m': "eq_int hvac_mode1 m" using m by (simp add: hvac_mode1_def)
  then have mn: "hvac_mode1 \<noteq> JNull" by (rule eq_int_not_null)
  from store_field_valid [OF d, of k v] obtain s1 where
    s1: "store_field s index k v = (s1, Inr ())" "thermostat_at s1 index = Inr (d(k \<mapsto> v))"
      "sent s1 = sent s" "access_token s1 = access_token s"
    by blast
  from store_field_valid [OF s1(2), of "''mode''" hvac_mode1] obtain s2 where
    s2: "store_field s1 index ''mode'' hvac_mode1 = (s2, Inr ())"
      "thermostat_at s2 index = Inr (d(k \<mapsto> v, ''mode'' \<mapsto> hvac_mode1))"
      "sent s2 = sent s1" "access_token s2 = access_token s1"
    by blast
  have branch: "set_wall_unit_setpoint c s index v hvac_mode1 b0 = (s1, Inr (Some (b0(k \<mapsto> v))))"
    for b0
    using mk m' dist s1(1) by (auto simp add: set_wall_unit_setpoint_def dest: eq_int_unique)
  have e: "set_wall_unit_temperature c s index temperature hvac_mode =
      make_request s2 (PInt index) (PDict ((powerful_echo d)(k \<mapsto> v)))
        (BodyMsg ((powerful_echo d)(k \<mapsto> v)) ''set wall unit temperature'') 0"
    unfolding set_wall_unit_temperature_def
    by (simp add: tn r mc d branch mn s2(1))
  have dm: "dom ((powerful_echo d)(k \<mapsto> v)) \<subseteq> {k, ''oduPowerfulOperationRequest''}"
    by (auto simp add: powerful_echo_def split: if_splits)
  have "set_wall_unit_temperature c s index temperature hvac_mode =
       make_request s2 (PInt index) (PDict ((powerful_echo d)(k \<mapsto> v)))
        (BodyMsg ((powerful_echo d)(k \<mapsto> v)) ''set wall unit temperature'') 0
     \<and> thermostat_at s2 index = Inr (d(k \<mapsto> v, ''mode'' \<mapsto> hvac_mode1))
     \<and> sent s2 = sent s \<and> access_token s2 = access_token s
     \<and> ((powerful_echo d)(k \<mapsto> v)) k = Some v
     \<and> dom ((powerful_echo d)(k \<mapsto> v)) \<subseteq> {k, ''oduPowerfulOperationRequest''}"
    using e dm s1 s2 by simp
  then show ?thesis
    unfolding v_def hvac_mode1_def by blast
qed

lemma set_wall_unit_temperature_dry:
  assumes num: "num_val temperature = Some t"
    and d: "thermostat_at s index = Inr d"
    and dist: "distinct [DAIKIN_HVAC_MODE_COOL c, DAIKIN_HVAC_MODE_HEAT c,
                 DAIKIN_HVAC_MODE_AUTO c, DAIKIN_HVAC_MODE_DRY c]"
    and m: "eq_int (if hvac_mode = JNull then dget d ''mode'' else hvac_mode) (DAIKIN_HVAC_MODE_DRY c)"
  shows "set_wall_unit_temperature c s index temperature hvac_mode = (s, Inr None)"
proof -
  define hvac_mode1 where "hvac_mode1 = (if hvac_mode = JNull then dget d ''mode'' else hvac_mode)"
  have tn: "temperature \<noteq> JNull" using num by auto
  have r: "round_to_half temperature = Inr (JFloat (of_int (py_round (t * 2)) / 2))"
    by (rule round_to_half_value [OF num])
  have mc: "mode_or_cached s index hvac_mode = Inr hvac_mode1"
    unfolding hvac_mode1_def by (rule mode_or_cached_valid [OF d])
  have m': "eq_int hvac_mode1 (DAIKIN_HVAC_MODE_DRY c)" using m by (simp add: hvac_mode1_def)
  have "\<not> eq_int hvac_mode1 (DAIKIN_HVAC_MODE_COOL c)" "\<not> eq_int hvac_mode1 (DAIKIN_HVAC_MODE_HEAT c)"
    "\<not> eq_int hvac_mode1 (DAIKIN_HVAC_MODE_AUTO c)"
    using m' dist by (auto dest: eq_int_unique)
  with m' have branch: "set_wall_unit_setpoint c s index v hvac_mode1 b0 = (s, Inr None)" for v b0
    by (simp add: set_wall_unit_setpoint_def)
  show ?thesis
    unfolding set_wall_unit_temperature_def
    by (simp add: tn r mc d branch)
qed


lemma thermostat_at_same:
  "thermostats s' = thermostats s \<Longrightarrow> thermostat_at s' index = thermostat_at s index"
  by (simp add: thermostat_at_def split: option.splits)

text \<open>
  Claim C7. \<^verbatim>\<open>set_wall_unit_temperature\<close> with a number \<open>t\<close> rounds it to a value \<open>v\<close>
  that is a multiple of one half and at most a quarter away from \<open>t\<close>. When the current
  mode (the argument, or the cached \<^verbatim>\<open>mode\<close> when the argument is \<^verbatim>\<open>None\<close>) is cool, heat
  or auto, \<open>v\<close> is stored in the cached record under \<^verbatim>\<open>iduCoolSetpoint\<close>,
  \<^verbatim>\<open>iduHeatSetpoint\<close> or \<^verbatim>\<open>iduAutoSetpoint\<close>, and the request that is sent has \<open>v\<close> under
  that key (and no other setpoint). In dry mode the call returns \<^verbatim>\<open>None\<close> and the client is
  as before: nothing stored, nothing sent. 21.3 gives 21.5, 21.2 gives 21.0, and a value
  that ends in .25 gives the half degree below, one of its two nearest.
  The mode constants are taken to be distinct; a float is the rational it stands for.
\<close>

theorem wall_unit_temperature_rounds_to_half:
  assumes "num_val temperature = Some t"
    and "thermostat_at s index = Inr d"
    and "distinct [DAIKIN_HVAC_MODE_COOL c, DAIKIN_HVAC_MODE_HEAT c,
                   DAIKIN_HVAC_MODE_AUTO c, DAIKIN_HVAC_MODE_DRY c]"
    and "(m, k) \<in> {(DAIKIN_HVAC_MODE_COOL c, ''iduCoolSetpoint''),
                    (DAIKIN_HVAC_MODE_HEAT c, ''iduHeatSetpoint''),
                    (DAIKIN_HVAC_MODE_AUTO c, ''iduAutoSetpoint'')}"
  shows "\<exists>v n. round_to_half temperature = Inr (JFloat v) \<and> v = of_int n / 2 \<and> \<bar>v - t\<bar> \<le> 1 / 4
     \<and> (eq_int (if hvac_mode = JNull then dget d ''mode'' else hvac_mode) m \<longrightarrow>
          (\<exists>d'. thermostat_at (fst (set_wall_unit_temperature c s index temperature hvac_mode)) index
                  = Inr d'
              \<and> d' k = Some (JFloat v))
          \<and> (\<forall>device_id token.
                d ''id'' = Some (JStr device_id) \<and> access_token s = JStr token \<longrightarrow>
                (\<exists>body rest.
                   sent (fst (set_wall_unit_temperature c s index temperature hvac_mode))
                     = sent s @ HttpPut (device_data_url @ device_id) token (PDict body) # rest
                   \<and> body k = Some (JFloat v)
                   \<and> dom body \<subseteq> {k, ''oduPowerfulOperationRequest''}
                   \<and> puts_of rest = [])))
     \<and> (eq_int (if hvac_mode = JNull then dget d ''mode'' else hvac_mode) (DAIKIN_HVAC_MODE_DRY c)
          \<longrightarrow> set_wall_unit_temperature c s index temperature hvac_mode = (s, Inr None))
     \<and> round_to_half (JFloat (213 / 10)) = Inr (JFloat (43 / 2))
     \<and> round_to_half (JFloat (106 / 5)) = Inr (JFloat 21)
     \<and> (\<forall>q::int. round_to_half (JFloat (of_int q + 1 / 4)) = Inr (JFloat (of_int q)))"
proof -
  define v where "v = (of_int (py_round (t * 2)) / 2 :: rat)"
  let ?r = "set_wall_unit_temperature c s index temperature hvac_mode"
  let ?mode = "if hvac_mode = JNull then dget d ''mode'' else hvac_mode"
  have a: "round_to_half temperature = Inr (JFloat v)"
    unfolding v_def by (rule round_to_half_value [OF assms(1)])
  have b: "\<bar>v - t\<bar> \<le> 1 / 4"
    unfolding v_def by (rule round_to_half_near)
  have kid: "k \<noteq> ''id''" using assms(4) by auto
  have stored: "(\<exists>d'. thermostat_at (fst ?r) index = Inr d' \<and> d' k = Some (JFloat v))
      \<and> (\<forall>device_id token.
            d ''id'' = Some (JStr device_id) \<and> access_token s = JStr token \<longrightarrow>
            (\<exists>body rest.
               sent (fst ?r) = sent s @ HttpPut (device_data_url @ device_id) token (PDict body) # rest
               \<and> body k = Some (JFloat v)
               \<and> dom body \<subseteq> {k, ''oduPowerfulOperationRequest''}
               \<and> puts_of rest = []))"
    if m: "eq_int ?mode m"
  proof -
    from set_wall_unit_temperature_setpoint [OF assms m] obtain s2 body where
      r: "?r = make_request s2 (PInt index) (PDict body)
            (BodyMsg body ''set wall unit temperature'') 0"
      and d2: "thermostat_at s2 index = Inr (d(k \<mapsto> JFloat v, ''mode'' \<mapsto> ?mode))"
      and s2: "sent s2 = sent s" "access_token s2 = access_token s"
      and body: "body k = Some (JFloat v)" "dom body \<subseteq> {k, ''oduPowerfulOperationRequest''}"
      unfolding v_def by blast
    have "thermostat_at (fst ?r) index = thermostat_at s2 index"
      unfolding r by (rule thermostat_at_same) (simp add: make_request_inv)
    with d2 have c1: "\<exists>d'. thermostat_at (fst ?r) index = Inr d' \<and> d' k = Some (JFloat v)"
      using assms(4) by auto
    from make_request_sent [of s2 "PInt index" body "BodyMsg body ''set wall unit temperature''" 0]
    obtain new where new: "sent (fst ?r) = sent s2 @ new"
      "\<forall>i d device_id token.
           PInt index = PInt i \<and> thermostat_at s2 i = Inr d \<and> d ''id'' = Some (JStr device_id)
           \<and> access_token s2 = JStr token \<longrightarrow>
           (\<exists>rest. new = HttpPut (device_data_url @ device_id) token (PDict body) # rest
              \<and> puts_of rest = [])"
      unfolding r by blast
    have put: "\<exists>rest. new = HttpPut (device_data_url @ device_id) token (PDict body) # rest
        \<and> puts_of rest = []"
      if "d ''id'' = Some (JStr device_id)" "access_token s = JStr token" for device_id token
      using new(2) d2 that s2 kid by simp
    show ?thesis
    proof (intro conjI allI impI)
      show "\<exists>d'. thermostat_at (fst ?r) index = Inr d' \<and> d' k = Some (JFloat v)"
        by (rule c1)
    next
      fix device_id token
      assume "d ''id'' = Some (JStr device_id) \<and> access_token s = JStr token"
      with put obtain rest where
        "new = HttpPut (device_data_url @ device_id) token (PDict body) # rest" "puts_of rest = []"
        by blast
      with new(1) s2 body
      have "sent (fst ?r) = sent s @ HttpPut (device_data_url @ device_id) token (PDict body) # rest
          \<and> body k = Some (JFloat v) \<and> dom body \<subseteq> {k, ''oduPowerfulOperationRequest''}
          \<and> puts_of rest = []"
        by simp
      then show "\<exists>body rest.
          sent (fst ?r) = sent s @ HttpPut (device_data_url @ device_id) token (PDict body) # rest
          \<and> body k = Some (JFloat v) \<and> dom body \<subseteq> {k, ''oduPowerfulOperationRequest''}
          \<and> puts_of rest = []"
        by blast
    qed
  qed
  have dry: "?r = (s, Inr None)" if "eq_int ?mode (DAIKIN_HVAC_MODE_DRY c)"
    using set_wall_unit_temperature_dry [OF assms(1-3) that] .
  have e1: "round_to_half (JFloat (213 / 10)) = Inr (JFloat (43 / 2))"
    using round_to_half_value [of "JFloat (213 / 10)" "213 / 10"] py_round_examples(1) by simp
  have e2: "round_to_half (JFloat (106 / 5)) = Inr (JFloat 21)"
    using round_to_half_value [of "JFloat (106 / 5)" "106 / 5"] py_round_examples(2) by simp
  have e3: "round_to_half (JFloat (of_int q + 1 / 4)) = Inr (JFloat (of_int q))" for q :: int
    using round_to_half_value [of "JFloat (of_int q + 1 / 4)" "of_int q + 1 / 4"]
      py_round_quarter [of q] by simp
  have "round_to_half temperature = Inr (JFloat v) \<and> v = of_int (py_round (t * 2)) / 2
      \<and> \<bar>v - t\<bar> \<le> 1 / 4"
    using a b by (simp add: v_def)
  with stored dry e1 e2 e3 show ?thesis by blast
qed

theorem wall_unit_temperature_rounds_to_half_witness:
  "num_val (JFloat (213 / 10)) = Some (213 / 10)
   \<and> distinct [DAIKIN_HVAC_MODE_COOL skyport_consts, DAIKIN_HVAC_MODE_HEAT skyport_consts,
               DAIKIN_HVAC_MODE_AUTO skyport_consts, DAIKIN_HVAC_MODE_DRY skyport_consts]
   \<and> (\<exists>d. thermostat_at example_client 0 = Inr d
         \<and> eq_int (dget d ''mode'') (DAIKIN_HVAC_MODE_COOL skyport_consts))
   \<and> (\<exists>d'. thermostat_at
             (fst (set_wall_unit_temperature skyport_consts example_client 0 (JFloat (213 / 10)) JNull))
             0 = Inr d'
         \<and> d' ''iduCoolSetpoint'' = Some (JFloat (43 / 2)))
   \<and> (\<exists>body rest.
         sent (fst (set_wall_unit_temperature skyport_consts example_client 0 (JFloat (213 / 10)) JNull))
           = sent example_client @ HttpPut (device_data_url @ ''dev1'') ''token1'' (PDict body) # rest
         \<and> body ''iduCoolSetpoint'' = Some (JFloat (43 / 2)))"
proof -
  let ?d = "[''id'' \<mapsto> JStr ''dev1'', ''mode'' \<mapsto> JInt 2, ''cspHome'' \<mapsto> JFloat 24,
          ''hspHome'' \<mapsto> JFloat 20, ''schedEnabled'' \<mapsto> JBool False]"
  have n: "num_val (JFloat (213 / 10)) = Some (213 / 10)" by simp
  have dist: "distinct [DAIKIN_HVAC_MODE_COOL skyport_consts, DAIKIN_HVAC_MODE_HEAT skyport_consts,
               DAIKIN_HVAC_MODE_AUTO skyport_consts, DAIKIN_HVAC_MODE_DRY skyport_consts]"
    by (simp add: skyport_consts_def)
  have mk: "(DAIKIN_HVAC_MODE_COOL skyport_consts, ''iduCoolSetpoint'')
      \<in> {(DAIKIN_HVAC_MODE_COOL skyport_consts, ''iduCoolSetpoint''),
         (DAIKIN_HVAC_MODE_HEAT skyport_consts, ''iduHeatSetpoint''),
         (DAIKIN_HVAC_MODE_AUTO skyport_consts, ''iduAutoSetpoint'')}"
    by simp
  have m: "eq_int (dget ?d ''mode'') (DAIKIN_HVAC_MODE_COOL skyport_consts)"
    by (simp add: dget_def eq_int_def skyport_consts_def)
  have i: "?d ''id'' = Some (JStr ''dev1'')" by simp
  have tk: "access_token example_client = JStr ''token1''" by (simp add: example_client_def)
  from wall_unit_temperature_rounds_to_half [OF n example_thermostat_at dist mk, of JNull]
  obtain v where
    v: "round_to_half (JFloat (213 / 10)) = Inr (JFloat v)"
    and st: "eq_int (dget ?d ''mode'') (DAIKIN_HVAC_MODE_COOL skyport_consts) \<longrightarrow>
          (\<exists>d'. thermostat_at
             (fst (set_wall_unit_temperature skyport_consts example_client 0 (JFloat (213 / 10)) JNull))
             0 = Inr d' \<and> d' ''iduCoolSetpoint'' = Some (JFloat v))
          \<and> (\<forall>device_id token.
                ?d ''id'' = Some (JStr device_id) \<and> access_token example_client = JStr token \<longrightarrow>
                (\<exists>body rest.
                   sent (fst (set_wall_unit_temperature skyport_consts example_client 0
                               (JFloat (213 / 10)) JNull))
                     = sent example_client
                         @ HttpPut (device_data_url @ device_id) token (PDict body) # rest
                   \<and> body ''iduCoolSetpoint'' = Some (JFloat v)
                   \<and> dom body \<subseteq> {''iduCoolSetpoint'', ''oduPowerfulOperationRequest''}
                   \<and> puts_of rest = []))"
    and e: "round_to_half (JFloat (213 / 10)) = Inr (JFloat (43 / 2))"
    by auto
  from v e have "v = 43 / 2" by simp
  with st m i tk n dist example_thermostat_at show ?thesis by blast
qed

section \<open>Holding a temperature\<close>

lemma round1_not_null: "round1 v = Inr w \<Longrightarrow> v \<noteq> JNull"
  by (auto simp add: round1_def)

lemma arg_or_field_given: "arg \<noteq> JNull \<Longrightarrow> arg_or_field s index arg k = Inr arg"
  by (simp add: arg_or_field_def)

text \<open>The client's \<^verbatim>\<open>set_temp_hold\<close> with all arguments given and a valid index.\<close>

lemma set_temp_hold_valid:
  assumes d: "thermostat_at s index = Inr d"
    and rh: "round1 heat_temp = Inr hsp" and rc: "round1 cool_temp = Inr csp"
    and dur: "hold_duration \<noteq> JNull"
  shows "\<exists>s4. set_temp_hold s index cool_temp heat_temp hold_duration =
       make_request s4 (PInt index)
         (PDict [''hspHome'' \<mapsto> hsp, ''cspHome'' \<mapsto> csp, ''schedOverride'' \<mapsto> JInt 1,
                 ''schedOverrideDuration'' \<mapsto> hold_duration])
         (Msg ''set hold temp'') 0
     \<and> thermostat_at s4 index =
         Inr (d(''hspHome'' \<mapsto> hsp, ''cspHome'' \<mapsto> csp, ''schedOverride'' \<mapsto> JInt 1,
               ''schedOverrideDuration'' \<mapsto> hold_duration))
     \<and> sent s4 = sent s \<and> access_token s4 = access_token s \<and> pending s4 = pending s"
proof -
  from store_field_valid [OF d, of "''hspHome''" hsp] obtain s1 where
    s1: "store_field s index ''hspHome'' hsp = (s1, Inr ())"
      "thermostat_at s1 index = Inr (d(''hspHome'' \<mapsto> hsp))"
      "sent s1 = sent s" "access_token s1 = access_token s" "pending s1 = pending s"
    by blast
  from store_field_valid [OF s1(2), of "''cspHome''" csp] obtain s2 where
    s2: "store_field s1 index ''cspHome'' csp = (s2, Inr ())"
      "thermostat_at s2 index = Inr (d(''hspHome'' \<mapsto> hsp, ''cspHome'' \<mapsto> csp))"
      "sent s2 = sent s1" "access_token s2 = access_token s1" "pending s2 = pending s1"
    by blast
  from store_field_valid [OF s2(2), of "''schedOverride''" "JInt 1"] obtain s3 where
    s3: "store_field s2 index ''schedOverride'' (JInt 1) = (s3, Inr ())"
      "thermostat_at s3 index =
         Inr (d(''hspHome'' \<mapsto> hsp, ''cspHome'' \<mapsto> csp, ''schedOverride'' \<mapsto> JInt 1))"
      "sent s3 = sent s2" "access_token s3 = access_token s2" "pending s3 = pending s2"
    by blast
  from store_field_valid [OF s3(2), of "''schedOverrideDuration''" hold_duration] obtain s4 where
    s4: "store_field s3 index ''schedOverrideDuration'' hold_duration = (s4, Inr ())"
      "thermostat_at s4 index =
         Inr (d(''hspHome'' \<mapsto> hsp, ''cspHome'' \<mapsto> csp, ''schedOverride'' \<mapsto> JInt 1,
               ''schedOverrideDuration'' \<mapsto> hold_duration))"
      "sent s4 = sent s3" "access_token s4 = access_token s3" "pending s4 = pending s3"
    by blast
  have "set_temp_hold s index cool_temp heat_temp hold_duration =
       make_request s4 (PInt index)
         (PDict [''hspHome'' \<mapsto> hsp, ''cspHome'' \<mapsto> csp, ''schedOverride'' \<mapsto> JInt 1,
                 ''schedOverrideDuration'' \<mapsto> hold_duration])
         (Msg ''set hold temp'') 0"
    unfolding set_temp_hold_def
    using round1_not_null [OF rh] round1_not_null [OF rc] dur
    by (simp add: arg_or_field_given rh rc s1(1) s2(1) s3(1) s4(1))
  with s1 s2 s3 s4 show ?thesis by (intro exI [of _ s4]) simp
qed

lemma set_permanent_hold_valid:
  assumes d: "thermostat_at s index = Inr d"
    and rh: "round1 heat_temp = Inr hsp" and rc: "round1 cool_temp = Inr csp"
  shows "\<exists>s4. set_permanent_hold s index cool_temp heat_temp =
       make_request s4 (PInt index)
         (PDict [''hspHome'' \<mapsto> hsp, ''cspHome'' \<mapsto> csp, ''schedOverride'' \<mapsto> JInt 0,
                 ''schedEnabled'' \<mapsto> JBool False])
         (Msg ''set permanent hold'') 0
     \<and> thermostat_at s4 index =
         Inr (d(''hspHome'' \<mapsto> hsp, ''cspHome'' \<mapsto> csp, ''schedOverride'' \<mapsto> JInt 0,
               ''schedEnabled'' \<mapsto> JBool False))
     \<and> sent s4 = sent s \<and> access_token s4 = access_token s \<and> pending s4 = pending s"
proof -
  from store_field_valid [OF d, of "''hspHome''" hsp] obtain s1 where
    s1: "store_field s index ''hspHome'' hsp = (s1, Inr ())"
      "thermostat_at s1 index = Inr (d(''hspHome'' \<mapsto> hsp))"
      "sent s1 = sent s" "access_token s1 = access_token s" "pending s1 = pending s"
    by blast
  from store_field_valid [OF s1(2), of "''cspHome''" csp] obtain s2 where
    s2: "store_field s1 index ''cspHome'' csp = (s2, Inr ())"
      "thermostat_at s2 index = Inr (d(''hspHome'' \<mapsto> hsp, ''cspHome'' \<mapsto> csp))"
      "sent s2 = sent s1" "access_token s2 = access_token s1" "pending s2 = pending s1"
    by blast
  from store_field_valid [OF s2(2), of "''schedOverride''" "JInt 0"] obtain s3 where
    s3: "store_field s2 index ''schedOverride'' (JInt 0) = (s3, Inr ())"
      "thermostat_at s3 index =
         Inr (d(''hspHome'' \<mapsto> hsp, ''cspHome'' \<mapsto> csp, ''schedOverride'' \<mapsto> JInt 0))"
      "sent s3 = sent s2" "access_token s3 = access_token s2" "pending s3 = pending s2"
    by blast
  from store_field_valid [OF s3(2), of "''schedEnabled''" "JBool False"] obtain s4 where
    s4: "store_field s3 index ''schedEnabled'' (JBool False) = (s4, Inr ())"
      "thermostat_at s4 index =
         Inr (d(''hspHome'' \<mapsto> hsp, ''cspHome'' \<mapsto> csp, ''schedOverride'' \<mapsto> JInt 0,
               ''schedEnabled'' \<mapsto> JBool False))"
      "sent s4 = sent s3" "access_token s4 = access_token s3" "pending s4 = pending s3"
    by blast
  have "set_permanent_hold s index cool_temp heat_temp =
       make_request s4 (PInt index)
         (PDict [''hspHome'' \<mapsto> hsp, ''cspHome'' \<mapsto> csp, ''schedOverride'' \<mapsto> JInt 0,
                 ''schedEnabled'' \<mapsto> JBool False])
         (Msg ''set permanent hold'') 0"
    unfolding set_permanent_hold_def
    using round1_not_null [OF rh] round1_not_null [OF rc]
    by (simp add: arg_or_field_given rh rc s1(1) s2(1) s3(1) s4(1))
  with s1 s2 s3 s4 show ?thesis by (intro exI [of _ s4]) simp
qed

lemma hold_preference_not_null: "hold_preference e \<noteq> JNull"
  by (simp add: hold_preference_def split: jval.splits)

lemma request_after_stores:
  assumes d4: "thermostat_at s4 index = Inr d4" and i: "d4 ''id'' = Some (JStr device_id)"
    and tk: "access_token s4 = JStr token" and p: "pending s4 = Response 200 js # rest"
  shows "\<exists>s'. make_request s4 (PInt index) (PDict body) l 0 = (s', Inr (Some (Response 200 js)))
     \<and> thermostat_at s' index = Inr d4
     \<and> sent s' = sent s4 @ [HttpPut (device_data_url @ device_id) token (PDict body)]
     \<and> skip_next s'"
proof -
  let ?s' = "s4\<lparr>skip_next := True, pending := rest,
        sent := sent s4 @ [HttpPut (device_data_url @ device_id) token (PDict body)]\<rparr>"
  have ok: "make_request s4 (PInt index) (PDict body) l 0 = (?s', Inr (Some (Response 200 js)))"
    by (rule make_request_ok [OF d4 i tk p])
  have "thermostat_at ?s' index = thermostat_at s4 index"
    by (rule thermostat_at_same) simp
  with ok d4 show ?thesis by (intro exI [of _ ?s']) simp
qed

text \<open>
  What a hold call of the client does when the index is valid, the device has an
  \<^verbatim>\<open>id\<close>, the token is a string and the server answers 200.
\<close>

lemma set_temp_hold_ok:
  assumes d: "thermostat_at s index = Inr d"
    and rh: "round1 heat_temp = Inr hsp" and rc: "round1 cool_temp = Inr csp"
    and dur: "hold_duration \<noteq> JNull"
    and i: "d ''id'' = Some (JStr device_id)" and tk: "access_token s = JStr token"
    and p: "pending s = Response 200 js # rest"
  shows "\<exists>s' d' body. set_temp_hold s index cool_temp heat_temp hold_duration
         = (s', Inr (Some (Response 200 js)))
     \<and> thermostat_at s' index = Inr d'
     \<and> d' ''hspHome'' = Some hsp \<and> d' ''cspHome'' = Some csp
     \<and> sent s' = sent s @ [HttpPut (device_data_url @ device_id) token (PDict body)]
     \<and> body ''hspHome'' = Some hsp \<and> body ''cspHome'' = Some csp
     \<and> skip_next s'"
proof -
  let ?body = "[''hspHome'' \<mapsto> hsp, ''cspHome'' \<mapsto> csp, ''schedOverride'' \<mapsto> JInt 1,
                 ''schedOverrideDuration'' \<mapsto> hold_duration]"
  let ?d = "d(''hspHome'' \<mapsto> hsp, ''cspHome'' \<mapsto> csp, ''schedOverride'' \<mapsto> JInt 1,
               ''schedOverrideDuration'' \<mapsto> hold_duration)"
  from set_temp_hold_valid [OF d rh rc dur] obtain s4 where
    r: "set_temp_hold s index cool_temp heat_temp hold_duration =
       make_request s4 (PInt index) (PDict ?body) (Msg ''set hold temp'') 0"
    and d4: "thermostat_at s4 index = Inr ?d"
    and s4: "sent s4 = sent s" "access_token s4 = access_token s" "pending s4 = pending s"
    by blast
  have i4: "?d ''id'' = Some (JStr device_id)" using i by simp
  have tk4: "access_token s4 = JStr token" and p4: "pending s4 = Response 200 js # rest"
    using tk p s4 by simp_all
  from request_after_stores [OF d4 i4 tk4 p4, of ?body "Msg ''set hold temp''"]
  obtain s' where
    s': "make_request s4 (PInt index) (PDict ?body) (Msg ''set hold temp'') 0
        = (s', Inr (Some (Response 200 js)))"
      "thermostat_at s' index = Inr ?d"
      "sent s' = sent s4 @ [HttpPut (device_data_url @ device_id) token (PDict ?body)]"
      "skip_next s'"
    by blast
  have "?d ''hspHome'' = Some hsp" "?d ''cspHome'' = Some csp"
    "?body ''hspHome'' = Some hsp" "?body ''cspHome'' = Some csp"
    by simp_all
  with r s' s4(1) show ?thesis by (intro exI [of _ s'] exI [of _ ?d] exI [of _ ?body]) simp
qed

lemma set_permanent_hold_ok:
  assumes d: "thermostat_at s index = Inr d"
    and rh: "round1 heat_temp = Inr hsp" and rc: "round1 cool_temp = Inr csp"
    and i: "d ''id'' = Some (JStr device_id)" and tk: "access_token s = JStr token"
    and p: "pending s = Response 200 js # rest"
  shows "\<exists>s' d' body. set_permanent_hold s index cool_temp heat_temp
         = (s', Inr (Some (Response 200 js)))
     \<and> thermostat_at s' index = Inr d'
     \<and> d' ''hspHome'' = Some hsp \<and> d' ''cspHome'' = Some csp
     \<and> sent s' = sent s @ [HttpPut (device_data_url @ device_id) token (PDict body)]
     \<and> body ''hspHome'' = Some hsp \<and> body ''cspHome'' = Some csp
     \<and> skip_next s'"
proof -
  let ?body = "[''hspHome'' \<mapsto> hsp, ''cspHome'' \<mapsto> csp, ''schedOverride'' \<mapsto> JInt 0,
                 ''schedEnabled'' \<mapsto> JBool False]"
  let ?d = "d(''hspHome'' \<mapsto> hsp, ''cspHome'' \<mapsto> csp, ''schedOverride'' \<mapsto> JInt 0,
               ''schedEnabled'' \<mapsto> JBool False)"
  from set_permanent_hold_valid [OF d rh rc] obtain s4 where
    r: "set_permanent_hold s index cool_temp heat_temp =
       make_request s4 (PInt index) (PDict ?body) (Msg ''set permanent hold'') 0"
    and d4: "thermostat_at s4 index = Inr ?d"
    and s4: "sent s4 = sent s" "access_token s4 = access_token s" "pending s4 = pending s"
    by blast
  have i4: "?d ''id'' = Some (JStr device_id)" using i by simp
  have tk4: "access_token s4 = JStr token" and p4: "pending s4 = Response 200 js # rest"
    using tk p s4 by simp_all
  from request_after_stores [OF d4 i4 tk4 p4, of ?body "Msg ''set permanent hold''"]
  obtain s' where
    s': "make_request s4 (PInt index) (PDict ?body) (Msg ''set permanent hold'') 0
        = (s', Inr (Some (Response 200 js)))"
      "thermostat_at s' index = Inr ?d"
      "sent s' = sent s4 @ [HttpPut (device_data_url @ device_id) token (PDict ?body)]"
      "skip_next s'"
    by blast
  have "?d ''hspHome'' = Some hsp" "?d ''cspHome'' = Some csp"
    "?body ''hspHome'' = Some hsp" "?body ''cspHome'' = Some csp"
    by simp_all
  with r s' s4(1) show ?thesis by (intro exI [of _ s'] exI [of _ ?d] exI [of _ ?body]) simp
qed

lemma ready_for_putD:
  assumes "ready_for_put s index device_id token"
  obtains d js rest where "thermostat_at s index = Inr d" "d ''id'' = Some (JStr device_id)"
    "access_token s = JStr token" "pending s = Response 200 js # rest"
  using assms
  by (auto simp add: ready_for_put_def split: sum.splits list.splits response.splits)

lemma auto_temp_hold_ok:
  assumes rdy: "ready_for_put s (ent_thermostat_index e) device_id token"
    and rh: "round1 heat_temp = Inr hsp" and rc: "round1 cool_temp = Inr csp"
  shows "\<exists>s'. Thermostat_set_auto_temp_hold e s heat_temp cool_temp =
        ((e\<lparr>ent_cool_setpoint := cool_temp, ent_heat_setpoint := heat_temp,
            ent_update_without_throttle := True\<rparr>, s'), Inr ())
      \<and> holds_setpoints s (ent_thermostat_index e) device_id token hsp csp s'"
proof -
  from rdy obtain d js rest where
    d: "thermostat_at s (ent_thermostat_index e) = Inr d" and i: "d ''id'' = Some (JStr device_id)"
    and tk: "access_token s = JStr token" and p: "pending s = Response 200 js # rest"
    by (rule ready_for_putD)
  let ?call = "if ent_preset_mode e = PRESET_MANUAL
     then set_permanent_hold s (ent_thermostat_index e) cool_temp heat_temp
     else set_temp_hold s (ent_thermostat_index e) cool_temp heat_temp (hold_preference e)"
  from set_temp_hold_ok [OF d rh rc hold_preference_not_null i tk p]
    set_permanent_hold_ok [OF d rh rc i tk p]
  obtain s' where call: "?call = (s', Inr (Some (Response 200 js)))"
    and h: "holds_setpoints s (ent_thermostat_index e) device_id token hsp csp s'"
    unfolding holds_setpoints_def by (cases "ent_preset_mode e = PRESET_MANUAL") (simp_all, blast+)
  have "Thermostat_set_auto_temp_hold e s heat_temp cool_temp =
        ((e\<lparr>ent_cool_setpoint := cool_temp, ent_heat_setpoint := heat_temp,
            ent_update_without_throttle := True\<rparr>, s'), Inr ())"
    unfolding Thermostat_set_auto_temp_hold_def
    using round1_not_null [OF rh] round1_not_null [OF rc] call by simp
  with h show ?thesis by blast
qed

text \<open>
  Claim C10. \<^verbatim>\<open>Thermostat.set_temp_hold\<close> of the entity: in a mode other than heat and cool
  it raises \<^verbatim>\<open>UnboundLocalError\<close> and leaves the entity and the client as they were, so no
  request was sent and no cached field written. In heat mode, when the entity's record has
  \<^verbatim>\<open>cspHome\<close>, both values are numbers and the client is ready, it returns with the given
  temperature as heat setpoint and the stored \<^verbatim>\<open>cspHome\<close> as cool setpoint, in the entity,
  in the client's cache and in the one request sent; in cool mode the same with the given
  temperature as cool setpoint and the stored \<^verbatim>\<open>hspHome\<close> as heat setpoint.
\<close>

theorem entity_set_temp_hold_heat_or_cool:
  "(ent_hvac_mode e \<noteq> HEAT \<and> ent_hvac_mode e \<noteq> COOL \<longrightarrow>
      Thermostat_set_temp_hold e s temp = ((e, s), Inl UnboundLocalError))
   \<and> (ent_hvac_mode e = HEAT \<and> ent_thermostat e ''cspHome'' = Some stored
        \<and> round1 temp = Inr t1 \<and> round1 stored = Inr s1
        \<and> ready_for_put s (ent_thermostat_index e) device_id token \<longrightarrow>
      (\<exists>s'. Thermostat_set_temp_hold e s temp =
          ((e\<lparr>ent_cool_setpoint := stored, ent_heat_setpoint := temp,
              ent_update_without_throttle := True\<rparr>, s'), Inr ())
        \<and> holds_setpoints s (ent_thermostat_index e) device_id token t1 s1 s'))
   \<and> (ent_hvac_mode e = COOL \<and> ent_thermostat e ''hspHome'' = Some stored
        \<and> round1 temp = Inr t1 \<and> round1 stored = Inr s1
        \<and> ready_for_put s (ent_thermostat_index e) device_id token \<longrightarrow>
      (\<exists>s'. Thermostat_set_temp_hold e s temp =
          ((e\<lparr>ent_cool_setpoint := temp, ent_heat_setpoint := stored,
              ent_update_without_throttle := True\<rparr>, s'), Inr ())
        \<and> holds_setpoints s (ent_thermostat_index e) device_id token s1 t1 s'))"
proof (intro conjI impI)
  assume "ent_hvac_mode e \<noteq> HEAT \<and> ent_hvac_mode e \<noteq> COOL"
  then show "Thermostat_set_temp_hold e s temp = ((e, s), Inl UnboundLocalError)"
    by (simp add: Thermostat_set_temp_hold_def)
next
  assume a: "ent_hvac_mode e = HEAT \<and> ent_thermostat e ''cspHome'' = Some stored
        \<and> round1 temp = Inr t1 \<and> round1 stored = Inr s1
        \<and> ready_for_put s (ent_thermostat_index e) device_id token"
  then have rdy: "ready_for_put s (ent_thermostat_index e) device_id token"
    and rt: "round1 temp = Inr t1" and rs: "round1 stored = Inr s1" by simp_all
  from auto_temp_hold_ok [OF rdy rt rs] obtain s' where
    s': "Thermostat_set_auto_temp_hold e s temp stored =
        ((e\<lparr>ent_cool_setpoint := stored, ent_heat_setpoint := temp,
            ent_update_without_throttle := True\<rparr>, s'), Inr ())"
      "holds_setpoints s (ent_thermostat_index e) device_id token t1 s1 s'"
    by blast
  have "Thermostat_set_temp_hold e s temp =
          ((e\<lparr>ent_cool_setpoint := stored, ent_heat_setpoint := temp,
              ent_update_without_throttle := True\<rparr>, s'), Inr ())"
    unfolding Thermostat_set_temp_hold_def using a s'(1) by simp
  with s'(2) show "\<exists>s'. Thermostat_set_temp_hold e s temp =
          ((e\<lparr>ent_cool_setpoint := stored, ent_heat_setpoint := temp,
              ent_update_without_throttle := True\<rparr>, s'), Inr ())
        \<and> holds_setpoints s (ent_thermostat_index e) device_id token t1 s1 s'"
    by blast
next
  assume a: "ent_hvac_mode e = COOL \<and> ent_thermostat e ''hspHome'' = Some stored
        \<and> round1 temp = Inr t1 \<and> round1 stored = Inr s1
        \<and> ready_for_put s (ent_thermostat_index e) device_id token"
  then have rdy: "ready_for_put s (ent_thermostat_index e) device_id token"
    and rt: "round1 temp = Inr t1" and rs: "round1 stored = Inr s1" by simp_all
  from auto_temp_hold_ok [OF rdy rs rt] obtain s' where
    s': "Thermostat_set_auto_temp_hold e s stored temp =
        ((e\<lparr>ent_cool_setpoint := temp, ent_heat_setpoint := stored,
            ent_update_without_throttle := True\<rparr>, s'), Inr ())"
      "holds_setpoints s (ent_thermostat_index e) device_id token s1 t1 s'"
    by blast
  have "Thermostat_set_temp_hold e s temp =
          ((e\<lparr>ent_cool_setpoint := temp, ent_heat_setpoint := stored,
              ent_update_without_throttle := True\<rparr>, s'), Inr ())"
    unfolding Thermostat_set_temp_hold_def using a s'(1) by simp
  with s'(2) show "\<exists>s'. Thermostat_set_temp_hold e s temp =
          ((e\<lparr>ent_cool_setpoint := temp, ent_heat_setpoint := stored,
              ent_update_without_throttle := True\<rparr>, s'), Inr ())
        \<and> holds_setpoints s (ent_thermostat_index e) device_id token s1 t1 s'"
    by blast
qed

text \<open>On the example client, with an entity in auto, heat and cool mode.\<close>

lemma example_ready: "ready_for_put example_client 0 ''dev1'' ''token1''"
  unfolding ready_for_put_def example_thermostat_at by (simp add: example_client_def)

theorem entity_set_temp_hold_heat_or_cool_witness:
  "Thermostat_set_temp_hold (heat_entity\<lparr>ent_hvac_mode := AUTO\<rparr>) example_client (JInt 21)
     = ((heat_entity\<lparr>ent_hvac_mode := AUTO\<rparr>, example_client), Inl UnboundLocalError)
   \<and> (\<exists>s'. Thermostat_set_temp_hold heat_entity example_client (JInt 21) =
          ((heat_entity\<lparr>ent_cool_setpoint := JInt 24, ent_heat_setpoint := JInt 21,
              ent_update_without_throttle := True\<rparr>, s'), Inr ())
        \<and> holds_setpoints example_client 0 ''dev1'' ''token1'' (JInt 21) (JInt 24) s')
   \<and> (\<exists>s'. Thermostat_set_temp_hold (heat_entity\<lparr>ent_hvac_mode := COOL\<rparr>) example_client (JInt 21) =
          ((heat_entity\<lparr>ent_hvac_mode := COOL, ent_cool_setpoint := JInt 21,
              ent_heat_setpoint := JInt 20, ent_update_without_throttle := True\<rparr>, s'), Inr ())
        \<and> holds_setpoints example_client 0 ''dev1'' ''token1'' (JInt 20) (JInt 21) s')"
proof -
  have i: "ent_thermostat_index heat_entity = 0"
    and c: "ent_thermostat heat_entity ''cspHome'' = Some (JInt 24)"
    and h: "ent_thermostat heat_entity ''hspHome'' = Some (JInt 20)"
    and m: "ent_hvac_mode heat_entity = HEAT"
    by (simp_all add: heat_entity_def blank_entity_def)
  have r: "round1 (JInt 21) = Inr (JInt 21)" "round1 (JInt 24) = Inr (JInt 24)"
    "round1 (JInt 20) = Inr (JInt 20)"
    by (simp_all add: round1_def)
  from entity_set_temp_hold_heat_or_cool
    [of "heat_entity\<lparr>ent_hvac_mode := AUTO\<rparr>" example_client "JInt 21"]
  have 1: "Thermostat_set_temp_hold (heat_entity\<lparr>ent_hvac_mode := AUTO\<rparr>) example_client (JInt 21)
     = ((heat_entity\<lparr>ent_hvac_mode := AUTO\<rparr>, example_client), Inl UnboundLocalError)"
    by simp
  from entity_set_temp_hold_heat_or_cool
    [of heat_entity example_client "JInt 21" "JInt 24" "JInt 21" "JInt 24" "''dev1''" "''token1''"]
    i c m r example_ready
  have 2: "\<exists>s'. Thermostat_set_temp_hold heat_entity example_client (JInt 21) =
          ((heat_entity\<lparr>ent_cool_setpoint := JInt 24, ent_heat_setpoint := JInt 21,
              ent_update_without_throttle := True\<rparr>, s'), Inr ())
        \<and> holds_setpoints example_client 0 ''dev1'' ''token1'' (JInt 21) (JInt 24) s'"
    by simp
  from entity_set_temp_hold_heat_or_cool
    [of "heat_entity\<lparr>ent_hvac_mode := COOL\<rparr>" example_client "JInt 21" "JInt 20" "JInt 21"
        "JInt 20" "''dev1''" "''token1''"]
    i h r example_ready
  have 3: "\<exists>s'. Thermostat_set_temp_hold (heat_entity\<lparr>ent_hvac_mode := COOL\<rparr>) example_client (JInt 21) =
          ((heat_entity\<lparr>ent_hvac_mode := COOL, ent_cool_setpoint := JInt 21,
              ent_heat_setpoint := JInt 20, ent_update_without_throttle := True\<rparr>, s'), Inr ())
        \<and> holds_setpoints example_client 0 ''dev1'' ''token1'' (JInt 20) (JInt 21) s'"
    by simp
  from 1 2 3 show ?thesis by blast
qed

end
